theory Spec2Isabelle
  imports Main
begin

section \<open>Material price tracker: S3 object to Zoho Cliq recipients\<close>

text \<open>
  A shallow embedding of \<^verbatim>\<open>src/material-price.py\<close>. The script reads its settings from
  the process environment, refreshes an OAuth token, downloads one S3 object into a
  temporary file, parses the recipient list and uploads the file to every recipient.

  Python values are modelled as follows. A \<^verbatim>\<open>str\<close> is a \<^typ>\<open>string\<close> whose characters
  stand for code points below 256. \<^verbatim>\<open>os.environ.get(k)\<close> is a \<^typ>\<open>string option\<close>
  (\<^verbatim>\<open>None\<close> when the variable is unset). A value decoded from JSON is a \<open>json\<close>.
  An exception is the \<open>Inl\<close> side of a sum. The remote services and the operating
  system are parameters of the run (the record \<open>world\<close>); every call the script makes to
  them, and every line it prints, is appended to the trace of the state. The environment
  is the one the script sees after \<^verbatim>\<open>load_dotenv()\<close>; paths are POSIX paths.
\<close>

subsection \<open>Python values\<close>

text \<open>A Python float: a finite double \<open>m * 2 ^ e\<close>, an infinity (with its sign) or NaN.\<close>

datatype pyfloat = FFinite int int | FInf bool | FNaN

datatype json =
    JNull
  | JBool bool
  | JInt int
  | JFloat pyfloat
  | JStr string
  | JArr "json list"
  | JObj "(string \<times> json) list"

text \<open>
  Truth value of a decoded JSON value, as \<^verbatim>\<open>if not x\<close> tests it: \<^verbatim>\<open>None\<close>, \<^verbatim>\<open>False\<close>,
  zero and the empty string, list and dict are false.
\<close>

fun py_truthy :: "json \<Rightarrow> bool" where
  "py_truthy JNull = False"
| "py_truthy (JBool b) = b"
| "py_truthy (JInt i) = (i \<noteq> 0)"
| "py_truthy (JFloat (FFinite m e)) = (m \<noteq> 0)"
| "py_truthy (JFloat (FInf sg)) = True"
| "py_truthy (JFloat FNaN) = True"
| "py_truthy (JStr s) = (s \<noteq> [])"
| "py_truthy (JArr xs) = (xs \<noteq> [])"
| "py_truthy (JObj kvs) = (kvs \<noteq> [])"

text \<open>Truth value of a setting read with \<^verbatim>\<open>os.environ.get\<close>: unset and empty are false.\<close>

fun env_truthy :: "string option \<Rightarrow> bool" where
  "env_truthy None = False"
| "env_truthy (Some v) = (v \<noteq> [])"

datatype error =
    ValueError string
  | ValueErrorToken json
  | HTTPError int
  | RequestException string
  | JSONDecodeError
  | AttributeError
  | TypeError
  | S3Exception string
  | S3OtherError string
  | OSError string
  | FileNotFoundError string

text \<open>
  \<open>ValueError m\<close> is \<^verbatim>\<open>ValueError(m)\<close> for the fixed messages of the script;
  \<open>ValueErrorToken d\<close> is \<^verbatim>\<open>ValueError(f"Failed to get access token: {d}")\<close>;
  \<open>HTTPError c\<close> is what \<^verbatim>\<open>raise_for_status\<close> raises on status \<open>c\<close>;
  \<open>RequestException\<close> is an exception of \<^verbatim>\<open>requests.post\<close> itself (no response);
  \<open>JSONDecodeError\<close> is \<^verbatim>\<open>response.json()\<close> on a body that is not JSON;
  \<open>AttributeError\<close> is \<^verbatim>\<open>.get\<close> on a value that is not a dict; \<open>TypeError\<close> is
  \<^verbatim>\<open>"error" in x\<close> on a value that is no container;
  \<open>S3Exception m\<close> is \<^verbatim>\<open>Exception(f"Failed to download from S3: {e}")\<close> with \<open>m\<close> the
  text of \<^verbatim>\<open>e\<close>; \<open>S3OtherError\<close> is an exception of boto3 that is not a
  \<^verbatim>\<open>ClientError\<close>, raised by \<^verbatim>\<open>boto3.client\<close> or by \<^verbatim>\<open>download_file\<close>;
  \<open>OSError\<close> is what \<^verbatim>\<open>NamedTemporaryFile\<close> raises when the file cannot be created;
  \<open>FileNotFoundError\<close> is \<^verbatim>\<open>open\<close> on a missing path.
\<close>

subsection \<open>String operations of the standard library\<close>

text \<open>\<^verbatim>\<open>str.isspace\<close> on one code point below 256.\<close>

definition isspace :: "char \<Rightarrow> bool" where
  "isspace c =
     (let n = (of_char c :: nat)
      in (9 \<le> n \<and> n \<le> 13) \<or> (28 \<le> n \<and> n \<le> 32) \<or> n = 133 \<or> n = 160)"

text \<open>\<^verbatim>\<open>s.strip()\<close>: leading and trailing whitespace removed.\<close>

definition strip :: "string \<Rightarrow> string" where
  "strip s = rev (dropWhile isspace (rev (dropWhile isspace s)))"

text \<open>\<^verbatim>\<open>s.split(sep)\<close> for a one-character separator: one piece more than separators.\<close>

fun split :: "char \<Rightarrow> string \<Rightarrow> string list" where
  "split sep [] = [[]]"
| "split sep (c # cs) =
     (if c = sep then [] # split sep cs
      else (case split sep cs of
              [] \<Rightarrow> [[c]]
            | p # ps \<Rightarrow> (c # p) # ps))"

text \<open>\<^verbatim>\<open>sep.join(pieces)\<close>, the inverse of \<open>split\<close>.\<close>

fun join :: "char \<Rightarrow> string list \<Rightarrow> string" where
  "join sep [] = []"
| "join sep [p] = p"
| "join sep (p # q # ps) = p @ sep # join sep (q # ps)"

text \<open>\<^verbatim>\<open>os.path.basename\<close> (POSIX): what follows the last slash.\<close>

definition basename :: "string \<Rightarrow> string" where
  "basename p = rev (takeWhile (\<lambda>c. c \<noteq> CHR ''/'') (rev p))"

text \<open>
  \<^verbatim>\<open>os.path.splitext\<close> (POSIX): the extension starts at the last dot of the last path
  component, unless only dots precede it there.
\<close>

definition splitext :: "string \<Rightarrow> string \<times> string" where
  "splitext p =
     (let tl_part = basename p;
          after = rev (takeWhile (\<lambda>c. c \<noteq> CHR ''.'') (rev tl_part));
          stem = take (length tl_part - length after - 1) tl_part
      in if CHR ''.'' \<in> set tl_part \<and> (\<exists>c \<in> set stem. c \<noteq> CHR ''.'')
         then (take (length p - length after - 1) p, CHR ''.'' # after)
         else (p, []))"

text \<open>\<^verbatim>\<open>os.path.join(a, b)\<close> (POSIX) for two components.\<close>

definition path_join :: "string \<Rightarrow> string \<Rightarrow> string" where
  "path_join a b =
     (if b \<noteq> [] \<and> hd b = CHR ''/'' then b
      else if a = [] \<or> last a = CHR ''/'' then a @ b
      else a @ ''/'' @ b)"

text \<open>\<^verbatim>\<open>needle in haystack\<close> on two strings: substring test.\<close>

fun is_prefix :: "string \<Rightarrow> string \<Rightarrow> bool" where
  "is_prefix [] ys = True"
| "is_prefix (x # xs) [] = False"
| "is_prefix (x # xs) (y # ys) = (x = y \<and> is_prefix xs ys)"

fun str_contains :: "string \<Rightarrow> string \<Rightarrow> bool" where
  "str_contains needle [] = (needle = [])"
| "str_contains needle (c # cs) = (is_prefix needle (c # cs) \<or> str_contains needle cs)"

subsection \<open>Configuration from environment variables\<close>

record config =
  ZOHO_REFRESH_TOKEN :: "string option"
  ZOHO_CLIENT_ID :: "string option"
  ZOHO_CLIENT_SECRET :: "string option"
  ZOHO_CLIQ_USER_IDS :: string
  ZOHO_BOT_NAME :: string
  AWS_S3_BUCKET :: "string option"
  AWS_S3_FILE_KEY :: "string option"
  AWS_REGION :: string

text \<open>\<^verbatim>\<open>os.environ.get(k, default)\<close>.\<close>

definition environ_get :: "(string \<rightharpoonup> string) \<Rightarrow> string \<Rightarrow> string \<Rightarrow> string" where
  "environ_get env k dflt = (case env k of None \<Rightarrow> dflt | Some v \<Rightarrow> v)"

text \<open>The module-level assignments, lines 31 to 39.\<close>

definition load_config :: "(string \<rightharpoonup> string) \<Rightarrow> config" where
  "load_config env =
     \<lparr> ZOHO_REFRESH_TOKEN = env ''ZOHO_REFRESH_TOKEN'',
       ZOHO_CLIENT_ID = env ''ZOHO_CLIENT_ID'',
       ZOHO_CLIENT_SECRET = env ''ZOHO_CLIENT_SECRET'',
       ZOHO_CLIQ_USER_IDS = environ_get env ''ZOHO_CLIQ_USER_IDS'' [],
       ZOHO_BOT_NAME = environ_get env ''ZOHO_BOT_NAME'' ''Metal Price Tracker'',
       AWS_S3_BUCKET = env ''AWS_S3_BUCKET'',
       AWS_S3_FILE_KEY = env ''AWS_S3_FILE_KEY'',
       AWS_REGION = environ_get env ''AWS_REGION'' ''ap-south-1'' \<rparr>"

definition ZOHO_TOKEN_URL :: string where
  "ZOHO_TOKEN_URL = ''https://accounts.zoho.in/oauth/v2/token''"

definition ZOHO_CLIQ_FILES_URL :: string where
  "ZOHO_CLIQ_FILES_URL = ''https://cliq.zoho.in/api/v2/bots/policychatbotv/files''"

subsection \<open>Requests, responses and the trace of a run\<close>

text \<open>The form body of the token request, lines 58 to 63, and its header.\<close>

record token_request =
  tok_url :: string
  tok_content_type :: string
  refresh_token :: "string option"
  client_id :: "string option"
  client_secret :: "string option"
  grant_type :: string

text \<open>
  The multipart upload request, lines 133 to 150. \<open>authorization\<close> holds the token that
  is formatted into the header \<^verbatim>\<open>Zoho-oauthtoken {access_token}\<close>; \<open>file_name\<close> and
  \<open>file_content\<close> are the two parts of the \<^verbatim>\<open>file\<close> field; \<open>comments\<close> holds the list
  whose JSON encoding is sent.
\<close>

record upload_request =
  up_url :: string
  authorization :: json
  file_name :: string
  file_content :: string
  comments :: "string list"
  user_id :: string
  bot_name :: string

text \<open>
  An HTTP response, as far as the script reads it: the status code, the body as text,
  and the body decoded as JSON (\<open>None\<close> when \<^verbatim>\<open>response.json()\<close> would raise).
\<close>

record response =
  status_code :: int
  body_text :: string
  json_body :: "json option"

datatype http_outcome = Reply response | NetworkError string

datatype s3_outcome = S3Ok string | S3ClientError string | S3Failure string

text \<open>One constructor for each line the script prints.\<close>

datatype msg =
    MsgRule
  | MsgStarting
  | MsgStep1
  | MsgTokenRefreshed
  | MsgStep2
  | MsgDownloaded string string
  | MsgStep3
  | MsgUsingIds nat
  | MsgFound nat
  | MsgStep4 nat
  | MsgRequestUrl string
  | MsgUploaded string
  | MsgUploadFailed string int
  | MsgResponse string
  | MsgCleanedUp
  | MsgCleanupWarning string
  | MsgSummary
  | MsgSuccessful nat nat
  | MsgDone

datatype event =
    Print msg
  | TokenPost token_request
  | TempFileCreated string
  | S3Download string string string string
  | UploadPost upload_request
  | Unlink string

text \<open>
  \<open>S3Download region bucket key path\<close> is the call of \<^verbatim>\<open>download_file\<close>; \<open>Unlink p\<close>
  is the call of \<^verbatim>\<open>os.unlink\<close>, whether or not it succeeds.
\<close>

fun is_print :: "event \<Rightarrow> bool" where
  "is_print (Print m) = True"
| "is_print e = False"

fun is_network :: "event \<Rightarrow> bool" where
  "is_network (TokenPost r) = True"
| "is_network (S3Download rg b k p) = True"
| "is_network (UploadPost r) = True"
| "is_network e = False"

fun is_upload :: "event \<Rightarrow> bool" where
  "is_upload (UploadPost r) = True"
| "is_upload e = False"

fun is_unlink :: "event \<Rightarrow> bool" where
  "is_unlink (Unlink p) = True"
| "is_unlink e = False"

text \<open>
  What the run does not decide: the environment variables, the reply of the token
  endpoint, whether creating the S3 client for a region fails, the outcome of the S3
  download (by region, bucket and key), the reply to each upload (by the number of
  uploads already sent, and the request), the temporary directory and the random part
  of the temporary file's name, whether creating a temporary file with a suffix fails,
  and whether deleting a path fails (each failure with the text of the exception).
\<close>

record world =
  environ :: "string \<rightharpoonup> string"
  oauth_server :: "token_request \<Rightarrow> http_outcome"
  boto3_client_failure :: "string \<Rightarrow> string option"
  s3_service :: "string \<Rightarrow> string \<Rightarrow> string \<Rightarrow> s3_outcome"
  cliq_server :: "nat \<Rightarrow> upload_request \<Rightarrow> http_outcome"
  tmp_dir :: string
  tmp_random :: string
  tmp_failure :: "string \<Rightarrow> string option"
  unlink_failure :: "string \<Rightarrow> string option"

record state =
  fs :: "string \<rightharpoonup> string"
  trace :: "event list"

definition emit :: "event \<Rightarrow> state \<Rightarrow> state" where
  "emit e s = s\<lparr>trace := trace s @ [e]\<rparr>"

definition uploads_sent :: "state \<Rightarrow> nat" where
  "uploads_sent s = length (filter is_upload (trace s))"

subsection \<open>Zoho OAuth token management\<close>

text \<open>\<^verbatim>\<open>d.get(k)\<close> on a decoded JSON value: only a dict has the method.\<close>

fun dict_get :: "json \<Rightarrow> string \<Rightarrow> error + json" where
  "dict_get (JObj kvs) k = Inr (case map_of kvs k of None \<Rightarrow> JNull | Some v \<Rightarrow> v)"
| "dict_get j k = Inl AttributeError"

text \<open>\<^verbatim>\<open>get_zoho_access_token\<close>, lines 50 to 79; \<open>token_request_of\<close> is its request.\<close>

definition token_request_of :: "config \<Rightarrow> token_request" where
  "token_request_of c =
     \<lparr> tok_url = ZOHO_TOKEN_URL,
       tok_content_type = ''application/x-www-form-urlencoded'',
       refresh_token = ZOHO_REFRESH_TOKEN c,
       client_id = ZOHO_CLIENT_ID c,
       client_secret = ZOHO_CLIENT_SECRET c,
       grant_type = ''refresh_token'' \<rparr>"

definition get_zoho_access_token :: "world \<Rightarrow> config \<Rightarrow> state \<Rightarrow> (error + json) \<times> state" where
  "get_zoho_access_token w c s =
     (if \<not> list_all env_truthy [ZOHO_REFRESH_TOKEN c, ZOHO_CLIENT_ID c, ZOHO_CLIENT_SECRET c]
      then (Inl (ValueError ''Missing Zoho OAuth credentials in environment variables''), s)
      else
       (let payload = token_request_of c;
            s1 = emit (TokenPost payload) s
        in (case oauth_server w payload of
             NetworkError m \<Rightarrow> (Inl (RequestException m), s1)
           | Reply r \<Rightarrow>
              (if 400 \<le> status_code r \<and> status_code r < 600
               then (Inl (HTTPError (status_code r)), s1)
               else (case json_body r of
                       None \<Rightarrow> (Inl JSONDecodeError, s1)
                     | Some token_data \<Rightarrow>
                         (case dict_get token_data ''access_token'' of
                            Inl e \<Rightarrow> (Inl e, s1)
                          | Inr access_token \<Rightarrow>
                             (if \<not> py_truthy access_token
                              then (Inl (ValueErrorToken token_data), s1)
                              else (Inr access_token,
                                    emit (Print MsgTokenRefreshed) s1))))))))"

subsection \<open>AWS S3 integration\<close>

text \<open>
  \<^verbatim>\<open>download_file_from_s3\<close>, lines 86 to 98. The client is created outside the
  \<^verbatim>\<open>try\<close>: when that raises, \<^verbatim>\<open>download_file\<close> is never called. A successful
  download leaves the whole object at the local path; a failed one leaves the path as it
  was.
\<close>

definition download_file_from_s3 ::
    "world \<Rightarrow> config \<Rightarrow> string \<Rightarrow> string \<Rightarrow> string \<Rightarrow> state \<Rightarrow> (error + string) \<times> state" where
  "download_file_from_s3 w c bucket key local_path s =
     (case boto3_client_failure w (AWS_REGION c) of
        Some m \<Rightarrow> (Inl (S3OtherError m), s)
      | None \<Rightarrow>
         (let s1 = emit (S3Download (AWS_REGION c) bucket key local_path) s
          in (case s3_service w (AWS_REGION c) bucket key of
               S3Ok content \<Rightarrow>
                 (Inr local_path,
                  emit (Print (MsgDownloaded bucket key))
                    (s1\<lparr>fs := (fs s1)(local_path \<mapsto> content)\<rparr>))
             | S3ClientError m \<Rightarrow> (Inl (S3Exception m), s1)
             | S3Failure m \<Rightarrow> (Inl (S3OtherError m), s1))))"

text \<open>\<^verbatim>\<open>get_user_ids\<close>, lines 101 to 113.\<close>

definition get_user_ids :: "config \<Rightarrow> state \<Rightarrow> (error + string list) \<times> state" where
  "get_user_ids c s =
     (if ZOHO_CLIQ_USER_IDS c = []
      then (Inl (ValueError
              ''No user IDs configured. Set ZOHO_CLIQ_USER_IDS environment variable''), s)
      else
        let user_ids = map strip (filter (\<lambda>uid. strip uid \<noteq> [])
                                    (split CHR '','' (ZOHO_CLIQ_USER_IDS c)))
        in if user_ids = [] then (Inl (ValueError ''ZOHO_CLIQ_USER_IDS is empty''), s)
           else (Inr user_ids, emit (Print (MsgUsingIds (length user_ids))) s))"

subsection \<open>Zoho Cliq file upload\<close>

text \<open>
  \<^verbatim>\<open>upload_file_to_zoho_cliq\<close>, lines 120 to 158. The URL constant has no placeholder,
  so \<^verbatim>\<open>.format(bot_name=...)\<close> returns it unchanged. \<open>upload_request_of\<close> is the
  request that lines 130 to 148 build from the arguments and the content of the file.
\<close>

definition upload_request_of ::
    "json \<Rightarrow> string \<Rightarrow> string \<Rightarrow> string \<Rightarrow> string \<Rightarrow> string list \<Rightarrow> upload_request" where
  "upload_request_of access_token file_path f uid bname cmts =
     \<lparr> up_url = ZOHO_CLIQ_FILES_URL,
       authorization = access_token,
       file_name = basename file_path,
       file_content = f,
       comments = cmts,
       user_id = uid,
       bot_name = bname \<rparr>"

definition upload_file_to_zoho_cliq ::
    "world \<Rightarrow> json \<Rightarrow> string \<Rightarrow> string \<Rightarrow> string \<Rightarrow> string list option \<Rightarrow> state
      \<Rightarrow> (error + json) \<times> state" where
  "upload_file_to_zoho_cliq w access_token file_path uid bname cmts s =
     (let s1 = emit (Print (MsgRequestUrl ZOHO_CLIQ_FILES_URL)) s;
          cmts1 = (case cmts of None \<Rightarrow> [''Server image''] | Some cs \<Rightarrow> cs)
      in (case fs s1 file_path of
           None \<Rightarrow> (Inl (FileNotFoundError file_path), s1)
         | Some f \<Rightarrow>
            (let req = upload_request_of access_token file_path f uid bname cmts1;
                 s2 = emit (UploadPost req) s1
             in (case cliq_server w (uploads_sent s1) req of
                  NetworkError m \<Rightarrow> (Inl (RequestException m), s2)
                | Reply r \<Rightarrow>
                   (if status_code r = 200
                    then (let s3 = emit (Print (MsgUploaded uid)) s2
                          in (case json_body r of
                                None \<Rightarrow> (Inl JSONDecodeError, s3)
                              | Some j \<Rightarrow> (Inr j, s3)))
                    else (Inr (JObj [(''error'', JStr (body_text r)),
                                     (''status_code'', JInt (status_code r))]),
                          emit (Print (MsgResponse (body_text r)))
                            (emit (Print (MsgUploadFailed uid (status_code r))) s2)))))))"

subsection \<open>Main execution\<close>

text \<open>One entry of the list \<^verbatim>\<open>main\<close> returns: \<^verbatim>\<open>{"user_id": ..., "result": ...}\<close>.\<close>

record entry =
  entry_user_id :: string
  entry_result :: json

text \<open>
  \<^verbatim>\<open>"error" in x\<close>, line 221: a key of a dict, an element of a list, a substring of
  a string; any other decoded value is not iterable.
\<close>

fun contains_error :: "json \<Rightarrow> error + bool" where
  "contains_error (JObj kvs) = Inr (''error'' \<in> set (map fst kvs))"
| "contains_error (JArr xs) = Inr (JStr ''error'' \<in> set xs)"
| "contains_error (JStr s) = Inr (str_contains ''error'' s)"
| "contains_error j = Inl TypeError"

text \<open>\<^verbatim>\<open>sum(1 for r in results if "error" not in r.get("result", {}))\<close>, line 221.\<close>

fun count_successful :: "entry list \<Rightarrow> error + nat" where
  "count_successful [] = Inr 0"
| "count_successful (r # rs) =
     (case contains_error (entry_result r) of
        Inl e \<Rightarrow> Inl e
      | Inr b \<Rightarrow>
          (case count_successful rs of
             Inl e \<Rightarrow> Inl e
           | Inr n \<Rightarrow> Inr ((if b then 0 else 1) + n)))"

text \<open>The loop of lines 199 to 208; the first exception of an upload leaves it.\<close>

fun upload_loop ::
    "world \<Rightarrow> json \<Rightarrow> string \<Rightarrow> string \<Rightarrow> string list \<Rightarrow> entry list \<Rightarrow> state
      \<Rightarrow> (error + entry list) \<times> state" where
  "upload_loop w access_token local_file_path bname [] results s = (Inr results, s)"
| "upload_loop w access_token local_file_path bname (uid # uids) results s =
     (case upload_file_to_zoho_cliq w access_token local_file_path uid bname
             (Some [''Metal Price Update'']) s of
        (Inl e, s1) \<Rightarrow> (Inl e, s1)
      | (Inr res, s1) \<Rightarrow>
          upload_loop w access_token local_file_path bname uids
            (results @ [\<lparr> entry_user_id = uid, entry_result = res \<rparr>]) s1)"

text \<open>
  Lines 210 to 215: \<^verbatim>\<open>os.unlink\<close> in a \<^verbatim>\<open>try\<close> whose handler prints a warning.
  Deleting a path that does not exist fails as well.
\<close>

definition cleanup :: "world \<Rightarrow> string \<Rightarrow> state \<Rightarrow> state" where
  "cleanup w local_file_path s =
     (let s1 = emit (Unlink local_file_path) s
      in case unlink_failure w local_file_path of
           Some m \<Rightarrow> emit (Print (MsgCleanupWarning m)) s1
         | None \<Rightarrow>
             (case fs s1 local_file_path of
                None \<Rightarrow> emit (Print (MsgCleanupWarning local_file_path)) s1
              | Some f \<Rightarrow>
                  emit (Print MsgCleanedUp) (s1\<lparr>fs := (fs s1)(local_file_path := None)\<rparr>)))"

text \<open>
  Line 187: \<^verbatim>\<open>NamedTemporaryFile(delete=False, suffix=...)\<close> creates an empty file
  named \<^verbatim>\<open>tmp\<close>, a random part and the suffix, in the temporary directory;
  \<open>named_temporary_file\<close> is its path. When the file cannot be created (\<open>tmp_failure\<close>
  of the suffix) the call raises \<^verbatim>\<open>OSError\<close> and \<open>main\<close> ends there.
\<close>

definition named_temporary_file :: "world \<Rightarrow> string \<Rightarrow> string" where
  "named_temporary_file w suffix = path_join (tmp_dir w) (''tmp'' @ tmp_random w @ suffix)"

text \<open>
  \<^verbatim>\<open>main\<close>, lines 165 to 225, run with the settings of the world's environment. Past
  the test of line 183 the bucket and the key are set, so \<open>the\<close> reads them.
\<close>

definition main :: "world \<Rightarrow> state \<Rightarrow> (error + entry list) \<times> state" where
  "main w s0 =
     (let c = load_config (environ w);
          s = emit (Print MsgStep1) (emit (Print MsgRule) (emit (Print MsgStarting)
                (emit (Print MsgRule) s0)))
      in (case get_zoho_access_token w c s of
           (Inl e, s) \<Rightarrow> (Inl e, s)
         | (Inr access_token, s) \<Rightarrow>
            (let s = emit (Print MsgStep2) s
             in if \<not> env_truthy (AWS_S3_BUCKET c) \<or> \<not> env_truthy (AWS_S3_FILE_KEY c)
                then (Inl (ValueError ''AWS_S3_BUCKET and AWS_S3_FILE_KEY must be set''), s)
                else
                 (let bucket = the (AWS_S3_BUCKET c);
                      key = the (AWS_S3_FILE_KEY c)
                  in (case tmp_failure w (snd (splitext key)) of
                       Some m \<Rightarrow> (Inl (OSError m), s)
                     | None \<Rightarrow>
                        (let local_file_path = named_temporary_file w (snd (splitext key));
                             s = emit (TempFileCreated local_file_path)
                                   (s\<lparr>fs := (fs s)(local_file_path \<mapsto> [])\<rparr>)
                         in (case download_file_from_s3 w c bucket key local_file_path s of
                              (Inl e, s) \<Rightarrow> (Inl e, s)
                            | (Inr p, s) \<Rightarrow>
                               (case get_user_ids c (emit (Print MsgStep3) s) of
                                  (Inl e, s) \<Rightarrow> (Inl e, s)
                                | (Inr user_ids, s) \<Rightarrow>
                                   (let s = emit (Print (MsgStep4 (length user_ids)))
                                              (emit (Print (MsgFound (length user_ids))) s)
                                    in (case upload_loop w access_token local_file_path
                                              (ZOHO_BOT_NAME c) user_ids [] s of
                                         (Inl e, s) \<Rightarrow> (Inl e, s)
                                       | (Inr results, s) \<Rightarrow>
                                          (let s = cleanup w local_file_path s;
                                               s = emit (Print MsgRule)
                                                     (emit (Print MsgSummary)
                                                        (emit (Print MsgRule) s))
                                           in (case count_successful results of
                                                Inl e \<Rightarrow> (Inl e, s)
                                              | Inr successful \<Rightarrow>
                                                  (Inr results,
                                                   emit (Print MsgDone)
                                                     (emit (Print (MsgSuccessful successful
                                                        (length results))) s))))))))))))))"

subsection \<open>Program points of \<open>main\<close>\<close>

text \<open>
  The state of a run at four points of \<open>main\<close>, and its last lines, named for the
  statements about runs: where \<^verbatim>\<open>get_zoho_access_token\<close> is called (line 179), where
  \<^verbatim>\<open>download_file_from_s3\<close> is called (line 190, the temporary file created), where
  the loop starts (line 199), where the summary is computed (line 221, the cleanup
  done), and lines 221 to 225 themselves.
\<close>

definition at_token_call :: "state \<Rightarrow> state" where
  "at_token_call s0 =
     emit (Print MsgStep1) (emit (Print MsgRule) (emit (Print MsgStarting)
       (emit (Print MsgRule) s0)))"

definition at_download_call :: "world \<Rightarrow> string \<Rightarrow> state \<Rightarrow> state" where
  "at_download_call w key s1 =
     emit (TempFileCreated (named_temporary_file w (snd (splitext key))))
       ((emit (Print MsgStep2) s1)
          \<lparr>fs := (fs (emit (Print MsgStep2) s1))
             (named_temporary_file w (snd (splitext key)) \<mapsto> [])\<rparr>)"

definition at_first_upload :: "string list \<Rightarrow> state \<Rightarrow> state" where
  "at_first_upload user_ids s4 =
     emit (Print (MsgStep4 (length user_ids))) (emit (Print (MsgFound (length user_ids))) s4)"

definition at_summary :: "world \<Rightarrow> string \<Rightarrow> state \<Rightarrow> state" where
  "at_summary w local_file_path s5 =
     emit (Print MsgRule) (emit (Print MsgSummary) (emit (Print MsgRule)
       (cleanup w local_file_path s5)))"

definition report :: "entry list \<Rightarrow> state \<Rightarrow> (error + entry list) \<times> state" where
  "report results s =
     (case count_successful results of
        Inl e \<Rightarrow> (Inl e, s)
      | Inr successful \<Rightarrow>
          (Inr results,
           emit (Print MsgDone) (emit (Print (MsgSuccessful successful (length results))) s)))"

subsection \<open>Example runs\<close>

text \<open>
  A run with three recipients, taken from the environment below; the second upload is
  answered with HTTP 500, the others with HTTP 200 and an empty JSON object.
\<close>

definition dquote :: "string \<Rightarrow> string" where
  "dquote t = CHR 0x22 # t @ [CHR 0x22]"

definition demo_environ :: "string \<rightharpoonup> string" where
  "demo_environ =
     map_of [(''ZOHO_REFRESH_TOKEN'', ''refresh-1''),
             (''ZOHO_CLIENT_ID'', ''client-1''),
             (''ZOHO_CLIENT_SECRET'', ''secret-1''),
             (''ZOHO_CLIQ_USER_IDS'', ''60019117005,60019117006,60019117007''),
             (''AWS_S3_BUCKET'', ''metal-prices''),
             (''AWS_S3_FILE_KEY'', ''reports/prices.pdf'')]"

definition token_reply :: response where
  "token_reply =
     \<lparr> status_code = 200,
       body_text = ''{'' @ dquote ''access_token'' @ '': '' @ dquote ''tok-1'' @ ''}'',
       json_body = Some (JObj [(''access_token'', JStr ''tok-1'')]) \<rparr>"

definition reply_200 :: response where
  "reply_200 = \<lparr> status_code = 200, body_text = ''{}'', json_body = Some (JObj []) \<rparr>"

definition reply_500 :: response where
  "reply_500 =
     \<lparr> status_code = 500, body_text = ''Internal Server Error'', json_body = None \<rparr>"

definition demo_world :: world where
  "demo_world =
     \<lparr> environ = demo_environ,
       oauth_server = (\<lambda>q. Reply token_reply),
       boto3_client_failure = (\<lambda>rg. None),
       s3_service = (\<lambda>rg b k. S3Ok ''%PDF-1.7 prices''),
       cliq_server = (\<lambda>n q. if n = 1 then Reply reply_500 else Reply reply_200),
       tmp_dir = ''/tmp'',
       tmp_random = ''ab12cd34'',
       tmp_failure = (\<lambda>sfx. None),
       unlink_failure = (\<lambda>p. None) \<rparr>"

definition start :: state where
  "start = \<lparr> fs = Map.empty, trace = [] \<rparr>"

text \<open>The same run, but the second upload ends in a network error.\<close>

definition broken_network_world :: world where
  "broken_network_world =
     demo_world\<lparr> cliq_server :=
       (\<lambda>n q. if n = 1 then NetworkError ''Connection reset by peer'' else Reply reply_200) \<rparr>"

text \<open>The same run with the bucket unset, and with a recipient list of blanks.\<close>

definition no_bucket_world :: world where
  "no_bucket_world = demo_world\<lparr> environ := demo_environ(''AWS_S3_BUCKET'' := None) \<rparr>"

definition blank_recipients_world :: world where
  "blank_recipients_world =
     demo_world\<lparr> environ := demo_environ(''ZOHO_CLIQ_USER_IDS'' \<mapsto> '' , '') \<rparr>"

text \<open>The same run when deleting the temporary file fails.\<close>

definition unlink_fails_world :: world where
  "unlink_fails_world = demo_world\<lparr> unlink_failure := (\<lambda>p. Some ''Permission denied'') \<rparr>"




definition null_body_world :: world where
  "null_body_world =
     demo_world\<lparr> cliq_server := (\<lambda>n q. Reply
       \<lparr> status_code = 200, body_text = ''null'', json_body = Some JNull \<rparr>) \<rparr>"


text \<open>A configuration that holds only a recipient list.\<close>

definition recipients_only :: "string \<Rightarrow> config" where
  "recipients_only ids = load_config [''ZOHO_CLIQ_USER_IDS'' \<mapsto> ids]"

section \<open>Properties\<close>

subsection \<open>Splitting, joining and trimming\<close>

lemma split_not_Nil: "split sep s \<noteq> []"
  by (induction s) (auto split: list.splits)

lemma join_Cons_Cons: "ps \<noteq> [] \<Longrightarrow> join sep (p # ps) = p @ sep # join sep ps"
  by (cases ps) auto

lemma join_split: "join sep (split sep s) = s"
proof (induction s)
  case Nil
  show ?case by simp
next
  case (Cons c cs)
  show ?case
  proof (cases "c = sep")
    case True
    then show ?thesis using Cons by (simp add: join_Cons_Cons split_not_Nil)
  next
    case False
    obtain p ps where sp: "split sep cs = p # ps"
      using split_not_Nil [of sep cs] by (cases "split sep cs") auto
    have "join sep ((c # p) # ps) = c # join sep (p # ps)"
      by (cases ps) auto
    then show ?thesis using False sp Cons by simp
  qed
qed

lemma split_no_sep: "p \<in> set (split sep s) \<Longrightarrow> sep \<notin> set p"
  by (induction s arbitrary: p) (auto split: if_splits list.splits)

lemma split_chars: "p \<in> set (split sep s) \<Longrightarrow> set p \<subseteq> set s"
proof (induction s arbitrary: p)
  case Nil
  then show ?case by simp
next
  case (Cons c cs)
  obtain q qs where sp: "split sep cs = q # qs"
    using split_not_Nil [of sep cs] by (cases "split sep cs") auto
  have q: "set q \<subseteq> set cs" and qs: "\<And>r. r \<in> set qs \<Longrightarrow> set r \<subseteq> set cs"
    using Cons.IH sp by simp_all
  show ?case
  proof (cases "c = sep")
    case True
    then show ?thesis using Cons.prems sp q qs by auto
  next
    case False
    then have "p = c # q \<or> p \<in> set qs" using Cons.prems sp by simp
    then show ?thesis using q qs by auto
  qed
qed

lemma rev_drop_take: "rev (dropWhile P (rev xs)) @ rev (takeWhile P (rev xs)) = xs"
proof -
  have "rev (takeWhile P (rev xs) @ dropWhile P (rev xs)) = rev (rev xs)"
    by (simp only: takeWhile_dropWhile_id)
  then show ?thesis by (simp only: rev_append rev_rev_ident)
qed

lemma strip_decomp:
  "\<exists>l r. p = l @ strip p @ r \<and> list_all isspace l \<and> list_all isspace r"
proof -
  let ?l = "takeWhile isspace p"
  let ?m = "dropWhile isspace p"
  let ?r = "rev (takeWhile isspace (rev ?m))"
  have 1: "p = ?l @ ?m" by simp
  have 2: "?m = strip p @ ?r" unfolding strip_def by (simp only: rev_drop_take)
  have 3: "list_all isspace ?l" by (simp add: list_all_iff) (metis set_takeWhileD)
  have 4: "list_all isspace ?r" by (simp add: list_all_iff) (metis set_takeWhileD)
  from 1 2 have "p = ?l @ strip p @ ?r" by simp
  with 3 4 show ?thesis by blast
qed

lemma strip_ends:
  assumes "strip p \<noteq> []"
  shows "\<not> isspace (hd (strip p)) \<and> \<not> isspace (last (strip p))"
proof -
  let ?m = "dropWhile isspace p"
  let ?d = "dropWhile isspace (rev ?m)"
  have d: "?d \<noteq> []" using assms by (simp add: strip_def)
  then have l: "\<not> isspace (hd ?d)" by (rule hd_dropWhile)
  have "last (strip p) = hd ?d" using d by (simp add: strip_def last_rev)
  with l have A: "\<not> isspace (last (strip p))" by simp
  have m: "?m \<noteq> []" using d by (auto dest: set_dropWhileD)
  then have hm: "\<not> isspace (hd ?m)" by (rule hd_dropWhile)
  obtain r where "?m = strip p @ r"
  proof -
    have "?m = strip p @ rev (takeWhile isspace (rev ?m))"
      unfolding strip_def by (simp only: rev_drop_take)
    then show ?thesis using that by blast
  qed
  then have "hd ?m = hd (strip p)" using assms by (metis hd_append2)
  with hm A show ?thesis by simp
qed

lemma strip_all_space: "\<forall>ch \<in> set p. isspace ch \<Longrightarrow> strip p = []"
  by (auto simp: strip_def dest: set_dropWhileD)

lemma strip_filter_commute:
  "map strip (filter (\<lambda>uid. strip uid \<noteq> []) ps) = filter (\<lambda>x. x \<noteq> []) (map strip ps)"
  by (induction ps) auto


subsection \<open>The recipient resolver\<close>

lemma get_user_ids_result:
  "get_user_ids c s =
     (let ids = filter (\<lambda>x. x \<noteq> []) (map strip (split CHR '','' (ZOHO_CLIQ_USER_IDS c)))
      in if ZOHO_CLIQ_USER_IDS c = []
         then (Inl (ValueError
                 ''No user IDs configured. Set ZOHO_CLIQ_USER_IDS environment variable''), s)
         else if ids = [] then (Inl (ValueError ''ZOHO_CLIQ_USER_IDS is empty''), s)
         else (Inr ids, emit (Print (MsgUsingIds (length ids))) s))"
  by (simp add: get_user_ids_def Let_def strip_filter_commute)

lemma blank_pieces:
  assumes "\<forall>ch \<in> set cfg. ch = CHR '','' \<or> isspace ch"
  shows "filter (\<lambda>x. x \<noteq> []) (map strip (split CHR '','' cfg)) = []"
proof -
  have "strip p = []" if "p \<in> set (split CHR '','' cfg)" for p
  proof (rule strip_all_space, rule ballI)
    fix ch assume "ch \<in> set p"
    then have "ch \<in> set cfg" "ch \<noteq> CHR '',''"
      using split_chars [OF that] split_no_sep [OF that] by auto
    then show "isspace ch" using assms by auto
  qed
  then show ?thesis by (simp add: filter_empty_conv)
qed

text \<open>
  C3. The resolver cuts the configured string at its commas (the pieces hold no comma and
  joined with commas give the string back), trims the whitespace around each piece,
  drops the pieces that are empty after trimming and returns the others in their order,
  duplicates included; it raises when none is left. The string
  \<^verbatim>\<open>"  60019117005 ,60019117006,, 60019117005"\<close> gives the three identifiers of the
  specification.
\<close>

theorem get_user_ids_splits_trims_filters:
  "join CHR '','' (split CHR '','' (ZOHO_CLIQ_USER_IDS c)) = ZOHO_CLIQ_USER_IDS c
   \<and> (\<forall>p \<in> set (split CHR '','' (ZOHO_CLIQ_USER_IDS c)). CHR '','' \<notin> set p)
   \<and> (\<forall>p. \<exists>l r. p = l @ strip p @ r \<and> list_all isspace l \<and> list_all isspace r
          \<and> (strip p \<noteq> [] \<longrightarrow> \<not> isspace (hd (strip p)) \<and> \<not> isspace (last (strip p))))
   \<and> fst (get_user_ids c s) =
        (if filter (\<lambda>x. x \<noteq> []) (map strip (split CHR '','' (ZOHO_CLIQ_USER_IDS c))) = []
         then Inl (ValueError (if ZOHO_CLIQ_USER_IDS c = []
                 then ''No user IDs configured. Set ZOHO_CLIQ_USER_IDS environment variable''
                 else ''ZOHO_CLIQ_USER_IDS is empty''))
         else Inr (filter (\<lambda>x. x \<noteq> [])
                     (map strip (split CHR '','' (ZOHO_CLIQ_USER_IDS c)))))
   \<and> (ZOHO_CLIQ_USER_IDS c = ''  60019117005 ,60019117006,, 60019117005''
        \<longrightarrow> fst (get_user_ids c s) = Inr [''60019117005'', ''60019117006'', ''60019117005''])"
proof (intro conjI allI ballI impI)
  show "join CHR '','' (split CHR '','' (ZOHO_CLIQ_USER_IDS c)) = ZOHO_CLIQ_USER_IDS c"
    by (rule join_split)
next
  fix p assume "p \<in> set (split CHR '','' (ZOHO_CLIQ_USER_IDS c))"
  then show "CHR '','' \<notin> set p" by (rule split_no_sep)
next
  fix p
  from strip_decomp [of p] obtain l r
    where "p = l @ strip p @ r" "list_all isspace l" "list_all isspace r" by blast
  then show "\<exists>l r. p = l @ strip p @ r \<and> list_all isspace l \<and> list_all isspace r
          \<and> (strip p \<noteq> [] \<longrightarrow> \<not> isspace (hd (strip p)) \<and> \<not> isspace (last (strip p)))"
    using strip_ends [of p] by blast
next
  show "fst (get_user_ids c s) =
        (if filter (\<lambda>x. x \<noteq> []) (map strip (split CHR '','' (ZOHO_CLIQ_USER_IDS c))) = []
         then Inl (ValueError (if ZOHO_CLIQ_USER_IDS c = []
                 then ''No user IDs configured. Set ZOHO_CLIQ_USER_IDS environment variable''
                 else ''ZOHO_CLIQ_USER_IDS is empty''))
         else Inr (filter (\<lambda>x. x \<noteq> [])
                     (map strip (split CHR '','' (ZOHO_CLIQ_USER_IDS c)))))"
    by (simp add: get_user_ids_result Let_def strip_def)
next
  assume "ZOHO_CLIQ_USER_IDS c = ''  60019117005 ,60019117006,, 60019117005''"
  then show "fst (get_user_ids c s) = Inr [''60019117005'', ''60019117006'', ''60019117005'']"
    by (simp add: get_user_ids_def strip_def isspace_def)
qed

theorem get_user_ids_splits_trims_filters_witness:
  "split CHR '','' ''  60019117005 ,60019117006,, 60019117005''
     = [''  60019117005 '', ''60019117006'', [], '' 60019117005'']
   \<and> fst (get_user_ids (recipients_only ''  60019117005 ,60019117006,, 60019117005'') start)
     = Inr [''60019117005'', ''60019117006'', ''60019117005'']"
proof -
  have cfg: "ZOHO_CLIQ_USER_IDS (recipients_only ''  60019117005 ,60019117006,, 60019117005'')
      = ''  60019117005 ,60019117006,, 60019117005''"
    by (simp add: recipients_only_def load_config_def environ_get_def)
  have "fst (get_user_ids (recipients_only ''  60019117005 ,60019117006,, 60019117005'') start)
     = Inr [''60019117005'', ''60019117006'', ''60019117005'']"
    by (rule get_user_ids_splits_trims_filters
      [THEN conjunct2, THEN conjunct2, THEN conjunct2, THEN conjunct2, THEN mp, OF cfg])
  then show ?thesis by simp
qed

text \<open>
  C8. The resolver raises \<^verbatim>\<open>ValueError\<close> (the configuration error of the specification)
  when the variable is unset or empty, when the string holds only commas and whitespace,
  and whenever nothing is left after trimming and filtering; the state is unchanged
  then. A sequence it returns is not empty and holds no empty identifier.
\<close>

theorem get_user_ids_never_empty:
  "(environ w ''ZOHO_CLIQ_USER_IDS'' = None \<or> environ w ''ZOHO_CLIQ_USER_IDS'' = Some []
      \<longrightarrow> get_user_ids (load_config (environ w)) s =
          (Inl (ValueError
             ''No user IDs configured. Set ZOHO_CLIQ_USER_IDS environment variable''), s))
   \<and> (ZOHO_CLIQ_USER_IDS c \<noteq> []
        \<and> (\<forall>ch \<in> set (ZOHO_CLIQ_USER_IDS c). ch = CHR '','' \<or> isspace ch)
      \<longrightarrow> get_user_ids c s = (Inl (ValueError ''ZOHO_CLIQ_USER_IDS is empty''), s))
   \<and> (filter (\<lambda>x. x \<noteq> []) (map strip (split CHR '','' (ZOHO_CLIQ_USER_IDS c))) = []
      \<longrightarrow> (\<exists>m. get_user_ids c s = (Inl (ValueError m), s)))
   \<and> (\<forall>ids s'. get_user_ids c s = (Inr ids, s') \<longrightarrow> ids \<noteq> [] \<and> (\<forall>u \<in> set ids. u \<noteq> []))"
  (is "?unset \<and> ?blank \<and> ?nothing_left \<and> ?returned")
proof -
  have 1: ?unset
  proof
    assume "environ w ''ZOHO_CLIQ_USER_IDS'' = None
      \<or> environ w ''ZOHO_CLIQ_USER_IDS'' = Some []"
    then have "ZOHO_CLIQ_USER_IDS (load_config (environ w)) = []"
      by (auto simp: load_config_def environ_get_def)
    then show "get_user_ids (load_config (environ w)) s =
          (Inl (ValueError
             ''No user IDs configured. Set ZOHO_CLIQ_USER_IDS environment variable''), s)"
      by (simp add: get_user_ids_def)
  qed
  have 2: ?blank
    using blank_pieces [of "ZOHO_CLIQ_USER_IDS c"] by (simp add: get_user_ids_result)
  have 3: ?nothing_left
    by (simp add: get_user_ids_result)
  have 4: ?returned
  proof (intro allI impI)
    fix ids s' assume "get_user_ids c s = (Inr ids, s')"
    then have "ids = filter (\<lambda>x. x \<noteq> []) (map strip (split CHR '','' (ZOHO_CLIQ_USER_IDS c)))"
      and "ids \<noteq> []"
      by (auto simp: get_user_ids_result Let_def split: if_splits)
    then show "ids \<noteq> [] \<and> (\<forall>u \<in> set ids. u \<noteq> [])" by auto
  qed
  show ?thesis by (rule conjI [OF 1 conjI [OF 2 conjI [OF 3 4]]])
qed

theorem get_user_ids_never_empty_witness:
  "get_user_ids (load_config (environ (demo_world\<lparr>environ := Map.empty\<rparr>))) start =
     (Inl (ValueError
        ''No user IDs configured. Set ZOHO_CLIQ_USER_IDS environment variable''), start)
   \<and> get_user_ids (recipients_only '' , ,, '') start =
     (Inl (ValueError ''ZOHO_CLIQ_USER_IDS is empty''), start)
   \<and> get_user_ids (recipients_only ''7, 8'') start =
     (Inr [''7'', ''8''], emit (Print (MsgUsingIds 2)) start)
   \<and> [''7'', ''8''] \<noteq> ([] :: string list)"
proof -
  have unset: "environ (demo_world\<lparr>environ := Map.empty\<rparr>) ''ZOHO_CLIQ_USER_IDS'' = None"
    by simp
  have cfg: "ZOHO_CLIQ_USER_IDS (recipients_only '' , ,, '') = '' , ,, ''"
    by (simp add: recipients_only_def load_config_def environ_get_def)
  have blank: "ZOHO_CLIQ_USER_IDS (recipients_only '' , ,, '') \<noteq> []
        \<and> (\<forall>ch \<in> set (ZOHO_CLIQ_USER_IDS (recipients_only '' , ,, '')).
              ch = CHR '','' \<or> isspace ch)"
    by (simp add: cfg isspace_def)
  have ok: "get_user_ids (recipients_only ''7, 8'') start =
     (Inr [''7'', ''8''], emit (Print (MsgUsingIds 2)) start)"
    by (simp add: get_user_ids_def recipients_only_def load_config_def environ_get_def
        strip_def isspace_def numeral_2_eq_2)
  note inst = get_user_ids_never_empty
      [of "demo_world\<lparr>environ := Map.empty\<rparr>" start "recipients_only '' , ,, ''"]
  have a: "get_user_ids (load_config (environ (demo_world\<lparr>environ := Map.empty\<rparr>))) start =
     (Inl (ValueError
        ''No user IDs configured. Set ZOHO_CLIQ_USER_IDS environment variable''), start)"
    by (rule inst [THEN conjunct1, THEN mp, OF disjI1, OF unset])
  have b: "get_user_ids (recipients_only '' , ,, '') start =
     (Inl (ValueError ''ZOHO_CLIQ_USER_IDS is empty''), start)"
    by (rule inst [THEN conjunct2, THEN conjunct1, THEN mp, OF blank])
  have c: "[''7'', ''8''] \<noteq> ([] :: string list)"
    using get_user_ids_never_empty [of demo_world start "recipients_only ''7, 8''",
      THEN conjunct2, THEN conjunct2, THEN conjunct2, THEN spec, THEN spec, THEN mp, OF ok]
    by simp
  show ?thesis using a b ok c by simp
qed

subsection \<open>The token refresher and one upload\<close>

lemma trace_emit: "trace (emit e s) = trace s @ [e]"
  by (simp add: emit_def)

lemma fs_emit: "fs (emit e s) = fs s"
  by (simp add: emit_def)

lemma uploads_sent_emit:
  "uploads_sent (emit e s) = (if is_upload e then Suc (uploads_sent s) else uploads_sent s)"
  by (simp add: uploads_sent_def emit_def)

lemma token_missing_credentials:
  assumes "\<not> env_truthy (ZOHO_REFRESH_TOKEN c) \<or> \<not> env_truthy (ZOHO_CLIENT_ID c)
           \<or> \<not> env_truthy (ZOHO_CLIENT_SECRET c)"
  shows "get_zoho_access_token w c s =
           (Inl (ValueError ''Missing Zoho OAuth credentials in environment variables''), s)"
  using assms by (auto simp: get_zoho_access_token_def)



lemma token_field_missing:
  assumes "env_truthy (ZOHO_REFRESH_TOKEN c)" "env_truthy (ZOHO_CLIENT_ID c)"
    "env_truthy (ZOHO_CLIENT_SECRET c)"
    and "oauth_server w (token_request_of c) = Reply r"
    and "200 \<le> status_code r" "status_code r < 300"
    and "\<forall>kvs. json_body r = Some (JObj kvs) \<longrightarrow> map_of kvs ''access_token'' = None"
  shows "(\<exists>e. get_zoho_access_token w c s = (Inl e, emit (TokenPost (token_request_of c)) s))
       \<and> (\<forall>kvs. json_body r = Some (JObj kvs) \<longrightarrow>
            fst (get_zoho_access_token w c s) = Inl (ValueErrorToken (JObj kvs)))"
proof (cases "json_body r")
  case None
  then show ?thesis using assms by (simp add: get_zoho_access_token_def Let_def)
next
  case (Some j)
  show ?thesis
  proof (cases j)
    case (JObj kvs)
    then have "map_of kvs ''access_token'' = None" using assms Some by simp
    then show ?thesis using assms Some JObj by (simp add: get_zoho_access_token_def Let_def)
  qed (use assms Some in \<open>simp_all add: get_zoho_access_token_def Let_def\<close>)
qed


lemma upload_reply:
  assumes "fs s p = Some f"
    and "cliq_server w (uploads_sent s) (upload_request_of tok p f uid b cm) = Reply r"
  shows "upload_file_to_zoho_cliq w tok p uid b (Some cm) s =
     (if status_code r = 200
      then (case json_body r of None \<Rightarrow> Inl JSONDecodeError | Some j \<Rightarrow> Inr j,
            emit (Print (MsgUploaded uid))
              (emit (UploadPost (upload_request_of tok p f uid b cm))
                 (emit (Print (MsgRequestUrl ZOHO_CLIQ_FILES_URL)) s)))
      else (Inr (JObj [(''error'', JStr (body_text r)), (''status_code'', JInt (status_code r))]),
            emit (Print (MsgResponse (body_text r)))
              (emit (Print (MsgUploadFailed uid (status_code r)))
                 (emit (UploadPost (upload_request_of tok p f uid b cm))
                    (emit (Print (MsgRequestUrl ZOHO_CLIQ_FILES_URL)) s)))))"
  using assms
  by (simp add: upload_file_to_zoho_cliq_def Let_def fs_emit uploads_sent_emit
      split: option.splits)

lemma upload_network_error:
  assumes "fs s p = Some f"
    and "cliq_server w (uploads_sent s) (upload_request_of tok p f uid b cm) = NetworkError m"
  shows "upload_file_to_zoho_cliq w tok p uid b (Some cm) s =
     (Inl (RequestException m),
      emit (UploadPost (upload_request_of tok p f uid b cm))
        (emit (Print (MsgRequestUrl ZOHO_CLIQ_FILES_URL)) s))"
  using assms
  by (simp add: upload_file_to_zoho_cliq_def Let_def fs_emit uploads_sent_emit)

text \<open>What one upload adds to the trace, whatever its outcome.\<close>

lemma upload_effects:
  assumes "upload_file_to_zoho_cliq w tok p uid b (Some cm) s = (res, s')"
  shows "fs s' = fs s
    \<and> (\<exists>evs. trace s' = trace s @ evs
          \<and> (\<forall>e \<in> set evs. is_print e
                \<or> (\<exists>f. fs s p = Some f \<and> e = UploadPost (upload_request_of tok p f uid b cm))))"
  using assms
  by (auto simp: upload_file_to_zoho_cliq_def Let_def fs_emit trace_emit
      split: option.splits http_outcome.splits if_splits)

lemma upload_loop_effects:
  assumes "upload_loop w tok p b us acc s = (res, s')"
  shows "fs s' = fs s
    \<and> (\<exists>evs. trace s' = trace s @ evs
          \<and> (\<forall>e \<in> set evs. is_print e
                \<or> (\<exists>f u. fs s p = Some f \<and> u \<in> set us
                      \<and> e = UploadPost (upload_request_of tok p f u b [''Metal Price Update'']))))"
  using assms
proof (induction us arbitrary: acc s)
  case Nil
  then show ?case by simp
next
  case (Cons u us)
  obtain r1 s1 where step:
    "upload_file_to_zoho_cliq w tok p u b (Some [''Metal Price Update'']) s = (r1, s1)"
    by (cases "upload_file_to_zoho_cliq w tok p u b (Some [''Metal Price Update'']) s")
  from upload_effects [OF step] obtain evs1 where
    f1: "fs s1 = fs s" and t1: "trace s1 = trace s @ evs1" and
    e1: "\<forall>e \<in> set evs1. is_print e
           \<or> (\<exists>f. fs s p = Some f
                 \<and> e = UploadPost (upload_request_of tok p f u b [''Metal Price Update'']))"
    by blast
  show ?case
  proof (cases r1)
    case (Inl err)
    then have "s' = s1" using Cons.prems step by simp
    then show ?thesis using f1 t1 e1 by fastforce
  next
    case (Inr j)
    then have "upload_loop w tok p b us (acc @ [\<lparr>entry_user_id = u, entry_result = j\<rparr>]) s1
        = (res, s')"
      using Cons.prems step by simp
    from Cons.IH [OF this] obtain evs2 where
      f2: "fs s' = fs s1" and t2: "trace s' = trace s1 @ evs2" and
      e2: "\<forall>e \<in> set evs2. is_print e
           \<or> (\<exists>f v. fs s1 p = Some f \<and> v \<in> set us
                 \<and> e = UploadPost (upload_request_of tok p f v b [''Metal Price Update'']))"
      by blast
    have "trace s' = trace s @ (evs1 @ evs2)" using t1 t2 by simp
    moreover have "\<forall>e \<in> set (evs1 @ evs2). is_print e
           \<or> (\<exists>f v. fs s p = Some f \<and> v \<in> set (u # us)
                 \<and> e = UploadPost (upload_request_of tok p f v b [''Metal Price Update'']))"
      using e1 e2 f1 by fastforce
    ultimately show ?thesis using f1 f2 by metis
  qed
qed

subsection \<open>The upload loop\<close>

lemma filter_print_emit:
  "filter (\<lambda>e. \<not> is_print e) (trace (emit e s)) =
     filter (\<lambda>e. \<not> is_print e) (trace s) @ (if is_print e then [] else [e])"
  by (simp add: trace_emit)

text \<open>One answered upload: the entry it yields and what it leaves in the state.\<close>

lemma upload_answered:
  assumes "fs s p = Some f"
    and "cliq_server w (uploads_sent s) (upload_request_of tok p f uid b cm) = Reply r"
    and "status_code r = 200 \<longrightarrow> json_body r \<noteq> None"
  shows "\<exists>x s1. upload_file_to_zoho_cliq w tok p uid b (Some cm) s = (Inr x, s1)
     \<and> fs s1 = fs s \<and> uploads_sent s1 = Suc (uploads_sent s)
     \<and> filter (\<lambda>e. \<not> is_print e) (trace s1) =
         filter (\<lambda>e. \<not> is_print e) (trace s) @ [UploadPost (upload_request_of tok p f uid b cm)]
     \<and> (if status_code r = 200 then json_body r = Some x
         else x = JObj [(''error'', JStr (body_text r)), (''status_code'', JInt (status_code r))])"
proof (cases "status_code r = 200")
  case True
  then obtain j where j: "json_body r = Some j" using assms(3) by auto
  show ?thesis
    unfolding upload_reply [OF assms(1) assms(2)]
    using True j by (simp add: fs_emit uploads_sent_emit filter_print_emit)
next
  case False
  show ?thesis
    unfolding upload_reply [OF assms(1) assms(2)]
    using False by (simp add: fs_emit uploads_sent_emit filter_print_emit)
qed


text \<open>
  When every upload of the loop is answered, and every answer with status 200 has a
  JSON body, the loop reaches its end: one request and one entry for each recipient.
\<close>

lemma upload_loop_completes:
  assumes "fs s p = Some f"
    and "\<forall>i < length us. \<exists>r.
           cliq_server w (uploads_sent s + i)
             (upload_request_of tok p f (us ! i) b [''Metal Price Update'']) = Reply r
           \<and> (status_code r = 200 \<longrightarrow> json_body r \<noteq> None)"
  shows "\<exists>res s'. upload_loop w tok p b us acc s = (Inr (acc @ res), s')
     \<and> fs s' = fs s
     \<and> map entry_user_id res = us
     \<and> filter (\<lambda>e. \<not> is_print e) (trace s') =
         filter (\<lambda>e. \<not> is_print e) (trace s)
           @ map (\<lambda>u. UploadPost (upload_request_of tok p f u b [''Metal Price Update''])) us
     \<and> (\<forall>i < length us. \<forall>r.
           cliq_server w (uploads_sent s + i)
             (upload_request_of tok p f (us ! i) b [''Metal Price Update'']) = Reply r
           \<longrightarrow> (if status_code r = 200 then json_body r = Some (entry_result (res ! i))
                else entry_result (res ! i) =
                       JObj [(''error'', JStr (body_text r)),
                             (''status_code'', JInt (status_code r))]))"
  using assms
proof (induction us arbitrary: acc s)
  case Nil
  then show ?case by simp
next
  case (Cons u us)
  let ?req = "\<lambda>v. upload_request_of tok p f v b [''Metal Price Update'']"
  have "\<exists>r. cliq_server w (uploads_sent s + 0) (?req ((u # us) ! 0)) = Reply r
      \<and> (status_code r = 200 \<longrightarrow> json_body r \<noteq> None)"
    by (rule Cons.prems(2) [rule_format]) simp
  then obtain r0 where r0: "cliq_server w (uploads_sent s) (?req u) = Reply r0"
    and j0: "status_code r0 = 200 \<longrightarrow> json_body r0 \<noteq> None"
    by auto
  from upload_answered [OF Cons.prems(1) r0 j0] obtain x s1 where
    step: "upload_file_to_zoho_cliq w tok p u b (Some [''Metal Price Update'']) s = (Inr x, s1)"
    and f1: "fs s1 = fs s" and n1: "uploads_sent s1 = Suc (uploads_sent s)"
    and t1: "filter (\<lambda>e. \<not> is_print e) (trace s1) =
               filter (\<lambda>e. \<not> is_print e) (trace s) @ [UploadPost (?req u)]"
    and x_ok: "if status_code r0 = 200 then json_body r0 = Some x
      else x = JObj [(''error'', JStr (body_text r0)), (''status_code'', JInt (status_code r0))]"
    by blast
  have prem1: "fs s1 p = Some f" using f1 Cons.prems(1) by simp
  have prem2: "\<forall>i < length us. \<exists>r.
           cliq_server w (uploads_sent s1 + i) (?req (us ! i)) = Reply r
           \<and> (status_code r = 200 \<longrightarrow> json_body r \<noteq> None)"
  proof (intro allI impI)
    fix i assume "i < length us"
    then have "Suc i < length (u # us)" by simp
    then have "\<exists>r. cliq_server w (uploads_sent s + Suc i)
        (?req ((u # us) ! Suc i)) = Reply r \<and> (status_code r = 200 \<longrightarrow> json_body r \<noteq> None)"
      by (rule Cons.prems(2) [rule_format])
    then show "\<exists>r. cliq_server w (uploads_sent s1 + i) (?req (us ! i)) = Reply r
        \<and> (status_code r = 200 \<longrightarrow> json_body r \<noteq> None)"
      by (simp add: n1)
  qed
  from Cons.IH [OF prem1 prem2, of "acc @ [\<lparr>entry_user_id = u, entry_result = x\<rparr>]"]
  obtain res s' where
    run: "upload_loop w tok p b us (acc @ [\<lparr>entry_user_id = u, entry_result = x\<rparr>]) s1
            = (Inr ((acc @ [\<lparr>entry_user_id = u, entry_result = x\<rparr>]) @ res), s')"
    and f2: "fs s' = fs s1" and ids: "map entry_user_id res = us"
    and t2: "filter (\<lambda>e. \<not> is_print e) (trace s') =
               filter (\<lambda>e. \<not> is_print e) (trace s1) @ map (\<lambda>v. UploadPost (?req v)) us"
    and rs: "\<forall>i < length us. \<forall>r.
           cliq_server w (uploads_sent s1 + i) (?req (us ! i)) = Reply r
           \<longrightarrow> (if status_code r = 200 then json_body r = Some (entry_result (res ! i))
                else entry_result (res ! i) =
                       JObj [(''error'', JStr (body_text r)),
                             (''status_code'', JInt (status_code r))])"
    by (elim exE conjE)
  let ?res = "\<lparr>entry_user_id = u, entry_result = x\<rparr> # res"
  have A: "upload_loop w tok p b (u # us) acc s = (Inr (acc @ ?res), s')"
    using step run by simp
  have B: "fs s' = fs s" using f1 f2 by simp
  have C: "map entry_user_id ?res = u # us" using ids by simp
  have D: "filter (\<lambda>e. \<not> is_print e) (trace s') =
         filter (\<lambda>e. \<not> is_print e) (trace s) @ map (\<lambda>v. UploadPost (?req v)) (u # us)"
    using t1 t2 by simp
  have E: "\<forall>i < length (u # us). \<forall>r.
           cliq_server w (uploads_sent s + i) (?req ((u # us) ! i)) = Reply r
           \<longrightarrow> (if status_code r = 200 then json_body r = Some (entry_result (?res ! i))
                else entry_result (?res ! i) =
                       JObj [(''error'', JStr (body_text r)),
                             (''status_code'', JInt (status_code r))])"
  proof (intro allI impI)
    fix i r
    assume i: "i < length (u # us)"
      and r: "cliq_server w (uploads_sent s + i) (?req ((u # us) ! i)) = Reply r"
    show "if status_code r = 200 then json_body r = Some (entry_result (?res ! i))
          else entry_result (?res ! i) =
                 JObj [(''error'', JStr (body_text r)), (''status_code'', JInt (status_code r))]"
    proof (cases i)
      case 0
      then have "r = r0" using r r0 by simp
      then show ?thesis using x_ok 0 by simp
    next
      case (Suc k)
      then have k: "k < length us" using i by simp
      have "cliq_server w (uploads_sent s1 + k) (?req (us ! k)) = Reply r"
        using r Suc by (simp add: n1)
      then have "if status_code r = 200 then json_body r = Some (entry_result (res ! k))
                else entry_result (res ! k) =
                       JObj [(''error'', JStr (body_text r)),
                             (''status_code'', JInt (status_code r))]"
        by (rule rs [rule_format, OF k])
      then show ?thesis using Suc by simp
    qed
  qed
  show ?case
    by (rule exI [of _ ?res], rule exI [of _ s']) (intro conjI A B C D E)
qed

subsection \<open>The stages of a run\<close>

lemma token_effects:
  assumes "get_zoho_access_token w c s = (res, s')"
  shows "fs s' = fs s
    \<and> filter (\<lambda>e. \<not> is_print e) (trace s') =
        filter (\<lambda>e. \<not> is_print e) (trace s)
          @ (if env_truthy (ZOHO_REFRESH_TOKEN c) \<and> env_truthy (ZOHO_CLIENT_ID c)
                \<and> env_truthy (ZOHO_CLIENT_SECRET c)
             then [TokenPost (token_request_of c)] else [])"
  using assms
  by (auto simp: get_zoho_access_token_def Let_def fs_emit trace_emit
      split: if_splits http_outcome.splits option.splits sum.splits)

lemma token_result_independent:
  "fst (get_zoho_access_token w c s) = fst (get_zoho_access_token w c s')"
  by (simp add: get_zoho_access_token_def Let_def
      split: http_outcome.splits option.splits sum.splits)

lemma dict_get_error: "dict_get j k = Inl e \<Longrightarrow> e = AttributeError"
  by (cases j) auto

lemma token_not_TypeError: "fst (get_zoho_access_token w c s) \<noteq> Inl TypeError"
  by (auto simp: get_zoho_access_token_def Let_def dest: dict_get_error
      split: http_outcome.splits option.splits sum.splits)

lemma download_effects:
  assumes "download_file_from_s3 w c bucket key p s = (res, s')"
  shows "filter (\<lambda>e. \<not> is_print e) (trace s') =
        filter (\<lambda>e. \<not> is_print e) (trace s)
          @ (if boto3_client_failure w (AWS_REGION c) = None
             then [S3Download (AWS_REGION c) bucket key p] else [])
    \<and> (case res of
          Inl e \<Rightarrow> fs s' = fs s \<and> e \<noteq> TypeError
        | Inr q \<Rightarrow> q = p \<and> boto3_client_failure w (AWS_REGION c) = None
                   \<and> (\<exists>content. s3_service w (AWS_REGION c) bucket key = S3Ok content
                              \<and> fs s' = (fs s)(p \<mapsto> content)))"
  using assms
  by (auto simp: download_file_from_s3_def Let_def fs_emit trace_emit
      split: s3_outcome.splits option.splits)

lemma download_ok:
  assumes "boto3_client_failure w (AWS_REGION c) = None"
    and "s3_service w (AWS_REGION c) bucket key = S3Ok content"
  shows "download_file_from_s3 w c bucket key p s =
     (Inr p, emit (Print (MsgDownloaded bucket key))
        ((emit (S3Download (AWS_REGION c) bucket key p) s)
           \<lparr>fs := (fs (emit (S3Download (AWS_REGION c) bucket key p) s))(p \<mapsto> content)\<rparr>))"
  using assms by (simp add: download_file_from_s3_def Let_def)

lemma get_user_ids_effects:
  assumes "get_user_ids c s = (res, s')"
  shows "fs s' = fs s
    \<and> filter (\<lambda>e. \<not> is_print e) (trace s') = filter (\<lambda>e. \<not> is_print e) (trace s)
    \<and> (\<forall>ids. res = Inr ids \<longrightarrow>
          ids = filter (\<lambda>x. x \<noteq> []) (map strip (split CHR '','' (ZOHO_CLIQ_USER_IDS c)))
          \<and> ids \<noteq> [])
    \<and> res \<noteq> Inl TypeError"
  using assms
  by (auto simp: get_user_ids_result Let_def fs_emit trace_emit split: if_splits)

lemma cleanup_effects:
  "filter (\<lambda>e. \<not> is_print e) (trace (cleanup w p s)) =
     filter (\<lambda>e. \<not> is_print e) (trace s) @ [Unlink p]
   \<and> fs (cleanup w p s) = (if unlink_failure w p = None then (fs s)(p := None) else fs s)"
  by (auto simp: cleanup_def Let_def fs_emit trace_emit split: option.splits)

lemma cleanup_fails:
  assumes "unlink_failure w p = Some m"
  shows "cleanup w p s = emit (Print (MsgCleanupWarning m)) (emit (Unlink p) s)"
  using assms by (simp add: cleanup_def Let_def)

lemma cleanup_removes:
  assumes "unlink_failure w p = None" and "fs s p = Some f"
  shows "cleanup w p s =
     emit (Print MsgCleanedUp) ((emit (Unlink p) s)\<lparr>fs := (fs (emit (Unlink p) s))(p := None)\<rparr>)"
  using assms by (simp add: cleanup_def Let_def fs_emit)

lemma upload_not_TypeError:
  "fst (upload_file_to_zoho_cliq w tok p u b cm s) \<noteq> Inl TypeError"
  by (simp add: upload_file_to_zoho_cliq_def Let_def
      split: option.splits http_outcome.splits)

lemma upload_loop_not_TypeError:
  "fst (upload_loop w tok p b us acc s) \<noteq> Inl TypeError"
proof (induction us arbitrary: acc s)
  case Nil
  show ?case by simp
next
  case (Cons u us)
  obtain r1 s1 where step:
    "upload_file_to_zoho_cliq w tok p u b (Some [''Metal Price Update'']) s = (r1, s1)"
    by (cases "upload_file_to_zoho_cliq w tok p u b (Some [''Metal Price Update'']) s")
  show ?case
  proof (cases r1)
    case (Inl e)
    then have "e \<noteq> TypeError"
      using upload_not_TypeError [of w tok p u b "Some [''Metal Price Update'']" s] step
      by auto
    then show ?thesis using step Inl by simp
  next
    case (Inr x)
    then show ?thesis using step Cons.IH by simp
  qed
qed

lemma fst_report:
  "fst (report results s) =
     (case count_successful results of Inl e \<Rightarrow> Inl e | Inr n \<Rightarrow> Inr results)"
  by (simp add: report_def split: sum.splits)

lemma contains_error_error: "contains_error j = Inl e \<Longrightarrow> e = TypeError"
  by (cases j) auto

lemma count_successful_error: "count_successful rs = Inl e \<Longrightarrow> e = TypeError"
  by (induction rs) (auto split: sum.splits dest: contains_error_error)


text \<open>
  The seven ways a run of \<open>main\<close> can go: one for each place where an exception can leave
  it, and the run whose upload loop reaches its end.
\<close>

lemma main_cases:
  obtains
    (token_failed) e s1 where
      "get_zoho_access_token w (load_config (environ w)) (at_token_call s0) = (Inl e, s1)"
      "main w s0 = (Inl e, s1)"
  | (object_unset) tok s1 where
      "get_zoho_access_token w (load_config (environ w)) (at_token_call s0) = (Inr tok, s1)"
      "\<not> env_truthy (AWS_S3_BUCKET (load_config (environ w)))
         \<or> \<not> env_truthy (AWS_S3_FILE_KEY (load_config (environ w)))"
      "main w s0 = (Inl (ValueError ''AWS_S3_BUCKET and AWS_S3_FILE_KEY must be set''),
                    emit (Print MsgStep2) s1)"
  | (temp_file_failed) tok s1 bucket key m where
      "get_zoho_access_token w (load_config (environ w)) (at_token_call s0) = (Inr tok, s1)"
      "AWS_S3_BUCKET (load_config (environ w)) = Some bucket" "bucket \<noteq> []"
      "AWS_S3_FILE_KEY (load_config (environ w)) = Some key" "key \<noteq> []"
      "tmp_failure w (snd (splitext key)) = Some m"
      "main w s0 = (Inl (OSError m), emit (Print MsgStep2) s1)"
  | (download_failed) tok s1 bucket key e s3 where
      "get_zoho_access_token w (load_config (environ w)) (at_token_call s0) = (Inr tok, s1)"
      "AWS_S3_BUCKET (load_config (environ w)) = Some bucket" "bucket \<noteq> []"
      "AWS_S3_FILE_KEY (load_config (environ w)) = Some key" "key \<noteq> []"
      "tmp_failure w (snd (splitext key)) = None"
      "download_file_from_s3 w (load_config (environ w)) bucket key
         (named_temporary_file w (snd (splitext key))) (at_download_call w key s1) = (Inl e, s3)"
      "main w s0 = (Inl e, s3)"
  | (recipients_failed) tok s1 bucket key s3 e s4 where
      "get_zoho_access_token w (load_config (environ w)) (at_token_call s0) = (Inr tok, s1)"
      "AWS_S3_BUCKET (load_config (environ w)) = Some bucket" "bucket \<noteq> []"
      "AWS_S3_FILE_KEY (load_config (environ w)) = Some key" "key \<noteq> []"
      "tmp_failure w (snd (splitext key)) = None"
      "download_file_from_s3 w (load_config (environ w)) bucket key
         (named_temporary_file w (snd (splitext key))) (at_download_call w key s1)
       = (Inr (named_temporary_file w (snd (splitext key))), s3)"
      "get_user_ids (load_config (environ w)) (emit (Print MsgStep3) s3) = (Inl e, s4)"
      "main w s0 = (Inl e, s4)"
  | (upload_failed) tok s1 bucket key s3 ids s4 e s5 where
      "get_zoho_access_token w (load_config (environ w)) (at_token_call s0) = (Inr tok, s1)"
      "AWS_S3_BUCKET (load_config (environ w)) = Some bucket" "bucket \<noteq> []"
      "AWS_S3_FILE_KEY (load_config (environ w)) = Some key" "key \<noteq> []"
      "tmp_failure w (snd (splitext key)) = None"
      "download_file_from_s3 w (load_config (environ w)) bucket key
         (named_temporary_file w (snd (splitext key))) (at_download_call w key s1)
       = (Inr (named_temporary_file w (snd (splitext key))), s3)"
      "get_user_ids (load_config (environ w)) (emit (Print MsgStep3) s3) = (Inr ids, s4)"
      "upload_loop w tok (named_temporary_file w (snd (splitext key)))
         (ZOHO_BOT_NAME (load_config (environ w))) ids [] (at_first_upload ids s4) = (Inl e, s5)"
      "main w s0 = (Inl e, s5)"
  | (uploads_done) tok s1 bucket key s3 ids s4 results s5 where
      "get_zoho_access_token w (load_config (environ w)) (at_token_call s0) = (Inr tok, s1)"
      "AWS_S3_BUCKET (load_config (environ w)) = Some bucket" "bucket \<noteq> []"
      "AWS_S3_FILE_KEY (load_config (environ w)) = Some key" "key \<noteq> []"
      "tmp_failure w (snd (splitext key)) = None"
      "download_file_from_s3 w (load_config (environ w)) bucket key
         (named_temporary_file w (snd (splitext key))) (at_download_call w key s1)
       = (Inr (named_temporary_file w (snd (splitext key))), s3)"
      "get_user_ids (load_config (environ w)) (emit (Print MsgStep3) s3) = (Inr ids, s4)"
      "upload_loop w tok (named_temporary_file w (snd (splitext key)))
         (ZOHO_BOT_NAME (load_config (environ w))) ids [] (at_first_upload ids s4)
       = (Inr results, s5)"
      "main w s0 = report results (at_summary w (named_temporary_file w (snd (splitext key))) s5)"
proof -
  let ?c = "load_config (environ w)"
  obtain r1 s1 where tk: "get_zoho_access_token w ?c (at_token_call s0) = (r1, s1)"
    by (cases "get_zoho_access_token w ?c (at_token_call s0)")
  note tk' = tk [unfolded at_token_call_def]
  show thesis
  proof (cases r1)
    case (Inl e1)
    then have "main w s0 = (Inl e1, s1)" using tk' by (simp add: main_def Let_def)
    then show thesis using token_failed tk Inl by simp
  next
    case tok: (Inr tok)
    show thesis
    proof (cases "env_truthy (AWS_S3_BUCKET ?c) \<and> env_truthy (AWS_S3_FILE_KEY ?c)")
      case False
      then have "main w s0 = (Inl (ValueError ''AWS_S3_BUCKET and AWS_S3_FILE_KEY must be set''),
          emit (Print MsgStep2) s1)"
        using tk' tok by (auto simp: main_def Let_def)
      then show thesis using object_unset [of tok s1] tk tok False by simp
    next
      case True
      then obtain bucket key where bk: "AWS_S3_BUCKET ?c = Some bucket"
        and ky: "AWS_S3_FILE_KEY ?c = Some key"
        by (cases "AWS_S3_BUCKET ?c"; cases "AWS_S3_FILE_KEY ?c") auto
      have ne: "bucket \<noteq> []" "key \<noteq> []" using True bk ky by simp_all
      define p where "p = named_temporary_file w (snd (splitext key))"
      show thesis
      proof (cases "tmp_failure w (snd (splitext key))")
        case (Some m)
        then have "main w s0 = (Inl (OSError m), emit (Print MsgStep2) s1)"
          using tk' tok True bk ky by (simp add: main_def Let_def)
        then show thesis using temp_file_failed [of tok s1 bucket key m] tk tok bk ky ne Some
          by simp
      next
        case None
        define s2 where "s2 = at_download_call w key s1"
        note s2 = s2_def [unfolded at_download_call_def, folded p_def]
        obtain r3 s3 where dl: "download_file_from_s3 w ?c bucket key p s2 = (r3, s3)"
          by (cases "download_file_from_s3 w ?c bucket key p s2")
        show thesis
        proof (cases r3)
          case (Inl e3)
          then have "main w s0 = (Inl e3, s3)"
            using tk' tok True bk ky None dl
            by (simp add: main_def Let_def p_def [symmetric] s2 [symmetric])
          then show thesis
            using download_failed [of tok s1 bucket key e3 s3] tk tok bk ky ne None dl Inl
            by (simp add: p_def s2_def)
        next
          case dlok: (Inr q)
          have q: "q = p" using download_effects [OF dl] dlok by simp
          obtain r4 s4 where gu: "get_user_ids ?c (emit (Print MsgStep3) s3) = (r4, s4)"
            by (cases "get_user_ids ?c (emit (Print MsgStep3) s3)")
          show thesis
          proof (cases r4)
            case (Inl e4)
            then have "main w s0 = (Inl e4, s4)"
              using tk' tok True bk ky None dl dlok gu
              by (simp add: main_def Let_def p_def [symmetric] s2 [symmetric])
            then show thesis
              using recipients_failed [of tok s1 bucket key s3 e4 s4]
                tk tok bk ky ne None dl dlok q gu Inl
              by (simp add: p_def s2_def)
          next
            case idsok: (Inr ids)
            define s4' where "s4' = at_first_upload ids s4"
            note s4' = s4'_def [unfolded at_first_upload_def]
            obtain r5 s5 where lp: "upload_loop w tok p (ZOHO_BOT_NAME ?c) ids [] s4' = (r5, s5)"
              by (cases "upload_loop w tok p (ZOHO_BOT_NAME ?c) ids [] s4'")
            show thesis
            proof (cases r5)
              case (Inl e5)
              then have "main w s0 = (Inl e5, s5)"
                using tk' tok True bk ky None dl dlok gu idsok lp
                by (simp add: main_def Let_def p_def [symmetric] s2 [symmetric]
                    s4' [symmetric])
              then show thesis
                using upload_failed [of tok s1 bucket key s3 ids s4 e5 s5]
                  tk tok bk ky ne None dl dlok q gu idsok lp Inl
                by (simp add: p_def s2_def s4'_def)
            next
              case (Inr results)
              have "main w s0 = report results (at_summary w p s5)"
              proof (cases "count_successful results")
                case cl: (Inl e6)
                then show ?thesis
                  using tk' tok True bk ky None dl dlok gu idsok lp Inr
                  by (simp add: main_def Let_def p_def [symmetric] s2 [symmetric]
                      s4' [symmetric] report_def at_summary_def)
              next
                case cr: (Inr n)
                then show ?thesis
                  using tk' tok True bk ky None dl dlok gu idsok lp Inr
                  by (simp add: main_def Let_def p_def [symmetric] s2 [symmetric]
                      s4' [symmetric] report_def at_summary_def)
              qed
              then show thesis
                using uploads_done [of tok s1 bucket key s3 ids s4 results s5]
                  tk tok bk ky ne None dl dlok q gu idsok lp Inr
                by (simp add: p_def s2_def s4'_def)
            qed
          qed
        qed
      qed
    qed
  qed
qed


lemma upload_returned:
  assumes "upload_file_to_zoho_cliq w tok p uid b (Some cm) s = (Inr x, s1)"
  shows "\<exists>f. fs s p = Some f \<and> fs s1 = fs s
     \<and> filter (\<lambda>e. \<not> is_print e) (trace s1) =
         filter (\<lambda>e. \<not> is_print e) (trace s) @ [UploadPost (upload_request_of tok p f uid b cm)]"
proof (cases "fs s p")
  case None
  then show ?thesis using assms
    by (simp add: upload_file_to_zoho_cliq_def Let_def fs_emit)
next
  case (Some f)
  show ?thesis
  proof (cases "cliq_server w (uploads_sent s) (upload_request_of tok p f uid b cm)")
    case (NetworkError m)
    from upload_network_error [OF Some NetworkError] assms show ?thesis by simp
  next
    case (Reply r)
    from upload_reply [OF Some Reply] assms
    have "fs s1 = fs s \<and> filter (\<lambda>e. \<not> is_print e) (trace s1) =
         filter (\<lambda>e. \<not> is_print e) (trace s) @ [UploadPost (upload_request_of tok p f uid b cm)]"
      by (cases "status_code r = 200"; cases "json_body r")
         (auto simp: fs_emit filter_print_emit)
    with Some show ?thesis by simp
  qed
qed

lemma upload_loop_returned:
  assumes "upload_loop w tok p b us acc s = (Inr res, s')" and "fs s p = Some f"
  shows "fs s' = fs s
     \<and> filter (\<lambda>e. \<not> is_print e) (trace s') =
         filter (\<lambda>e. \<not> is_print e) (trace s)
           @ map (\<lambda>u. UploadPost (upload_request_of tok p f u b [''Metal Price Update''])) us
     \<and> (\<exists>res'. res = acc @ res' \<and> map entry_user_id res' = us)"
  using assms
proof (induction us arbitrary: acc s)
  case Nil
  then show ?case by simp
next
  case (Cons u us)
  obtain r1 s1 where step:
    "upload_file_to_zoho_cliq w tok p u b (Some [''Metal Price Update'']) s = (r1, s1)"
    by (cases "upload_file_to_zoho_cliq w tok p u b (Some [''Metal Price Update'']) s")
  show ?case
  proof (cases r1)
    case (Inl e)
    then show ?thesis using Cons.prems(1) step by simp
  next
    case (Inr x)
    let ?req = "\<lambda>v. UploadPost (upload_request_of tok p f v b [''Metal Price Update''])"
    have step': "upload_file_to_zoho_cliq w tok p u b (Some [''Metal Price Update'']) s
        = (Inr x, s1)"
      using step Inr by simp
    from upload_returned [OF step'] obtain f' where ff: "fs s p = Some f'"
      and f1: "fs s1 = fs s"
      and t1': "filter (\<lambda>e. \<not> is_print e) (trace s1) =
         filter (\<lambda>e. \<not> is_print e) (trace s)
           @ [UploadPost (upload_request_of tok p f' u b [''Metal Price Update''])]"
      by (elim exE conjE)
    have "f' = f" using ff Cons.prems(2) by simp
    then have t1: "filter (\<lambda>e. \<not> is_print e) (trace s1) =
         filter (\<lambda>e. \<not> is_print e) (trace s) @ [?req u]"
      using t1' by simp
    have run: "upload_loop w tok p b us (acc @ [\<lparr>entry_user_id = u, entry_result = x\<rparr>]) s1
        = (Inr res, s')"
      using Cons.prems(1) step' by simp
    have fs1: "fs s1 p = Some f" using f1 Cons.prems(2) by simp
    note ih = Cons.IH [OF run fs1]
    have f2: "fs s' = fs s1" using ih by (rule conjunct1)
    have t2: "filter (\<lambda>e. \<not> is_print e) (trace s') =
         filter (\<lambda>e. \<not> is_print e) (trace s1) @ map ?req us"
      using ih by (rule conjunct2 [THEN conjunct1])
    from ih [THEN conjunct2, THEN conjunct2] obtain res' where
      r2: "res = (acc @ [\<lparr>entry_user_id = u, entry_result = x\<rparr>]) @ res'"
      and i2: "map entry_user_id res' = us"
      by (elim exE conjE)
    have A: "fs s' = fs s" using f1 f2 by simp
    have B: "filter (\<lambda>e. \<not> is_print e) (trace s') =
         filter (\<lambda>e. \<not> is_print e) (trace s) @ map ?req (u # us)"
      using t1 t2 by simp
    have "res = acc @ (\<lparr>entry_user_id = u, entry_result = x\<rparr> # res')
        \<and> map entry_user_id (\<lparr>entry_user_id = u, entry_result = x\<rparr> # res') = u # us"
      using r2 i2 by simp
    then have C: "\<exists>res'. res = acc @ res' \<and> map entry_user_id res' = u # us"
      by (rule exI)
    show ?thesis by (intro conjI A B C)
  qed
qed

text \<open>Nothing before the cleanup reads whether deleting will fail.\<close>

lemma token_unlink_independent:
  "get_zoho_access_token (w\<lparr>unlink_failure := g\<rparr>) c s = get_zoho_access_token w c s"
  by (simp add: get_zoho_access_token_def)

lemma download_unlink_independent:
  "download_file_from_s3 (w\<lparr>unlink_failure := g\<rparr>) c bk k p s = download_file_from_s3 w c bk k p s"
  by (simp add: download_file_from_s3_def Let_def
      cong: option.case_cong s3_outcome.case_cong)

lemma upload_unlink_independent:
  "upload_file_to_zoho_cliq (w\<lparr>unlink_failure := g\<rparr>) tok p u b cm s
     = upload_file_to_zoho_cliq w tok p u b cm s"
  by (simp add: upload_file_to_zoho_cliq_def Let_def
      cong: option.case_cong http_outcome.case_cong)

lemma upload_loop_unlink_independent:
  "upload_loop (w\<lparr>unlink_failure := g\<rparr>) tok p b us acc s = upload_loop w tok p b us acc s"
  by (induction us arbitrary: acc s)
     (simp_all add: upload_unlink_independent cong: prod.case_cong sum.case_cong)

lemma uploads_emit:
  "filter is_upload (trace (emit e s)) =
     filter is_upload (trace s) @ (if is_upload e then [e] else [])"
  by (simp add: trace_emit)

lemma token_uploads:
  assumes "get_zoho_access_token w c s = (res, s')"
  shows "filter is_upload (trace s') = filter is_upload (trace s)"
  using assms
  by (auto simp: get_zoho_access_token_def Let_def trace_emit
      split: if_splits http_outcome.splits option.splits sum.splits)

lemma download_uploads:
  assumes "download_file_from_s3 w c bucket key p s = (res, s')"
  shows "filter is_upload (trace s') = filter is_upload (trace s)"
  using assms
  by (auto simp: download_file_from_s3_def Let_def trace_emit
      split: s3_outcome.splits option.splits)

lemma get_user_ids_uploads:
  assumes "get_user_ids c s = (res, s')"
  shows "filter is_upload (trace s') = filter is_upload (trace s)"
  using assms
  by (auto simp: get_user_ids_result Let_def trace_emit split: if_splits)

lemma cleanup_uploads:
  "filter is_upload (trace (cleanup w p s)) = filter is_upload (trace s)"
  by (simp add: cleanup_def Let_def trace_emit split: option.splits)

lemma uploads_of_events:
  "filter is_upload (filter (\<lambda>e. \<not> is_print e) xs) = filter is_upload xs"
proof -
  have "is_upload e \<Longrightarrow> \<not> is_print e" for e by (cases e) auto
  then show ?thesis by (induction xs) auto
qed

lemma uploads_sent_events:
  "uploads_sent s = length (filter is_upload (filter (\<lambda>e. \<not> is_print e) (trace s)))"
  by (simp only: uploads_sent_def uploads_of_events)

text \<open>The state in which the upload loop starts.\<close>

lemma before_uploads:
  assumes tk: "get_zoho_access_token w c (at_token_call s0) = (Inr tok, s1)"
    and dl: "download_file_from_s3 w c bucket key (named_temporary_file w (snd (splitext key)))
               (at_download_call w key s1)
             = (Inr (named_temporary_file w (snd (splitext key))), s3)"
    and gu: "get_user_ids c (emit (Print MsgStep3) s3) = (Inr ids, s4)"
  shows "\<exists>content. s3_service w (AWS_REGION c) bucket key = S3Ok content
     \<and> boto3_client_failure w (AWS_REGION c) = None
     \<and> fs (at_first_upload ids s4)
         = (fs s0)(named_temporary_file w (snd (splitext key)) \<mapsto> content)
     \<and> filter (\<lambda>e. \<not> is_print e) (trace (at_first_upload ids s4)) =
         filter (\<lambda>e. \<not> is_print e) (trace s0)
           @ [TokenPost (token_request_of c),
              TempFileCreated (named_temporary_file w (snd (splitext key))),
              S3Download (AWS_REGION c) bucket key (named_temporary_file w (snd (splitext key)))]
     \<and> uploads_sent (at_first_upload ids s4) = uploads_sent s0
     \<and> ids = filter (\<lambda>x. x \<noteq> []) (map strip (split CHR '','' (ZOHO_CLIQ_USER_IDS c)))
     \<and> ids \<noteq> []"
proof -
  let ?np = "\<lambda>e. \<not> is_print e"
  define p where "p = named_temporary_file w (snd (splitext key))"
  note dl = dl [folded p_def]
  have creds: "env_truthy (ZOHO_REFRESH_TOKEN c) \<and> env_truthy (ZOHO_CLIENT_ID c)
      \<and> env_truthy (ZOHO_CLIENT_SECRET c)"
    using tk token_missing_credentials [of c w "at_token_call s0"] by auto
  have f1: "fs s1 = fs s0" using token_effects [OF tk] by (simp add: at_token_call_def fs_emit)
  have t1: "filter ?np (trace s1) = filter ?np (trace s0) @ [TokenPost (token_request_of c)]"
    using token_effects [OF tk] creds by (simp add: at_token_call_def trace_emit)
  have f2: "fs (at_download_call w key s1) = (fs s0)(p \<mapsto> [])"
    using f1 by (simp add: at_download_call_def p_def fs_emit emit_def)
  have t2: "filter ?np (trace (at_download_call w key s1)) =
      filter ?np (trace s0) @ [TokenPost (token_request_of c), TempFileCreated p]"
    using t1 by (simp add: at_download_call_def p_def trace_emit emit_def)
  from download_effects [OF dl] obtain content where
    cl: "boto3_client_failure w (AWS_REGION c) = None"
    and ok: "s3_service w (AWS_REGION c) bucket key = S3Ok content"
    and f3: "fs s3 = (fs (at_download_call w key s1))(p \<mapsto> content)"
    and t3: "filter ?np (trace s3) = filter ?np (trace (at_download_call w key s1))
        @ [S3Download (AWS_REGION c) bucket key p]"
    by auto
  from get_user_ids_effects [OF gu]
  have f4: "fs s4 = fs s3" and t4: "filter ?np (trace s4) = filter ?np (trace s3)"
    and ids: "ids = filter (\<lambda>x. x \<noteq> []) (map strip (split CHR '','' (ZOHO_CLIQ_USER_IDS c)))"
    and ne: "ids \<noteq> []"
    by (auto simp: fs_emit trace_emit)
  have F: "fs (at_first_upload ids s4) = (fs s0)(p \<mapsto> content)"
    using f4 f3 f2 by (simp add: at_first_upload_def fs_emit)
  have T: "filter ?np (trace (at_first_upload ids s4)) =
      filter ?np (trace s0) @ [TokenPost (token_request_of c), TempFileCreated p,
         S3Download (AWS_REGION c) bucket key p]"
    using t4 t3 t2 by (simp add: at_first_upload_def trace_emit)
  have U: "uploads_sent (at_first_upload ids s4) = uploads_sent s0"
    by (simp add: uploads_sent_events T)
  show ?thesis
    by (rule exI [of _ content])
       (intro conjI ok cl F [unfolded p_def] T [unfolded p_def] U ids ne)
qed

lemma upload_loop_trace_grows:
  assumes "upload_loop w tok p b us acc s = (res, s')"
  shows "set (trace s) \<subseteq> set (trace s')"
  using upload_loop_effects [OF assms] by auto

text \<open>The line printed for each recipient of a loop that returned.\<close>

lemma upload_loop_prints:
  assumes "upload_loop w tok p b us acc s = (Inr res, s')" and "fs s p = Some f"
  shows "\<forall>i < length us. \<forall>r.
           cliq_server w (uploads_sent s + i)
             (upload_request_of tok p f (us ! i) b [''Metal Price Update'']) = Reply r
           \<longrightarrow> Print (if status_code r = 200 then MsgUploaded (us ! i)
                     else MsgUploadFailed (us ! i) (status_code r)) \<in> set (trace s')"
  using assms
proof (induction us arbitrary: acc s)
  case Nil
  then show ?case by simp
next
  case (Cons u us)
  let ?req = "\<lambda>v. upload_request_of tok p f v b [''Metal Price Update'']"
  let ?line = "\<lambda>v r. Print (if status_code r = 200 then MsgUploaded v
                     else MsgUploadFailed v (status_code r))"
  obtain r1 s1 where step:
    "upload_file_to_zoho_cliq w tok p u b (Some [''Metal Price Update'']) s = (r1, s1)"
    by (cases "upload_file_to_zoho_cliq w tok p u b (Some [''Metal Price Update'']) s")
  show ?case
  proof (cases r1)
    case (Inl e)
    then show ?thesis using Cons.prems(1) step by simp
  next
    case (Inr x)
    have step': "upload_file_to_zoho_cliq w tok p u b (Some [''Metal Price Update'']) s
        = (Inr x, s1)"
      using step Inr by simp
    have run: "upload_loop w tok p b us (acc @ [\<lparr>entry_user_id = u, entry_result = x\<rparr>]) s1
        = (Inr res, s')"
      using Cons.prems(1) step' by simp
    from upload_returned [OF step'] have f1: "fs s1 = fs s" by auto
    have fs1: "fs s1 p = Some f" using f1 Cons.prems(2) by simp
    have n1: "uploads_sent s1 = Suc (uploads_sent s)"
      using upload_returned [OF step'] Cons.prems(2)
      by (auto simp: uploads_sent_events)
    note ih = Cons.IH [OF run fs1]
    show ?thesis
    proof (intro allI impI)
      fix i r
      assume i: "i < length (u # us)"
        and r: "cliq_server w (uploads_sent s + i) (?req ((u # us) ! i)) = Reply r"
      show "?line ((u # us) ! i) r \<in> set (trace s')"
      proof (cases i)
        case 0
        then have r0: "cliq_server w (uploads_sent s) (?req u) = Reply r" using r by simp
        from upload_reply [OF Cons.prems(2) r0] step'
        have "?line u r \<in> set (trace s1)"
          by (cases "status_code r = 200") (auto simp: trace_emit)
        then show ?thesis using upload_loop_trace_grows [OF run] 0 by auto
      next
        case (Suc k)
        then have k: "k < length us" using i by simp
        have "cliq_server w (uploads_sent s1 + k) (?req (us ! k)) = Reply r"
          using r Suc n1 by simp
        from ih [rule_format, OF k this] show ?thesis using Suc by (simp split: if_splits)
      qed
    qed
  qed
qed

lemma cleanup_trace_grows: "set (trace s) \<subseteq> set (trace (cleanup w p s))"
  by (auto simp: cleanup_def Let_def trace_emit split: option.splits)

subsection \<open>The end of the upload loop\<close>

lemma report_effects:
  "fs (snd (report results s)) = fs s
   \<and> filter (\<lambda>e. \<not> is_print e) (trace (snd (report results s)))
       = filter (\<lambda>e. \<not> is_print e) (trace s)
   \<and> set (trace s) \<subseteq> set (trace (snd (report results s)))"
  by (cases "count_successful results") (auto simp: report_def fs_emit trace_emit)

lemma at_summary_effects:
  "fs (at_summary w p s) = fs (cleanup w p s)
   \<and> filter (\<lambda>e. \<not> is_print e) (trace (at_summary w p s))
       = filter (\<lambda>e. \<not> is_print e) (trace s) @ [Unlink p]
   \<and> set (trace (cleanup w p s)) \<subseteq> set (trace (at_summary w p s))"
  using cleanup_effects [of w p s]
  by (auto simp: at_summary_def fs_emit trace_emit)

lemma summary_trace_grows:
  "set (trace s5) \<subseteq> set (trace (snd (report results (at_summary w p s5))))"
  using cleanup_trace_grows [of s5 w p] at_summary_effects [of w p s5]
    report_effects [of results "at_summary w p s5"]
  by blast

text \<open>The state in which the upload loop has ended.\<close>

lemma after_uploads:
  assumes tk: "get_zoho_access_token w c (at_token_call s0) = (Inr tok, s1)"
    and dl: "download_file_from_s3 w c bucket key (named_temporary_file w (snd (splitext key)))
               (at_download_call w key s1)
             = (Inr (named_temporary_file w (snd (splitext key))), s3)"
    and gu: "get_user_ids c (emit (Print MsgStep3) s3) = (Inr ids, s4)"
    and lp: "upload_loop w tok (named_temporary_file w (snd (splitext key))) b ids []
               (at_first_upload ids s4) = (Inr results, s5)"
  shows "\<exists>content. s3_service w (AWS_REGION c) bucket key = S3Ok content
     \<and> fs s5 = (fs s0)(named_temporary_file w (snd (splitext key)) \<mapsto> content)
     \<and> filter (\<lambda>e. \<not> is_print e) (trace s5) =
         filter (\<lambda>e. \<not> is_print e) (trace s0)
           @ [TokenPost (token_request_of c),
              TempFileCreated (named_temporary_file w (snd (splitext key))),
              S3Download (AWS_REGION c) bucket key (named_temporary_file w (snd (splitext key)))]
           @ map (\<lambda>u. UploadPost
                    (upload_request_of tok (named_temporary_file w (snd (splitext key)))
                       content u b [''Metal Price Update''])) ids
     \<and> map entry_user_id results = ids
     \<and> ids = filter (\<lambda>x. x \<noteq> []) (map strip (split CHR '','' (ZOHO_CLIQ_USER_IDS c)))"
proof -
  let ?np = "\<lambda>e. \<not> is_print e"
  define p where "p = named_temporary_file w (snd (splitext key))"
  from before_uploads [OF tk dl gu, folded p_def] obtain content where
    ok: "s3_service w (AWS_REGION c) bucket key = S3Ok content"
    and F: "fs (at_first_upload ids s4) = (fs s0)(p \<mapsto> content)"
    and T: "filter ?np (trace (at_first_upload ids s4)) =
        filter ?np (trace s0) @ [TokenPost (token_request_of c), TempFileCreated p,
           S3Download (AWS_REGION c) bucket key p]"
    and ids: "ids = filter (\<lambda>x. x \<noteq> []) (map strip (split CHR '','' (ZOHO_CLIQ_USER_IDS c)))"
    by (elim exE conjE)
  have Fp: "fs (at_first_upload ids s4) p = Some content" by (simp add: F)
  note lr = upload_loop_returned [OF lp [folded p_def] Fp]
  have f5: "fs s5 = (fs s0)(p \<mapsto> content)" using lr [THEN conjunct1] F by simp
  have t5: "filter ?np (trace s5) =
      filter ?np (trace s0) @ [TokenPost (token_request_of c), TempFileCreated p,
           S3Download (AWS_REGION c) bucket key p]
        @ map (\<lambda>u. UploadPost (upload_request_of tok p content u b [''Metal Price Update''])) ids"
    using lr [THEN conjunct2, THEN conjunct1] T by simp
  from lr [THEN conjunct2, THEN conjunct2] have r5: "map entry_user_id results = ids"
    by auto
  show ?thesis
    by (rule exI [of _ content])
       (intro conjI ok f5 [unfolded p_def] t5 [unfolded p_def] r5 ids)
qed

text \<open>
  When the stages before the loop succeed and every upload is answered (an answer with
  status 200 having a JSON body), the loop of \<open>main\<close> reaches its end.
\<close>

lemma main_completes:
  assumes tok: "fst (get_zoho_access_token w (load_config (environ w)) s0) = Inr tok"
    and bk: "AWS_S3_BUCKET (load_config (environ w)) = Some bucket" "bucket \<noteq> []"
    and ky: "AWS_S3_FILE_KEY (load_config (environ w)) = Some key" "key \<noteq> []"
    and tmp: "tmp_failure w (snd (splitext key)) = None"
    and cl: "boto3_client_failure w (AWS_REGION (load_config (environ w))) = None"
    and ok: "s3_service w (AWS_REGION (load_config (environ w))) bucket key = S3Ok content"
    and ids: "filter (\<lambda>x. x \<noteq> [])
               (map strip (split CHR '','' (ZOHO_CLIQ_USER_IDS (load_config (environ w))))) = ids"
      "ids \<noteq> []"
    and answered: "\<forall>i < length ids. \<exists>r.
           cliq_server w (uploads_sent s0 + i)
             (upload_request_of tok (named_temporary_file w (snd (splitext key))) content
                (ids ! i) (ZOHO_BOT_NAME (load_config (environ w))) [''Metal Price Update''])
             = Reply r
           \<and> (status_code r = 200 \<longrightarrow> json_body r \<noteq> None)"
  shows "\<exists>results s5.
      main w s0 = report results (at_summary w (named_temporary_file w (snd (splitext key))) s5)
    \<and> map entry_user_id results = ids
    \<and> fs s5 = (fs s0)(named_temporary_file w (snd (splitext key)) \<mapsto> content)
    \<and> filter (\<lambda>e. \<not> is_print e) (trace s5) =
         filter (\<lambda>e. \<not> is_print e) (trace s0)
           @ [TokenPost (token_request_of (load_config (environ w))),
              TempFileCreated (named_temporary_file w (snd (splitext key))),
              S3Download (AWS_REGION (load_config (environ w))) bucket key
                (named_temporary_file w (snd (splitext key)))]
           @ map (\<lambda>u. UploadPost
                    (upload_request_of tok (named_temporary_file w (snd (splitext key)))
                       content u (ZOHO_BOT_NAME (load_config (environ w)))
                       [''Metal Price Update''])) ids
    \<and> (\<forall>i < length ids. \<forall>r.
           cliq_server w (uploads_sent s0 + i)
             (upload_request_of tok (named_temporary_file w (snd (splitext key))) content
                (ids ! i) (ZOHO_BOT_NAME (load_config (environ w))) [''Metal Price Update''])
             = Reply r
           \<longrightarrow> (if status_code r = 200 then json_body r = Some (entry_result (results ! i))
                else entry_result (results ! i) =
                       JObj [(''error'', JStr (body_text r)),
                             (''status_code'', JInt (status_code r))]))
    \<and> (\<forall>i < length ids. \<forall>r.
           cliq_server w (uploads_sent s0 + i)
             (upload_request_of tok (named_temporary_file w (snd (splitext key))) content
                (ids ! i) (ZOHO_BOT_NAME (load_config (environ w))) [''Metal Price Update''])
             = Reply r
           \<longrightarrow> Print (if status_code r = 200 then MsgUploaded (ids ! i)
                     else MsgUploadFailed (ids ! i) (status_code r)) \<in> set (trace s5))"
proof -
  let ?c = "load_config (environ w)"
  let ?np = "\<lambda>e. \<not> is_print e"
  define p where "p = named_temporary_file w (snd (splitext key))"
  define b where "b = ZOHO_BOT_NAME ?c"
  note answered = answered [folded p_def b_def]
  have tok': "fst (get_zoho_access_token w ?c (at_token_call s0)) = Inr tok"
    using tok token_result_independent [of w ?c "at_token_call s0" s0] by simp
  show ?thesis
  proof (cases rule: main_cases [of w s0])
    case (token_failed e s1)
    then show ?thesis using tok' by simp
  next
    case (object_unset tok2 s1)
    then show ?thesis using bk ky by simp
  next
    case (temp_file_failed tok2 s1 bucket2 key2 m)
    then show ?thesis using ky tmp by simp
  next
    case (download_failed tok2 s1 bucket2 key2 e s3)
    then have "download_file_from_s3 w ?c bucket key p (at_download_call w key s1) = (Inl e, s3)"
      using bk ky by (simp add: p_def)
    then show ?thesis using download_ok [OF cl ok] by simp
  next
    case (recipients_failed tok2 s1 bucket2 key2 s3 e s4)
    then show ?thesis using ids by (simp add: get_user_ids_result Let_def strip_def split: if_splits)
  next
    case (upload_failed tok2 s1 bucket2 key2 s3 ids2 s4 e s5)
    have k2: "key2 = key" "bucket2 = bucket" "tok2 = tok"
      using upload_failed bk ky tok' by simp_all
    note uf = upload_failed [unfolded k2, folded p_def b_def]
    from before_uploads [OF uf(1) uf(7) [unfolded p_def] uf(8)] obtain content2 where
      ok2: "s3_service w (AWS_REGION ?c) bucket key = S3Ok content2"
      and F: "fs (at_first_upload ids2 s4) = (fs s0)(p \<mapsto> content2)"
      and U: "uploads_sent (at_first_upload ids2 s4) = uploads_sent s0"
      and i2: "ids2 = filter (\<lambda>x. x \<noteq> [])
          (map strip (split CHR '','' (ZOHO_CLIQ_USER_IDS ?c)))"
      unfolding p_def by (elim exE conjE)
    have c2: "content2 = content" using ok ok2 by simp
    have i2': "ids2 = ids" using i2 ids by simp
    have Fp: "fs (at_first_upload ids s4) p = Some content" using F c2 i2' by simp
    have ans: "\<forall>i < length ids. \<exists>r.
           cliq_server w (uploads_sent (at_first_upload ids s4) + i)
             (upload_request_of tok p content (ids ! i) b [''Metal Price Update'']) = Reply r
           \<and> (status_code r = 200 \<longrightarrow> json_body r \<noteq> None)"
      using answered U i2' by simp
    from upload_loop_completes [OF Fp ans, of "[]"] uf(9) [unfolded i2']
    show ?thesis by auto
  next
    case (uploads_done tok2 s1 bucket2 key2 s3 ids2 s4 results s5)
    have k2: "key2 = key" "bucket2 = bucket" "tok2 = tok"
      using uploads_done bk ky tok' by simp_all
    note ud = uploads_done [unfolded k2, folded p_def b_def]
    from before_uploads [OF ud(1) ud(7) [unfolded p_def] ud(8)] obtain content2 where
      ok2: "s3_service w (AWS_REGION ?c) bucket key = S3Ok content2"
      and F: "fs (at_first_upload ids2 s4) = (fs s0)(p \<mapsto> content2)"
      and U: "uploads_sent (at_first_upload ids2 s4) = uploads_sent s0"
      and i2: "ids2 = filter (\<lambda>x. x \<noteq> [])
          (map strip (split CHR '','' (ZOHO_CLIQ_USER_IDS ?c)))"
      unfolding p_def by (elim exE conjE)
    have c2: "content2 = content" using ok ok2 by simp
    have i2': "ids2 = ids" using i2 ids by simp
    have Fp: "fs (at_first_upload ids s4) p = Some content" using F c2 i2' by simp
    have ans: "\<forall>i < length ids. \<exists>r.
           cliq_server w (uploads_sent (at_first_upload ids s4) + i)
             (upload_request_of tok p content (ids ! i) b [''Metal Price Update'']) = Reply r
           \<and> (status_code r = 200 \<longrightarrow> json_body r \<noteq> None)"
      using answered U i2' by simp
    from upload_loop_completes [OF Fp ans, of "[]"] obtain res s' where
      run: "upload_loop w tok p b ids [] (at_first_upload ids s4) = (Inr ([] @ res), s')"
      and entries: "\<forall>i < length ids. \<forall>r.
           cliq_server w (uploads_sent (at_first_upload ids s4) + i)
             (upload_request_of tok p content (ids ! i) b [''Metal Price Update'']) = Reply r
           \<longrightarrow> (if status_code r = 200 then json_body r = Some (entry_result (res ! i))
                else entry_result (res ! i) =
                       JObj [(''error'', JStr (body_text r)),
                             (''status_code'', JInt (status_code r))])"
      by (elim exE conjE)
    have res: "res = results" using run ud(9) [unfolded i2'] by simp
    note au = after_uploads [OF ud(1) ud(7) [unfolded p_def] ud(8) ud(9) [unfolded p_def]]
    from au obtain content3 where
      ok3: "s3_service w (AWS_REGION ?c) bucket key = S3Ok content3"
      and f5: "fs s5 = (fs s0)(named_temporary_file w (snd (splitext key)) \<mapsto> content3)"
      and t5: "filter ?np (trace s5) =
         filter ?np (trace s0)
           @ [TokenPost (token_request_of ?c),
              TempFileCreated (named_temporary_file w (snd (splitext key))),
              S3Download (AWS_REGION ?c) bucket key (named_temporary_file w (snd (splitext key)))]
           @ map (\<lambda>u. UploadPost
                    (upload_request_of tok (named_temporary_file w (snd (splitext key)))
                       content3 u b [''Metal Price Update''])) ids2"
      and r5: "map entry_user_id results = ids2"
      by (elim exE conjE)
    have c3: "content3 = content" using ok ok3 by simp
    have A: "main w s0 = report results (at_summary w (named_temporary_file w (snd (splitext key))) s5)"
      using ud(10) by (simp add: p_def)
    have B: "map entry_user_id results = ids" using r5 i2' by simp
    note C = f5 [unfolded c3]
    note D = t5 [unfolded c3 i2' b_def]
    have E: "\<forall>i < length ids. \<forall>r.
           cliq_server w (uploads_sent s0 + i)
             (upload_request_of tok p content (ids ! i) b [''Metal Price Update'']) = Reply r
           \<longrightarrow> (if status_code r = 200 then json_body r = Some (entry_result (results ! i))
                else entry_result (results ! i) =
                       JObj [(''error'', JStr (body_text r)),
                             (''status_code'', JInt (status_code r))])"
      by (rule entries [unfolded U [unfolded i2'] res])
    note F = upload_loop_prints [OF ud(9) [unfolded i2'] Fp, unfolded U [unfolded i2']]
    show ?thesis
      by (rule exI [of _ results], rule exI [of _ s5])
         (intro conjI A B C D E [unfolded p_def b_def] F [unfolded p_def b_def])
  qed
qed

subsection \<open>Runs whose loop reached its end\<close>


text \<open>Nothing but the cleanup reads whether deleting will fail.\<close>

lemma named_temporary_file_unlink:
  "named_temporary_file (w\<lparr>unlink_failure := g\<rparr>) sfx = named_temporary_file w sfx"
  by (simp add: named_temporary_file_def)

lemma main_unlink_independent:
  "fst (main (w\<lparr>unlink_failure := g\<rparr>) s0) = fst (main w s0)"
proof -
  let ?w = "w\<lparr>unlink_failure := g\<rparr>"
  note ind = token_unlink_independent download_unlink_independent
    upload_loop_unlink_independent named_temporary_file_unlink
  note pts = at_token_call_def at_download_call_def at_first_upload_def
  show ?thesis
  proof (cases rule: main_cases [of w s0])
    case (token_failed e s1)
    have "main ?w s0 = (Inl e, s1)"
      using token_failed(1) [unfolded pts] by (simp add: main_def Let_def ind)
    then show ?thesis using token_failed(2) by simp
  next
    case (object_unset tok s1)
    have "fst (main ?w s0) = Inl (ValueError ''AWS_S3_BUCKET and AWS_S3_FILE_KEY must be set'')"
      using object_unset(1) [unfolded pts] object_unset(2)
      by (auto simp: main_def Let_def ind)
    then show ?thesis using object_unset(3) by simp
  next
    case (temp_file_failed tok s1 bucket key m)
    have "fst (main ?w s0) = Inl (OSError m)"
      using temp_file_failed(1) [unfolded pts] temp_file_failed(2-6)
      by (simp add: main_def Let_def ind)
    then show ?thesis using temp_file_failed(7) by simp
  next
    case (download_failed tok s1 bucket key e s3)
    have "fst (main ?w s0) = Inl e"
      using download_failed(1,7) [unfolded pts] download_failed(2-6)
      by (simp add: main_def Let_def ind)
    then show ?thesis using download_failed(8) by simp
  next
    case (recipients_failed tok s1 bucket key s3 e s4)
    have "fst (main ?w s0) = Inl e"
      using recipients_failed(1,7,8) [unfolded pts] recipients_failed(2-6)
      by (simp add: main_def Let_def ind)
    then show ?thesis using recipients_failed(9) by simp
  next
    case (upload_failed tok s1 bucket key s3 ids s4 e s5)
    have "fst (main ?w s0) = Inl e"
      using upload_failed(1,7,8,9) [unfolded pts] upload_failed(2-6)
      by (simp add: main_def Let_def ind)
    then show ?thesis using upload_failed(10) by simp
  next
    case (uploads_done tok s1 bucket key s3 ids s4 results s5)
    have "fst (main ?w s0) =
        (case count_successful results of Inl e \<Rightarrow> Inl e | Inr n \<Rightarrow> Inr results)"
      using uploads_done(1,7,8,9) [unfolded pts] uploads_done(2-6)
      by (cases "count_successful results") (simp_all add: main_def Let_def ind)
    then show ?thesis using uploads_done(10) by (simp add: fst_report)
  qed
qed

text \<open>
  The runs of \<open>main\<close> whose upload loop reached its end are those that return their list
  and those that raise \<^verbatim>\<open>TypeError\<close>, which only the summary of line 221 does.
\<close>

lemma main_loop_ended:
  assumes "(\<exists>results. fst (main w s0) = Inr results) \<or> fst (main w s0) = Inl TypeError"
  shows "\<exists>tok bucket key content results s5.
      fst (get_zoho_access_token w (load_config (environ w)) s0) = Inr tok
    \<and> AWS_S3_BUCKET (load_config (environ w)) = Some bucket
    \<and> AWS_S3_FILE_KEY (load_config (environ w)) = Some key
    \<and> s3_service w (AWS_REGION (load_config (environ w))) bucket key = S3Ok content
    \<and> main w s0 = report results (at_summary w (named_temporary_file w (snd (splitext key))) s5)
    \<and> map entry_user_id results
        = filter (\<lambda>x. x \<noteq> [])
            (map strip (split CHR '','' (ZOHO_CLIQ_USER_IDS (load_config (environ w)))))
    \<and> fs s5 = (fs s0)(named_temporary_file w (snd (splitext key)) \<mapsto> content)
    \<and> filter (\<lambda>e. \<not> is_print e) (trace s5) =
         filter (\<lambda>e. \<not> is_print e) (trace s0)
           @ [TokenPost (token_request_of (load_config (environ w))),
              TempFileCreated (named_temporary_file w (snd (splitext key))),
              S3Download (AWS_REGION (load_config (environ w))) bucket key
                (named_temporary_file w (snd (splitext key)))]
           @ map (\<lambda>u. UploadPost
                    (upload_request_of tok (named_temporary_file w (snd (splitext key)))
                       content u (ZOHO_BOT_NAME (load_config (environ w)))
                       [''Metal Price Update'']))
               (filter (\<lambda>x. x \<noteq> [])
                 (map strip (split CHR '','' (ZOHO_CLIQ_USER_IDS (load_config (environ w))))))"
proof -
  let ?c = "load_config (environ w)"
  have ne: "fst (main w s0) \<noteq> Inl e" if "e \<noteq> TypeError" for e
    using assms that by auto
  show ?thesis
  proof (cases rule: main_cases [of w s0])
    case (token_failed e s1)
    have "e \<noteq> TypeError" using token_not_TypeError [of w ?c "at_token_call s0"] token_failed(1)
      by auto
    from ne [OF this] show ?thesis using token_failed(2) by simp
  next
    case (object_unset tok s1)
    show ?thesis using ne [of "ValueError ''AWS_S3_BUCKET and AWS_S3_FILE_KEY must be set''"]
        object_unset(3) by simp
  next
    case (temp_file_failed tok s1 bucket key m)
    show ?thesis using ne [of "OSError m"] temp_file_failed(7) by simp
  next
    case (download_failed tok s1 bucket key e s3)
    have "e \<noteq> TypeError" using download_effects [OF download_failed(7)] by simp
    from ne [OF this] show ?thesis using download_failed(8) by simp
  next
    case (recipients_failed tok s1 bucket key s3 e s4)
    have "e \<noteq> TypeError" using get_user_ids_effects [OF recipients_failed(8)] by simp
    from ne [OF this] show ?thesis using recipients_failed(9) by simp
  next
    case (upload_failed tok s1 bucket key s3 ids s4 e s5)
    have "e \<noteq> TypeError"
      using upload_loop_not_TypeError [of w tok "named_temporary_file w (snd (splitext key))"
          "ZOHO_BOT_NAME ?c" ids "[]" "at_first_upload ids s4"] upload_failed(9)
      by auto
    from ne [OF this] show ?thesis using upload_failed(10) by simp
  next
    case (uploads_done tok s1 bucket key s3 ids s4 results s5)
    from after_uploads [OF uploads_done(1,7,8,9)] obtain content where
      ok: "s3_service w (AWS_REGION ?c) bucket key = S3Ok content"
      and f5: "fs s5 = (fs s0)(named_temporary_file w (snd (splitext key)) \<mapsto> content)"
      and t5: "filter (\<lambda>e. \<not> is_print e) (trace s5) =
         filter (\<lambda>e. \<not> is_print e) (trace s0)
           @ [TokenPost (token_request_of ?c),
              TempFileCreated (named_temporary_file w (snd (splitext key))),
              S3Download (AWS_REGION ?c) bucket key (named_temporary_file w (snd (splitext key)))]
           @ map (\<lambda>u. UploadPost
                    (upload_request_of tok (named_temporary_file w (snd (splitext key)))
                       content u (ZOHO_BOT_NAME ?c) [''Metal Price Update''])) ids"
      and r5: "map entry_user_id results = ids"
      and ids: "ids = filter (\<lambda>x. x \<noteq> []) (map strip (split CHR '','' (ZOHO_CLIQ_USER_IDS ?c)))"
      by (elim exE conjE)
    have tk: "fst (get_zoho_access_token w ?c s0) = Inr tok"
      using uploads_done(1) token_result_independent [of w ?c s0 "at_token_call s0"] by simp
    show ?thesis
      by (rule exI [of _ tok], rule exI [of _ bucket], rule exI [of _ key],
          rule exI [of _ content], rule exI [of _ results], rule exI [of _ s5])
         (intro conjI tk uploads_done(2) uploads_done(4) ok uploads_done(10)
            r5 [unfolded ids] f5 t5 [unfolded ids])
  qed
qed

text \<open>What the last lines of \<open>main\<close> leave, from the state in which the loop ended.\<close>

lemma summary_effects:
  "filter (\<lambda>e. \<not> is_print e) (trace (snd (report results (at_summary w p s5))))
     = filter (\<lambda>e. \<not> is_print e) (trace s5) @ [Unlink p]
   \<and> (unlink_failure w p = None \<and> fs s5 p \<noteq> None
        \<longrightarrow> fs (snd (report results (at_summary w p s5))) p = None
          \<and> Print MsgCleanedUp \<in> set (trace (snd (report results (at_summary w p s5)))))
   \<and> (\<forall>m. unlink_failure w p = Some m
        \<longrightarrow> fs (snd (report results (at_summary w p s5))) = fs s5
          \<and> Print (MsgCleanupWarning m)
               \<in> set (trace (snd (report results (at_summary w p s5)))))"
  (is "?a \<and> ?b \<and> ?c")
proof -
  let ?s6 = "at_summary w p s5"
  note re = report_effects [of results ?s6]
  note se = at_summary_effects [of w p s5]
  have f: "fs (snd (report results ?s6)) = fs (cleanup w p s5)"
    using re se by simp
  have sub: "set (trace (cleanup w p s5)) \<subseteq> set (trace (snd (report results ?s6)))"
    using re se by blast
  have a: ?a using re se by simp
  have b: ?b
  proof
    assume h: "unlink_failure w p = None \<and> fs s5 p \<noteq> None"
    then obtain f5 where "fs s5 p = Some f5" by auto
    from cleanup_removes [OF h [THEN conjunct1] this]
    have "fs (cleanup w p s5) p = None" and "Print MsgCleanedUp \<in> set (trace (cleanup w p s5))"
      by (simp_all add: fs_emit trace_emit)
    then show "fs (snd (report results ?s6)) p = None
          \<and> Print MsgCleanedUp \<in> set (trace (snd (report results ?s6)))"
      using f sub by auto
  qed
  have c: ?c
  proof (intro allI impI)
    fix m assume "unlink_failure w p = Some m"
    from cleanup_fails [OF this, of s5]
    have "fs (cleanup w p s5) = fs s5"
      and "Print (MsgCleanupWarning m) \<in> set (trace (cleanup w p s5))"
      by (simp_all add: fs_emit trace_emit)
    then show "fs (snd (report results ?s6)) = fs s5
          \<and> Print (MsgCleanupWarning m) \<in> set (trace (snd (report results ?s6)))"
      using f sub by auto
  qed
  show ?thesis by (rule conjI [OF a conjI [OF b c]])
qed

subsection \<open>The upload requests of a run\<close>

lemma report_uploads:
  "filter is_upload (trace (snd (report results s))) = filter is_upload (trace s)"
  by (cases "count_successful results") (simp_all add: report_def uploads_emit)

lemma at_summary_uploads:
  "filter is_upload (trace (at_summary w p s)) = filter is_upload (trace s)"
  by (simp add: at_summary_def uploads_emit cleanup_uploads)

text \<open>Every upload request of a run of \<open>main\<close>, whatever the outcome of the run.\<close>

lemma main_upload_events:
  assumes "e \<in> set (trace (snd (main w s0)))" and "is_upload e" and "e \<notin> set (trace s0)"
  shows "\<exists>tok key f u.
      AWS_S3_FILE_KEY (load_config (environ w)) = Some key
    \<and> u \<in> set (filter (\<lambda>x. x \<noteq> [])
                 (map strip (split CHR '','' (ZOHO_CLIQ_USER_IDS (load_config (environ w))))))
    \<and> e = UploadPost (upload_request_of tok (named_temporary_file w (snd (splitext key))) f u
              (ZOHO_BOT_NAME (load_config (environ w))) [''Metal Price Update''])"
proof -
  let ?c = "load_config (environ w)"
  let ?U = "\<lambda>s. filter is_upload (trace s)"
  have early: False if "?U (snd (main w s0)) = ?U s0"
  proof -
    have "e \<in> set (?U (snd (main w s0)))" using assms(1,2) by simp
    then have "e \<in> set (?U s0)" using that by simp
    then show False using assms(3) by simp
  qed
  have u0: "?U (at_token_call s0) = ?U s0" by (simp add: at_token_call_def uploads_emit)
  have ud: "?U (at_download_call w key s1) = ?U s1" for key s1
    by (simp add: at_download_call_def trace_emit)
  have uf: "?U (at_first_upload ids s4) = ?U s4" for ids s4
    by (simp add: at_first_upload_def uploads_emit)
  have loop: ?thesis
    if tk: "get_zoho_access_token w ?c (at_token_call s0) = (Inr tok, s1)"
      and ky: "AWS_S3_FILE_KEY ?c = Some key"
      and dl: "download_file_from_s3 w ?c bucket key
         (named_temporary_file w (snd (splitext key))) (at_download_call w key s1)
        = (Inr (named_temporary_file w (snd (splitext key))), s3)"
      and gu: "get_user_ids ?c (emit (Print MsgStep3) s3) = (Inr ids, s4)"
      and lp: "upload_loop w tok (named_temporary_file w (snd (splitext key)))
         (ZOHO_BOT_NAME ?c) ids [] (at_first_upload ids s4) = (r5, s5)"
      and fin: "?U (snd (main w s0)) = ?U s5"
    for tok s1 bucket key s3 ids s4 r5 s5
  proof -
    define p where "p = named_temporary_file w (snd (splitext key))"
    have u4: "?U (at_first_upload ids s4) = ?U s0"
      using token_uploads [OF tk] download_uploads [OF dl] get_user_ids_uploads [OF gu]
        u0 ud [of key s1] uf [of ids s4]
      by (simp add: uploads_emit)
    have ids: "ids = filter (\<lambda>x. x \<noteq> [])
        (map strip (split CHR '','' (ZOHO_CLIQ_USER_IDS ?c)))"
      using get_user_ids_effects [OF gu] by simp
    from upload_loop_effects [OF lp [folded p_def]] obtain evs where
      t5: "trace s5 = trace (at_first_upload ids s4) @ evs"
      and e5: "\<forall>e \<in> set evs. is_print e
          \<or> (\<exists>f u. fs (at_first_upload ids s4) p = Some f \<and> u \<in> set ids
                \<and> e = UploadPost (upload_request_of tok p f u (ZOHO_BOT_NAME ?c)
                        [''Metal Price Update'']))"
      by (elim exE conjE)
    have "e \<in> set (?U (snd (main w s0)))" using assms(1,2) by simp
    then have "e \<in> set (?U s0) \<or> (e \<in> set evs \<and> is_upload e)"
      using fin t5 u4 by auto
    then have "e \<in> set evs" and "\<not> is_print e"
      using assms(2,3) by (auto elim: is_upload.elims)
    with e5 obtain f u where "u \<in> set ids"
      and "e = UploadPost (upload_request_of tok p f u (ZOHO_BOT_NAME ?c)
                        [''Metal Price Update''])"
      by blast
    then show ?thesis unfolding p_def ids using ky by blast
  qed
  show ?thesis
  proof (cases rule: main_cases [of w s0])
    case (token_failed e1 s1)
    then show ?thesis using early token_uploads [OF token_failed(1)] u0 by simp
  next
    case (object_unset tok s1)
    then show ?thesis using early token_uploads [OF object_unset(1)] u0
      by (simp add: uploads_emit)
  next
    case (temp_file_failed tok s1 bucket key m)
    then show ?thesis using early token_uploads [OF temp_file_failed(1)] u0
      by (simp add: uploads_emit)
  next
    case (download_failed tok s1 bucket key e3 s3)
    then show ?thesis
      using early token_uploads [OF download_failed(1)] download_uploads [OF download_failed(7)]
        u0 ud [of key s1]
      by simp
  next
    case (recipients_failed tok s1 bucket key s3 e4 s4)
    then show ?thesis
      using early token_uploads [OF recipients_failed(1)]
        download_uploads [OF recipients_failed(7)]
        get_user_ids_uploads [OF recipients_failed(8)] u0 ud [of key s1]
      by (simp add: uploads_emit)
  next
    case (upload_failed tok s1 bucket key s3 ids s4 e5 s5)
    have "?U (snd (main w s0)) = ?U s5" using upload_failed(10) by simp
    from loop [OF upload_failed(1,4,7,8,9) this] show ?thesis .
  next
    case (uploads_done tok s1 bucket key s3 ids s4 results s5)
    have "?U (snd (main w s0)) = ?U s5"
      using uploads_done(10) by (simp add: report_uploads at_summary_uploads)
    from loop [OF uploads_done(1,4,7,8,9) this] show ?thesis .
  qed
qed

subsection \<open>The example runs, evaluated\<close>

lemma demo_settings:
  "AWS_S3_BUCKET (load_config (environ demo_world)) = Some ''metal-prices''"
  "AWS_S3_FILE_KEY (load_config (environ demo_world)) = Some ''reports/prices.pdf''"
  "AWS_S3_FILE_KEY (load_config (environ unlink_fails_world)) = Some ''reports/prices.pdf''"
  "AWS_S3_FILE_KEY (load_config (environ null_body_world)) = Some ''reports/prices.pdf''"
  "ZOHO_BOT_NAME (load_config (environ demo_world)) = ''Metal Price Tracker''"
  "named_temporary_file demo_world (snd (splitext ''reports/prices.pdf''))
     = ''/tmp/tmpab12cd34.pdf''"
  "named_temporary_file unlink_fails_world (snd (splitext ''reports/prices.pdf''))
     = ''/tmp/tmpab12cd34.pdf''"
  "named_temporary_file null_body_world (snd (splitext ''reports/prices.pdf''))
     = ''/tmp/tmpab12cd34.pdf''"
  "s3_service demo_world rg b k = S3Ok ''%PDF-1.7 prices''"
  "s3_service unlink_fails_world rg b k = S3Ok ''%PDF-1.7 prices''"
  "s3_service null_body_world rg b k = S3Ok ''%PDF-1.7 prices''"
  "unlink_failure demo_world q = None"
  "unlink_failure null_body_world q = None"
  "unlink_failure unlink_fails_world q = Some ''Permission denied''"
  by (simp_all add: demo_world_def unlink_fails_world_def null_body_world_def demo_environ_def
      load_config_def environ_get_def named_temporary_file_def splitext_def basename_def
      path_join_def Let_def)

lemma demo_run_results:
  "fst (main demo_world start) =
     Inr [\<lparr>entry_user_id = ''60019117005'', entry_result = JObj []\<rparr>,
          \<lparr>entry_user_id = ''60019117006'',
            entry_result = JObj [(''error'', JStr ''Internal Server Error''),
                                 (''status_code'', JInt 500)]\<rparr>,
          \<lparr>entry_user_id = ''60019117007'', entry_result = JObj []\<rparr>]"
  by code_simp

lemma unlink_fails_run_results:
  "fst (main unlink_fails_world start) =
     Inr [\<lparr>entry_user_id = ''60019117005'', entry_result = JObj []\<rparr>,
          \<lparr>entry_user_id = ''60019117006'',
            entry_result = JObj [(''error'', JStr ''Internal Server Error''),
                                 (''status_code'', JInt 500)]\<rparr>,
          \<lparr>entry_user_id = ''60019117007'', entry_result = JObj []\<rparr>]"
  by code_simp

subsection \<open>Runs that end on a missing setting\<close>

lemma at_token_call_effects:
  "fs (at_token_call s0) = fs s0"
  "filter (\<lambda>e. \<not> is_print e) (trace (at_token_call s0)) = filter (\<lambda>e. \<not> is_print e) (trace s0)"
  by (simp_all add: at_token_call_def fs_emit trace_emit)

text \<open>A run in which the bucket or the object key is unset ends at line 184 at the latest.\<close>

lemma main_without_object:
  assumes "\<not> env_truthy (AWS_S3_BUCKET (load_config (environ w)))
         \<or> \<not> env_truthy (AWS_S3_FILE_KEY (load_config (environ w)))"
  shows "fst (main w s0) =
      (case fst (get_zoho_access_token w (load_config (environ w)) s0) of
         Inl e \<Rightarrow> Inl e
       | Inr tok \<Rightarrow> Inl (ValueError ''AWS_S3_BUCKET and AWS_S3_FILE_KEY must be set''))
    \<and> filter (\<lambda>e. \<not> is_print e) (trace (snd (main w s0))) =
        filter (\<lambda>e. \<not> is_print e) (trace s0)
          @ (if env_truthy (ZOHO_REFRESH_TOKEN (load_config (environ w)))
                \<and> env_truthy (ZOHO_CLIENT_ID (load_config (environ w)))
                \<and> env_truthy (ZOHO_CLIENT_SECRET (load_config (environ w)))
             then [TokenPost (token_request_of (load_config (environ w)))] else [])
    \<and> fs (snd (main w s0)) = fs s0"
proof -
  let ?c = "load_config (environ w)"
  note ind = token_result_independent [of w ?c s0 "at_token_call s0"]
  show ?thesis
  proof (cases rule: main_cases [of w s0])
    case (token_failed e s1)
    show ?thesis
      using token_effects [OF token_failed(1)] token_failed ind
      by (simp add: at_token_call_effects)
  next
    case (object_unset tok s1)
    show ?thesis
      using token_effects [OF object_unset(1)] object_unset(1,3) ind
      by (simp add: at_token_call_effects fs_emit trace_emit)
  qed (use assms in simp_all)
qed

text \<open>The state and the result of a run that reaches \<^verbatim>\<open>get_user_ids\<close> without recipients.\<close>

lemma main_without_recipients:
  assumes "filter (\<lambda>x. x \<noteq> [])
      (map strip (split CHR '','' (ZOHO_CLIQ_USER_IDS (load_config (environ w))))) = []"
  shows "(\<exists>e. fst (main w s0) = Inl e)
    \<and> filter is_upload (trace (snd (main w s0))) = filter is_upload (trace s0)"
proof -
  let ?c = "load_config (environ w)"
  let ?U = "\<lambda>s. filter is_upload (trace s)"
  have u0: "?U (at_token_call s0) = ?U s0" by (simp add: at_token_call_def uploads_emit)
  have ud: "?U (at_download_call w key s1) = ?U s1" for key s1
    by (simp add: at_download_call_def trace_emit)
  show ?thesis
  proof (cases rule: main_cases [of w s0])
    case (token_failed e1 s1)
    then show ?thesis using token_uploads [OF token_failed(1)] u0 by simp
  next
    case (object_unset tok s1)
    then show ?thesis using token_uploads [OF object_unset(1)] u0 by (simp add: uploads_emit)
  next
    case (temp_file_failed tok s1 bucket key m)
    then show ?thesis using token_uploads [OF temp_file_failed(1)] u0
      by (simp add: uploads_emit)
  next
    case (download_failed tok s1 bucket key e3 s3)
    then show ?thesis
      using token_uploads [OF download_failed(1)] download_uploads [OF download_failed(7)]
        u0 ud [of key s1]
      by simp
  next
    case (recipients_failed tok s1 bucket key s3 e4 s4)
    then show ?thesis
      using token_uploads [OF recipients_failed(1)] download_uploads [OF recipients_failed(7)]
        get_user_ids_uploads [OF recipients_failed(8)] u0 ud [of key s1]
      by (simp add: uploads_emit)
  next
    case (upload_failed tok s1 bucket key s3 ids s4 e5 s5)
    from get_user_ids_effects [OF upload_failed(8)] assms show ?thesis by simp
  next
    case (uploads_done tok s1 bucket key s3 ids s4 results s5)
    from get_user_ids_effects [OF uploads_done(8)] assms show ?thesis by simp
  qed
qed

lemma main_recipients_error:
  assumes tok: "fst (get_zoho_access_token w (load_config (environ w)) s0) = Inr tok"
    and bk: "AWS_S3_BUCKET (load_config (environ w)) = Some bucket" "bucket \<noteq> []"
    and ky: "AWS_S3_FILE_KEY (load_config (environ w)) = Some key" "key \<noteq> []"
    and tmp: "tmp_failure w (snd (splitext key)) = None"
    and cl: "boto3_client_failure w (AWS_REGION (load_config (environ w))) = None"
    and ok: "s3_service w (AWS_REGION (load_config (environ w))) bucket key = S3Ok content"
    and ids: "filter (\<lambda>x. x \<noteq> [])
      (map strip (split CHR '','' (ZOHO_CLIQ_USER_IDS (load_config (environ w))))) = []"
  shows "fst (main w s0) =
      Inl (ValueError (if ZOHO_CLIQ_USER_IDS (load_config (environ w)) = []
         then ''No user IDs configured. Set ZOHO_CLIQ_USER_IDS environment variable''
         else ''ZOHO_CLIQ_USER_IDS is empty''))
    \<and> filter (\<lambda>e. \<not> is_print e) (trace (snd (main w s0))) =
        filter (\<lambda>e. \<not> is_print e) (trace s0)
          @ [TokenPost (token_request_of (load_config (environ w))),
             TempFileCreated (named_temporary_file w (snd (splitext key))),
             S3Download (AWS_REGION (load_config (environ w))) bucket key
               (named_temporary_file w (snd (splitext key)))]
    \<and> fs (snd (main w s0)) (named_temporary_file w (snd (splitext key))) = Some content"
proof -
  let ?c = "load_config (environ w)"
  let ?np = "\<lambda>e. \<not> is_print e"
  define p where "p = named_temporary_file w (snd (splitext key))"
  have tok': "fst (get_zoho_access_token w ?c (at_token_call s0)) = Inr tok"
    using tok token_result_independent [of w ?c "at_token_call s0" s0] by simp
  show ?thesis
  proof (cases rule: main_cases [of w s0])
    case (token_failed e s1)
    then show ?thesis using tok' by simp
  next
    case (object_unset tok2 s1)
    then show ?thesis using bk ky by simp
  next
    case (temp_file_failed tok2 s1 bucket2 key2 m)
    then show ?thesis using ky tmp by simp
  next
    case (download_failed tok2 s1 bucket2 key2 e s3)
    then have "download_file_from_s3 w ?c bucket key p (at_download_call w key s1) = (Inl e, s3)"
      using bk ky by (simp add: p_def)
    then show ?thesis using download_ok [OF cl ok] by simp
  next
    case (recipients_failed tok2 s1 bucket2 key2 s3 e s4)
    have k2: "key2 = key" "bucket2 = bucket" "tok2 = tok"
      using recipients_failed bk ky tok' by simp_all
    note rf = recipients_failed [unfolded k2, folded p_def]
    have creds: "env_truthy (ZOHO_REFRESH_TOKEN ?c) \<and> env_truthy (ZOHO_CLIENT_ID ?c)
        \<and> env_truthy (ZOHO_CLIENT_SECRET ?c)"
      using rf(1) token_missing_credentials [of ?c w "at_token_call s0"] by auto
    have f1: "fs s1 = fs s0" using token_effects [OF rf(1)] by (simp add: at_token_call_effects)
    have t1: "filter ?np (trace s1) = filter ?np (trace s0) @ [TokenPost (token_request_of ?c)]"
      using token_effects [OF rf(1)] creds by (simp add: at_token_call_effects)
    have t2: "filter ?np (trace (at_download_call w key s1)) =
        filter ?np (trace s0) @ [TokenPost (token_request_of ?c), TempFileCreated p]"
      using t1 by (simp add: at_download_call_def p_def trace_emit emit_def)
    from download_effects [OF rf(7)] ok
    have f3: "fs s3 p = Some content"
      and t3: "filter ?np (trace s3) = filter ?np (trace (at_download_call w key s1))
          @ [S3Download (AWS_REGION ?c) bucket key p]"
      by auto
    from get_user_ids_effects [OF rf(8)]
    have f4: "fs s4 = fs s3" and t4: "filter ?np (trace s4) = filter ?np (trace s3)"
      by (simp_all add: fs_emit trace_emit)
    have e: "e = ValueError (if ZOHO_CLIQ_USER_IDS ?c = []
         then ''No user IDs configured. Set ZOHO_CLIQ_USER_IDS environment variable''
         else ''ZOHO_CLIQ_USER_IDS is empty'')"
      using rf(8) ids by (auto simp: get_user_ids_result Let_def split: if_splits)
    have A: "fst (main w s0) = Inl (ValueError (if ZOHO_CLIQ_USER_IDS ?c = []
         then ''No user IDs configured. Set ZOHO_CLIQ_USER_IDS environment variable''
         else ''ZOHO_CLIQ_USER_IDS is empty''))"
      using rf(9) e by simp
    have B: "filter ?np (trace (snd (main w s0))) =
        filter ?np (trace s0) @ [TokenPost (token_request_of ?c), TempFileCreated p,
             S3Download (AWS_REGION ?c) bucket key p]"
      using rf(9) t4 t3 t2 by simp
    have C: "fs (snd (main w s0)) p = Some content" using rf(9) f4 f3 by simp
    show ?thesis by (intro conjI A B [unfolded p_def] C [unfolded p_def])
  next
    case (upload_failed tok2 s1 bucket2 key2 s3 ids2 s4 e5 s5)
    from get_user_ids_effects [OF upload_failed(8)] ids show ?thesis by simp
  next
    case (uploads_done tok2 s1 bucket2 key2 s3 ids2 s4 results s5)
    from get_user_ids_effects [OF uploads_done(8)] ids show ?thesis by simp
  qed
qed

subsection \<open>The name of the temporary file\<close>

lemma basename_after_slash:
  assumes "CHR ''/'' \<notin> set b"
  shows "basename (a @ CHR ''/'' # b) = b"
proof -
  have "takeWhile (\<lambda>c. c \<noteq> CHR ''/'') (rev b @ CHR ''/'' # rev a)
      = takeWhile (\<lambda>c. c \<noteq> CHR ''/'') (rev b)"
    by (rule takeWhile_tail) simp
  also have "\<dots> = rev b" using assms by auto
  finally show ?thesis by (simp add: basename_def)
qed

lemma basename_no_slash:
  assumes "CHR ''/'' \<notin> set b"
  shows "basename b = b"
proof -
  have h: "takeWhile (\<lambda>c. c \<noteq> CHR ''/'') (rev b) = rev b" using assms by auto
  show ?thesis by (simp only: basename_def h rev_rev_ident)
qed

lemma basename_path_join:
  assumes "CHR ''/'' \<notin> set b"
  shows "basename (path_join a b) = b"
proof (cases "a = []")
  case True
  then show ?thesis using assms by (cases b) (auto simp: path_join_def basename_no_slash)
next
  case False
  have hd: "\<not> (b \<noteq> [] \<and> hd b = CHR ''/'')" using assms by (cases b) auto
  show ?thesis
  proof (cases "last a = CHR ''/''")
    case True
    then have "a = butlast a @ [CHR ''/'']" using False by (metis append_butlast_last_id)
    then have ab: "a @ b = butlast a @ CHR ''/'' # b"
      by (metis append_Cons append_Nil append_assoc)
    have "basename (a @ b) = b"
      by (subst ab) (rule basename_after_slash [OF assms])
    then show ?thesis using hd True by (auto simp: path_join_def)
  next
    case F: False
    have "basename (a @ ''/'' @ b) = b" using basename_after_slash [OF assms] by simp
    then show ?thesis using hd False F by (auto simp: path_join_def)
  qed
qed

lemma basename_has_no_slash: "CHR ''/'' \<notin> set (basename p)"
proof
  assume "CHR ''/'' \<in> set (basename p)"
  then have "CHR ''/'' \<in> set (takeWhile (\<lambda>c. c \<noteq> CHR ''/'') (rev p))"
    by (simp add: basename_def)
  then show False by (auto dest: set_takeWhileD)
qed

lemma splitext_ext_no_slash: "CHR ''/'' \<notin> set (snd (splitext p))"
proof -
  have "set (takeWhile (\<lambda>c. c \<noteq> CHR ''.'') (rev (basename p))) \<subseteq> set (basename p)"
    by (auto dest: set_takeWhileD)
  then have "CHR ''/'' \<notin> set (rev (takeWhile (\<lambda>c. c \<noteq> CHR ''.'') (rev (basename p))))"
    using basename_has_no_slash [of p] by auto
  then show ?thesis by (simp add: splitext_def Let_def)
qed

lemma temporary_file_basename:
  assumes "CHR ''/'' \<notin> set (tmp_random w)"
  shows "basename (named_temporary_file w (snd (splitext key)))
     = ''tmp'' @ tmp_random w @ snd (splitext key)"
  unfolding named_temporary_file_def
  by (rule basename_path_join) (use assms splitext_ext_no_slash [of key] in simp)

subsection \<open>The token refresher's contract\<close>




subsection \<open>One upload: status 200 and the decoded body\<close>






text \<open>
  C9. On an answer with status 200 the upload returns exactly the decoded JSON body;
  when the body is not JSON it raises \<^verbatim>\<open>JSONDecodeError\<close>, and so does the loop of
  \<open>main\<close> at that recipient: nothing is recorded for it.
\<close>

theorem upload_200_returns_parsed_json:
  assumes "fs s p = Some f"
    and "cliq_server w (uploads_sent s) (upload_request_of tok p f uid b cm) = Reply r"
    and "status_code r = 200"
  shows "(\<forall>j. fst (upload_file_to_zoho_cliq w tok p uid b (Some cm) s) = Inr j
              \<longleftrightarrow> json_body r = Some j)
       \<and> (json_body r = None \<longrightarrow>
            fst (upload_file_to_zoho_cliq w tok p uid b (Some cm) s) = Inl JSONDecodeError
          \<and> (cm = [''Metal Price Update''] \<longrightarrow>
               fst (upload_loop w tok p b (uid # uids) acc s) = Inl JSONDecodeError))"
proof (cases "json_body r")
  case None
  obtain s1 where u: "upload_file_to_zoho_cliq w tok p uid b (Some cm) s
      = (Inl JSONDecodeError, s1)"
    using None assms(3) by (simp add: upload_reply [OF assms(1,2)])
  have "fst (upload_loop w tok p b (uid # uids) acc s) = Inl JSONDecodeError"
    if "cm = [''Metal Price Update'']"
  proof -
    have "upload_file_to_zoho_cliq w tok p uid b (Some [''Metal Price Update'']) s
      = (Inl JSONDecodeError, s1)"
      using u that by simp
    then show ?thesis by simp
  qed
  then show ?thesis using None u by simp
next
  case (Some j)
  then show ?thesis using assms(3) by (auto simp: upload_reply [OF assms(1,2)])
qed

theorem upload_200_returns_parsed_json_witness:
  "fst (upload_file_to_zoho_cliq demo_world (JStr ''tok-1'') ''/tmp/f.pdf'' ''7''
          ''Bot'' (Some [''Metal Price Update''])
          \<lparr>fs = [''/tmp/f.pdf'' \<mapsto> ''data''], trace = []\<rparr>)
     = Inr (JObj [])
   \<and> fst (upload_loop
          (demo_world\<lparr>cliq_server := \<lambda>n q. Reply
             \<lparr>status_code = 200, body_text = ''OK'', json_body = None\<rparr>\<rparr>)
          (JStr ''tok-1'') ''/tmp/f.pdf'' ''Bot'' [''7'', ''8''] []
          \<lparr>fs = [''/tmp/f.pdf'' \<mapsto> ''data''], trace = []\<rparr>)
     = Inl JSONDecodeError"
proof -
  let ?s = "\<lparr>fs = [''/tmp/f.pdf'' \<mapsto> ''data''], trace = []\<rparr>"
  let ?q = "upload_request_of (JStr ''tok-1'') ''/tmp/f.pdf'' ''data'' ''7'' ''Bot''
              [''Metal Price Update'']"
  let ?r = "\<lparr>status_code = 200, body_text = ''OK'', json_body = None\<rparr>"
  let ?w = "demo_world\<lparr>cliq_server := \<lambda>n q. Reply ?r\<rparr>"
  have f: "fs ?s ''/tmp/f.pdf'' = Some ''data''" by simp
  have r1: "cliq_server demo_world (uploads_sent ?s) ?q = Reply reply_200"
    by (simp add: demo_world_def uploads_sent_def)
  have r2: "cliq_server ?w (uploads_sent ?s) ?q = Reply ?r" by simp
  have ok1: "status_code reply_200 = 200" by (simp add: reply_200_def)
  have ok2: "status_code ?r = 200" by simp
  have "json_body reply_200 = Some (JObj [])" by (simp add: reply_200_def)
  then have a: "fst (upload_file_to_zoho_cliq demo_world (JStr ''tok-1'') ''/tmp/f.pdf'' ''7''
          ''Bot'' (Some [''Metal Price Update'']) ?s) = Inr (JObj [])"
    using upload_200_returns_parsed_json [OF f r1 ok1, THEN conjunct1] by blast
  have b: "fst (upload_loop ?w (JStr ''tok-1'') ''/tmp/f.pdf'' ''Bot'' [''7'', ''8''] [] ?s)
     = Inl JSONDecodeError"
    using upload_200_returns_parsed_json [OF f r2 ok2, THEN conjunct2, of "[''8'']" "[]"]
    by simp
  show ?thesis using a b by simp
qed

subsection \<open>The summary count\<close>



subsection \<open>Failure isolation in the upload loop\<close>

text \<open>
  C1, as the code has it. When every upload of the loop gets an HTTP answer (and the
  answers with status 200 have a JSON body), the loop attempts every recipient in order
  and returns one entry for each: an answer with a status other than 200 is recorded as
  the entry \<^verbatim>\<open>{"error": body, "status_code": status}\<close> and the loop goes on, an answer
  with status 200 is recorded as its decoded body. A network error is not recorded: the
  exception of \<^verbatim>\<open>requests.post\<close> leaves the loop. In a run of \<open>main\<close> with three
  recipients whose token exchange, temporary file and download succeed, where the
  second upload is answered with a status other than 200 and the first and the third
  with status 200 and a JSON object without the key \<^verbatim>\<open>"error"\<close>, the three uploads are
  sent, the list returned holds the two bodies and the failure entry, the success line
  is printed for the first and the third recipient and the failure line for the second,
  and the summary prints 2 of 3.
\<close>

theorem upload_loop_isolates_http_failures:
  "(fs s p = Some f
      \<and> (\<forall>i < length us. \<exists>r.
           cliq_server w (uploads_sent s + i)
             (upload_request_of tok p f (us ! i) b [''Metal Price Update'']) = Reply r
           \<and> (status_code r = 200 \<longrightarrow> json_body r \<noteq> None))
    \<longrightarrow> (\<exists>res s'. upload_loop w tok p b us acc s = (Inr (acc @ res), s')
          \<and> map entry_user_id res = us
          \<and> filter (\<lambda>e. \<not> is_print e) (trace s') =
              filter (\<lambda>e. \<not> is_print e) (trace s)
                @ map (\<lambda>u. UploadPost (upload_request_of tok p f u b [''Metal Price Update''])) us
          \<and> (\<forall>i < length us. \<forall>r.
                cliq_server w (uploads_sent s + i)
                  (upload_request_of tok p f (us ! i) b [''Metal Price Update'']) = Reply r
                \<longrightarrow> (if status_code r = 200 then json_body r = Some (entry_result (res ! i))
                     else entry_result (res ! i) =
                            JObj [(''error'', JStr (body_text r)),
                                  (''status_code'', JInt (status_code r))]))))
   \<and> (fs s p = Some f
      \<and> cliq_server w (uploads_sent s)
          (upload_request_of tok p f u b [''Metal Price Update'']) = NetworkError m
    \<longrightarrow> fst (upload_loop w tok p b (u # vs) acc s) = Inl (RequestException m))
   \<and> (fst (get_zoho_access_token w (load_config (environ w)) s0) = Inr tk
      \<and> AWS_S3_BUCKET (load_config (environ w)) = Some bucket \<and> bucket \<noteq> []
      \<and> AWS_S3_FILE_KEY (load_config (environ w)) = Some key \<and> key \<noteq> []
      \<and> tmp_failure w (snd (splitext key)) = None
      \<and> boto3_client_failure w (AWS_REGION (load_config (environ w))) = None
      \<and> s3_service w (AWS_REGION (load_config (environ w))) bucket key = S3Ok content
      \<and> filter (\<lambda>x. x \<noteq> [])
          (map strip (split CHR '','' (ZOHO_CLIQ_USER_IDS (load_config (environ w)))))
        = [u1, u2, u3]
      \<and> cliq_server w (uploads_sent s0)
          (upload_request_of tk (named_temporary_file w (snd (splitext key))) content u1
             (ZOHO_BOT_NAME (load_config (environ w))) [''Metal Price Update'']) = Reply r1
      \<and> cliq_server w (uploads_sent s0 + 1)
          (upload_request_of tk (named_temporary_file w (snd (splitext key))) content u2
             (ZOHO_BOT_NAME (load_config (environ w))) [''Metal Price Update'']) = Reply r2
      \<and> cliq_server w (uploads_sent s0 + 2)
          (upload_request_of tk (named_temporary_file w (snd (splitext key))) content u3
             (ZOHO_BOT_NAME (load_config (environ w))) [''Metal Price Update'']) = Reply r3
      \<and> status_code r1 = 200 \<and> json_body r1 = Some (JObj k1) \<and> ''error'' \<notin> fst ` set k1
      \<and> status_code r2 \<noteq> 200
      \<and> status_code r3 = 200 \<and> json_body r3 = Some (JObj k3) \<and> ''error'' \<notin> fst ` set k3
    \<longrightarrow> fst (main w s0) =
          Inr [\<lparr>entry_user_id = u1, entry_result = JObj k1\<rparr>,
               \<lparr>entry_user_id = u2,
                 entry_result = JObj [(''error'', JStr (body_text r2)),
                                      (''status_code'', JInt (status_code r2))]\<rparr>,
               \<lparr>entry_user_id = u3, entry_result = JObj k3\<rparr>]
        \<and> filter is_upload (trace (snd (main w s0))) =
            filter is_upload (trace s0)
              @ map (\<lambda>u. UploadPost
                       (upload_request_of tk (named_temporary_file w (snd (splitext key)))
                          content u (ZOHO_BOT_NAME (load_config (environ w)))
                          [''Metal Price Update''])) [u1, u2, u3]
        \<and> Print (MsgUploaded u1) \<in> set (trace (snd (main w s0)))
        \<and> Print (MsgUploadFailed u2 (status_code r2)) \<in> set (trace (snd (main w s0)))
        \<and> Print (MsgUploaded u3) \<in> set (trace (snd (main w s0)))
        \<and> Print (MsgSuccessful 2 3) \<in> set (trace (snd (main w s0))))"
  (is "?loop \<and> ?network \<and> ?run")
proof -
  have 1: ?loop
  proof
    assume h: "fs s p = Some f
      \<and> (\<forall>i < length us. \<exists>r.
           cliq_server w (uploads_sent s + i)
             (upload_request_of tok p f (us ! i) b [''Metal Price Update'']) = Reply r
           \<and> (status_code r = 200 \<longrightarrow> json_body r \<noteq> None))"
    from upload_loop_completes [OF h [THEN conjunct1] h [THEN conjunct2], of acc]
    obtain res s' where
      a: "upload_loop w tok p b us acc s = (Inr (acc @ res), s')"
      and b: "map entry_user_id res = us"
      and c: "filter (\<lambda>e. \<not> is_print e) (trace s') =
         filter (\<lambda>e. \<not> is_print e) (trace s)
           @ map (\<lambda>u. UploadPost (upload_request_of tok p f u b [''Metal Price Update''])) us"
      and d: "\<forall>i < length us. \<forall>r.
           cliq_server w (uploads_sent s + i)
             (upload_request_of tok p f (us ! i) b [''Metal Price Update'']) = Reply r
           \<longrightarrow> (if status_code r = 200 then json_body r = Some (entry_result (res ! i))
                else entry_result (res ! i) =
                       JObj [(''error'', JStr (body_text r)),
                             (''status_code'', JInt (status_code r))])"
      by (elim exE conjE)
    show "\<exists>res s'. upload_loop w tok p b us acc s = (Inr (acc @ res), s')
          \<and> map entry_user_id res = us
          \<and> filter (\<lambda>e. \<not> is_print e) (trace s') =
              filter (\<lambda>e. \<not> is_print e) (trace s)
                @ map (\<lambda>u. UploadPost (upload_request_of tok p f u b [''Metal Price Update''])) us
          \<and> (\<forall>i < length us. \<forall>r.
                cliq_server w (uploads_sent s + i)
                  (upload_request_of tok p f (us ! i) b [''Metal Price Update'']) = Reply r
                \<longrightarrow> (if status_code r = 200 then json_body r = Some (entry_result (res ! i))
                     else entry_result (res ! i) =
                            JObj [(''error'', JStr (body_text r)),
                                  (''status_code'', JInt (status_code r))]))"
      by (rule exI [of _ res], rule exI [of _ s']) (intro conjI a b c d)
  qed
  have 2: ?network
  proof
    assume h: "fs s p = Some f
      \<and> cliq_server w (uploads_sent s)
          (upload_request_of tok p f u b [''Metal Price Update'']) = NetworkError m"
    from upload_network_error [OF h [THEN conjunct1] h [THEN conjunct2]]
    show "fst (upload_loop w tok p b (u # vs) acc s) = Inl (RequestException m)"
      by simp
  qed
  have 3: ?run
  proof
    let ?c = "load_config (environ w)"
    let ?p = "named_temporary_file w (snd (splitext key))"
    let ?req = "\<lambda>u. upload_request_of tk ?p content u (ZOHO_BOT_NAME ?c) [''Metal Price Update'']"
    let ?ids = "[u1, u2, u3]"
    let ?e2 = "JObj [(''error'', JStr (body_text r2)), (''status_code'', JInt (status_code r2))]"
    assume h: "fst (get_zoho_access_token w ?c s0) = Inr tk
      \<and> AWS_S3_BUCKET ?c = Some bucket \<and> bucket \<noteq> []
      \<and> AWS_S3_FILE_KEY ?c = Some key \<and> key \<noteq> []
      \<and> tmp_failure w (snd (splitext key)) = None
      \<and> boto3_client_failure w (AWS_REGION ?c) = None
      \<and> s3_service w (AWS_REGION ?c) bucket key = S3Ok content
      \<and> filter (\<lambda>x. x \<noteq> []) (map strip (split CHR '','' (ZOHO_CLIQ_USER_IDS ?c))) = ?ids
      \<and> cliq_server w (uploads_sent s0) (?req u1) = Reply r1
      \<and> cliq_server w (uploads_sent s0 + 1) (?req u2) = Reply r2
      \<and> cliq_server w (uploads_sent s0 + 2) (?req u3) = Reply r3
      \<and> status_code r1 = 200 \<and> json_body r1 = Some (JObj k1) \<and> ''error'' \<notin> fst ` set k1
      \<and> status_code r2 \<noteq> 200
      \<and> status_code r3 = 200 \<and> json_body r3 = Some (JObj k3) \<and> ''error'' \<notin> fst ` set k3"
    then have tk: "fst (get_zoho_access_token w ?c s0) = Inr tk"
      and bk: "AWS_S3_BUCKET ?c = Some bucket" "bucket \<noteq> []"
      and ky: "AWS_S3_FILE_KEY ?c = Some key" "key \<noteq> []"
      and tmp: "tmp_failure w (snd (splitext key)) = None"
      and cl: "boto3_client_failure w (AWS_REGION ?c) = None"
      and ok: "s3_service w (AWS_REGION ?c) bucket key = S3Ok content"
      and ids: "filter (\<lambda>x. x \<noteq> []) (map strip (split CHR '','' (ZOHO_CLIQ_USER_IDS ?c))) = ?ids"
      and q1: "cliq_server w (uploads_sent s0) (?req u1) = Reply r1"
      and q2: "cliq_server w (uploads_sent s0 + 1) (?req u2) = Reply r2"
      and q3: "cliq_server w (uploads_sent s0 + 2) (?req u3) = Reply r3"
      and st1: "status_code r1 = 200" and j1: "json_body r1 = Some (JObj k1)"
      and n1: "''error'' \<notin> fst ` set k1"
      and st2: "status_code r2 \<noteq> 200"
      and st3: "status_code r3 = 200" and j3: "json_body r3 = Some (JObj k3)"
      and n3: "''error'' \<notin> fst ` set k3"
      by simp_all
    have answered: "\<forall>i < length ?ids. \<exists>r.
        cliq_server w (uploads_sent s0 + i) (?req (?ids ! i)) = Reply r
        \<and> (status_code r = 200 \<longrightarrow> json_body r \<noteq> None)"
    proof (intro allI impI)
      fix i assume "i < length ?ids"
      then consider "i = 0" | "i = 1" | "i = 2" by (auto simp: less_Suc_eq)
      then show "\<exists>r. cliq_server w (uploads_sent s0 + i) (?req (?ids ! i)) = Reply r
        \<and> (status_code r = 200 \<longrightarrow> json_body r \<noteq> None)"
      proof cases
        case 1
        show ?thesis by (rule exI [of _ r1]) (simp add: 1 q1 j1)
      next
        case 2
        show ?thesis by (rule exI [of _ r2]) (use q2 st2 in \<open>simp add: 2\<close>)
      next
        case 3
        show ?thesis by (rule exI [of _ r3]) (use q3 in \<open>simp add: 3 j3\<close>)
      qed
    qed
    have ne: "?ids \<noteq> []" by simp
    from main_completes [OF tk bk ky tmp cl ok ids ne answered]
    obtain results s5 where
      A: "main w s0 = report results (at_summary w ?p s5)"
      and B: "map entry_user_id results = ?ids"
      and D: "filter (\<lambda>e. \<not> is_print e) (trace s5) =
         filter (\<lambda>e. \<not> is_print e) (trace s0)
           @ [TokenPost (token_request_of ?c), TempFileCreated ?p,
              S3Download (AWS_REGION ?c) bucket key ?p]
           @ map (\<lambda>u. UploadPost (?req u)) ?ids"
      and E: "\<forall>i < length ?ids. \<forall>r.
           cliq_server w (uploads_sent s0 + i) (?req (?ids ! i)) = Reply r
           \<longrightarrow> (if status_code r = 200 then json_body r = Some (entry_result (results ! i))
                else entry_result (results ! i) =
                       JObj [(''error'', JStr (body_text r)),
                             (''status_code'', JInt (status_code r))])"
      and F: "\<forall>i < length ?ids. \<forall>r.
           cliq_server w (uploads_sent s0 + i) (?req (?ids ! i)) = Reply r
           \<longrightarrow> Print (if status_code r = 200 then MsgUploaded (?ids ! i)
                     else MsgUploadFailed (?ids ! i) (status_code r)) \<in> set (trace s5)"
      by (elim exE conjE)
    from B obtain e1 e2 e3 where res: "results = [e1, e2, e3]"
      and u: "entry_user_id e1 = u1" "entry_user_id e2 = u2" "entry_user_id e3 = u3"
      by (auto simp: map_eq_Cons_conv)
    have i0: "(0::nat) < length ?ids" and i1: "(1::nat) < length ?ids"
      and i2: "(2::nat) < length ?ids"
      by simp_all
    have x1: "entry_result e1 = JObj k1"
      using E [rule_format, OF i0, of r1] q1 st1 j1 res by simp
    have x2: "entry_result e2 = ?e2"
      using E [rule_format, OF i1, of r2] q2 st2 res by simp
    have x3: "entry_result e3 = JObj k3"
      using E [rule_format, OF i2, of r3] q3 st3 j3 res by simp
    have e1: "e1 = \<lparr>entry_user_id = u1, entry_result = JObj k1\<rparr>"
      using u(1) x1 by (cases e1) simp
    have e2: "e2 = \<lparr>entry_user_id = u2, entry_result = ?e2\<rparr>"
      using u(2) x2 by (cases e2) simp
    have e3: "e3 = \<lparr>entry_user_id = u3, entry_result = JObj k3\<rparr>"
      using u(3) x3 by (cases e3) simp
    have cnt: "count_successful results = Inr 2"
      using n1 n3 by (simp add: res x1 x2 x3)
    let ?s6 = "at_summary w ?p s5"
    have M: "main w s0 = (Inr results,
        emit (Print MsgDone) (emit (Print (MsgSuccessful 2 (length results))) ?s6))"
      using A cnt by (simp add: report_def)
    have R1: "fst (main w s0) =
          Inr [\<lparr>entry_user_id = u1, entry_result = JObj k1\<rparr>,
               \<lparr>entry_user_id = u2, entry_result = ?e2\<rparr>,
               \<lparr>entry_user_id = u3, entry_result = JObj k3\<rparr>]"
      using M by (simp add: res e1 e2 e3)
    have np: "filter (\<lambda>e. \<not> is_print e) (trace (snd (main w s0))) =
        filter (\<lambda>e. \<not> is_print e) (trace s5) @ [Unlink ?p]"
      using summary_effects [of results w ?p s5, THEN conjunct1] A by simp
    have "filter is_upload (filter (\<lambda>e. \<not> is_print e) (trace (snd (main w s0)))) =
        filter is_upload (filter (\<lambda>e. \<not> is_print e) (trace s0))
          @ map (\<lambda>u. UploadPost (?req u)) ?ids"
      by (simp add: np D)
    then have R2: "filter is_upload (trace (snd (main w s0))) =
        filter is_upload (trace s0) @ map (\<lambda>u. UploadPost (?req u)) ?ids"
      by (simp only: uploads_of_events)
    have sub: "set (trace s5) \<subseteq> set (trace (snd (main w s0)))"
      using summary_trace_grows [of s5 results w ?p] A by simp
    have "Print (MsgUploaded u1) \<in> set (trace s5)"
      using F [rule_format, OF i0, of r1] q1 st1 by simp
    then have R3: "Print (MsgUploaded u1) \<in> set (trace (snd (main w s0)))"
      using sub by (rule rev_subsetD)
    have "Print (MsgUploadFailed u2 (status_code r2)) \<in> set (trace s5)"
      using F [rule_format, OF i1, of r2] q2 st2 by simp
    then have R4: "Print (MsgUploadFailed u2 (status_code r2)) \<in> set (trace (snd (main w s0)))"
      using sub by (rule rev_subsetD)
    have "Print (MsgUploaded u3) \<in> set (trace s5)"
      using F [rule_format, OF i2, of r3] q3 st3 by simp
    then have R5: "Print (MsgUploaded u3) \<in> set (trace (snd (main w s0)))"
      using sub by (rule rev_subsetD)
    have R6: "Print (MsgSuccessful 2 3) \<in> set (trace (snd (main w s0)))"
      by (simp add: M res trace_emit)
    show "fst (main w s0) =
          Inr [\<lparr>entry_user_id = u1, entry_result = JObj k1\<rparr>,
               \<lparr>entry_user_id = u2, entry_result = ?e2\<rparr>,
               \<lparr>entry_user_id = u3, entry_result = JObj k3\<rparr>]
        \<and> filter is_upload (trace (snd (main w s0))) =
            filter is_upload (trace s0) @ map (\<lambda>u. UploadPost (?req u)) ?ids
        \<and> Print (MsgUploaded u1) \<in> set (trace (snd (main w s0)))
        \<and> Print (MsgUploadFailed u2 (status_code r2)) \<in> set (trace (snd (main w s0)))
        \<and> Print (MsgUploaded u3) \<in> set (trace (snd (main w s0)))
        \<and> Print (MsgSuccessful 2 3) \<in> set (trace (snd (main w s0)))"
      by (intro conjI R1 R2 R3 R4 R5 R6)
  qed
  show ?thesis by (rule conjI [OF 1 conjI [OF 2 3]])
qed


theorem upload_loop_isolates_http_failures_witness:
  "fst (main demo_world start) =
     Inr [\<lparr>entry_user_id = ''60019117005'', entry_result = JObj []\<rparr>,
          \<lparr>entry_user_id = ''60019117006'',
            entry_result = JObj [(''error'', JStr ''Internal Server Error''),
                                 (''status_code'', JInt 500)]\<rparr>,
          \<lparr>entry_user_id = ''60019117007'', entry_result = JObj []\<rparr>]
   \<and> map (\<lambda>e. case e of UploadPost q \<Rightarrow> user_id q | _ \<Rightarrow> [])
        (filter is_upload (trace (snd (main demo_world start))))
      = [''60019117005'', ''60019117006'', ''60019117007'']
   \<and> Print (MsgUploaded ''60019117005'') \<in> set (trace (snd (main demo_world start)))
   \<and> Print (MsgUploadFailed ''60019117006'' 500) \<in> set (trace (snd (main demo_world start)))
   \<and> Print (MsgUploaded ''60019117007'') \<in> set (trace (snd (main demo_world start)))
   \<and> Print (MsgSuccessful 2 3) \<in> set (trace (snd (main demo_world start)))
   \<and> (\<exists>res s'. upload_loop demo_world (JStr ''tok-1'') ''/tmp/f.pdf'' ''Bot''
        [''60019117005'', ''60019117006'', ''60019117007''] []
        \<lparr>fs = [''/tmp/f.pdf'' \<mapsto> ''data''], trace = []\<rparr> = (Inr res, s')
      \<and> map entry_user_id res = [''60019117005'', ''60019117006'', ''60019117007'']
      \<and> json_body reply_200 = Some (entry_result (res ! 0))
      \<and> entry_result (res ! 1) =
          JObj [(''error'', JStr ''Internal Server Error''), (''status_code'', JInt 500)])
   \<and> fst (upload_loop
          (demo_world\<lparr>cliq_server := \<lambda>n q. NetworkError ''Connection reset by peer''\<rparr>)
          (JStr ''tok-1'') ''/tmp/f.pdf'' ''Bot'' [''7'', ''8''] []
          \<lparr>fs = [''/tmp/f.pdf'' \<mapsto> ''data''], trace = []\<rparr>)
      = Inl (RequestException ''Connection reset by peer'')"
proof -
  let ?s = "\<lparr>fs = [''/tmp/f.pdf'' \<mapsto> ''data''], trace = []\<rparr>"
  let ?us = "[''60019117005'', ''60019117006'', ''60019117007'']"
  let ?q = "\<lambda>u. upload_request_of (JStr ''tok-1'') ''/tmp/f.pdf'' ''data'' u ''Bot''
              [''Metal Price Update'']"
  let ?c = "load_config (environ demo_world)"
  let ?p = "named_temporary_file demo_world (snd (splitext ''reports/prices.pdf''))"
  let ?req = "\<lambda>u. upload_request_of (JStr ''tok-1'') ?p ''%PDF-1.7 prices'' u
      (ZOHO_BOT_NAME ?c) [''Metal Price Update'']"
  have hyp: "fst (get_zoho_access_token demo_world ?c start) = Inr (JStr ''tok-1'')
      \<and> AWS_S3_BUCKET ?c = Some ''metal-prices'' \<and> ''metal-prices'' \<noteq> []
      \<and> AWS_S3_FILE_KEY ?c = Some ''reports/prices.pdf'' \<and> ''reports/prices.pdf'' \<noteq> []
      \<and> tmp_failure demo_world (snd (splitext ''reports/prices.pdf'')) = None
      \<and> boto3_client_failure demo_world (AWS_REGION ?c) = None
      \<and> s3_service demo_world (AWS_REGION ?c) ''metal-prices'' ''reports/prices.pdf''
          = S3Ok ''%PDF-1.7 prices''
      \<and> filter (\<lambda>x. x \<noteq> []) (map strip (split CHR '','' (ZOHO_CLIQ_USER_IDS ?c))) = ?us
      \<and> cliq_server demo_world (uploads_sent start) (?req ''60019117005'') = Reply reply_200
      \<and> cliq_server demo_world (uploads_sent start + 1) (?req ''60019117006'') = Reply reply_500
      \<and> cliq_server demo_world (uploads_sent start + 2) (?req ''60019117007'') = Reply reply_200
      \<and> status_code reply_200 = 200 \<and> json_body reply_200 = Some (JObj [])
      \<and> ''error'' \<notin> fst ` set []
      \<and> status_code reply_500 \<noteq> 200
      \<and> status_code reply_200 = 200 \<and> json_body reply_200 = Some (JObj [])
      \<and> ''error'' \<notin> fst ` set []"
    by code_simp
  note run = upload_loop_isolates_http_failures
    [THEN conjunct2, THEN conjunct2, THEN mp, OF hyp]
  have r500: "body_text reply_500 = ''Internal Server Error''" "status_code reply_500 = 500"
    by (simp_all add: reply_500_def)
  have a: "fst (main demo_world start) =
     Inr [\<lparr>entry_user_id = ''60019117005'', entry_result = JObj []\<rparr>,
          \<lparr>entry_user_id = ''60019117006'',
            entry_result = JObj [(''error'', JStr ''Internal Server Error''),
                                 (''status_code'', JInt 500)]\<rparr>,
          \<lparr>entry_user_id = ''60019117007'', entry_result = JObj []\<rparr>]"
    using run [THEN conjunct1] by (simp only: r500)
  have "filter is_upload (trace (snd (main demo_world start))) =
      filter is_upload (trace start) @ map (\<lambda>u. UploadPost (?req u)) ?us"
    by (rule run [THEN conjunct2, THEN conjunct1])
  then have b: "map (\<lambda>e. case e of UploadPost q \<Rightarrow> user_id q | _ \<Rightarrow> [])
        (filter is_upload (trace (snd (main demo_world start)))) = ?us"
    by (simp add: start_def upload_request_of_def)
  have c: "Print (MsgUploaded ''60019117005'') \<in> set (trace (snd (main demo_world start)))"
    by (rule run [THEN conjunct2, THEN conjunct2, THEN conjunct1])
  have d: "Print (MsgUploadFailed ''60019117006'' 500)
      \<in> set (trace (snd (main demo_world start)))"
    using run [THEN conjunct2, THEN conjunct2, THEN conjunct2, THEN conjunct1]
    by (simp only: r500)
  have e: "Print (MsgUploaded ''60019117007'') \<in> set (trace (snd (main demo_world start)))"
    by (rule run [THEN conjunct2, THEN conjunct2, THEN conjunct2, THEN conjunct2,
          THEN conjunct1])
  have g: "Print (MsgSuccessful 2 3) \<in> set (trace (snd (main demo_world start)))"
    by (rule run [THEN conjunct2, THEN conjunct2, THEN conjunct2, THEN conjunct2,
          THEN conjunct2])
  have f: "fs ?s ''/tmp/f.pdf'' = Some ''data''" by simp
  have answered: "\<forall>i < length ?us. \<exists>r.
      cliq_server demo_world (uploads_sent ?s + i) (?q (?us ! i)) = Reply r
      \<and> (status_code r = 200 \<longrightarrow> json_body r \<noteq> None)"
    by (simp add: All_less_Suc demo_world_def uploads_sent_def reply_200_def reply_500_def)
  from upload_loop_isolates_http_failures
    [THEN conjunct1, THEN mp, OF conjI [OF f answered], of "[]"]
  obtain res s' where
    lrun: "upload_loop demo_world (JStr ''tok-1'') ''/tmp/f.pdf'' ''Bot'' ?us [] ?s
        = (Inr ([] @ res), s')"
    and ids: "map entry_user_id res = ?us"
    and entries: "\<forall>i < length ?us. \<forall>r.
           cliq_server demo_world (uploads_sent ?s + i) (?q (?us ! i)) = Reply r
           \<longrightarrow> (if status_code r = 200 then json_body r = Some (entry_result (res ! i))
                else entry_result (res ! i) =
                       JObj [(''error'', JStr (body_text r)),
                             (''status_code'', JInt (status_code r))])"
    by (elim exE conjE)
  have i0: "(0::nat) < length ?us" and i1: "(1::nat) < length ?us" by simp_all
  have q0: "cliq_server demo_world (uploads_sent ?s + 0) (?q (?us ! 0)) = Reply reply_200"
    by (simp add: demo_world_def uploads_sent_def)
  have q1: "cliq_server demo_world (uploads_sent ?s + 1) (?q (?us ! 1)) = Reply reply_500"
    by (simp add: demo_world_def uploads_sent_def)
  have first: "json_body reply_200 = Some (entry_result (res ! 0))"
    using entries [rule_format, OF i0 q0] by (simp add: reply_200_def)
  have second: "entry_result (res ! 1) =
      JObj [(''error'', JStr ''Internal Server Error''), (''status_code'', JInt 500)]"
    using entries [rule_format, OF i1 q1] by (simp add: reply_500_def)
  have lrun': "upload_loop demo_world (JStr ''tok-1'') ''/tmp/f.pdf'' ''Bot'' ?us [] ?s
        = (Inr res, s')"
    using lrun by simp
  have ex: "\<exists>res s'. upload_loop demo_world (JStr ''tok-1'') ''/tmp/f.pdf'' ''Bot'' ?us [] ?s
        = (Inr res, s')
      \<and> map entry_user_id res = ?us
      \<and> json_body reply_200 = Some (entry_result (res ! 0))
      \<and> entry_result (res ! 1) =
          JObj [(''error'', JStr ''Internal Server Error''), (''status_code'', JInt 500)]"
    by (rule exI [of _ res], rule exI [of _ s']) (intro conjI lrun' ids first second)
  let ?wn = "demo_world\<lparr>cliq_server := \<lambda>n q. NetworkError ''Connection reset by peer''\<rparr>"
  have qn: "cliq_server ?wn (uploads_sent ?s)
      (upload_request_of (JStr ''tok-1'') ''/tmp/f.pdf'' ''data'' ''7'' ''Bot''
         [''Metal Price Update'']) = NetworkError ''Connection reset by peer''"
    by simp
  have n: "fst (upload_loop ?wn (JStr ''tok-1'') ''/tmp/f.pdf'' ''Bot'' [''7'', ''8''] [] ?s)
      = Inl (RequestException ''Connection reset by peer'')"
    by (rule upload_loop_isolates_http_failures
        [THEN conjunct2, THEN conjunct1, THEN mp, OF conjI [OF f qn]])
  show ?thesis by (intro conjI a b c d e g ex n)
qed

text \<open>
  The claim as written fails for a network error: in the run below the second upload
  ends in one; \<open>main\<close> ends with that exception, the third recipient is never attempted
  and no entry is recorded.
\<close>

theorem network_error_aborts_run_counterexample:
  "cliq_server broken_network_world 1
     (upload_request_of (JStr ''tok-1'') ''/tmp/tmpab12cd34.pdf'' ''%PDF-1.7 prices''
        ''60019117006'' ''Metal Price Tracker'' [''Metal Price Update''])
     = NetworkError ''Connection reset by peer''
   \<and> fst (main broken_network_world start) = Inl (RequestException ''Connection reset by peer'')
   \<and> map (\<lambda>e. case e of UploadPost q \<Rightarrow> user_id q | _ \<Rightarrow> [])
        (filter is_upload (trace (snd (main broken_network_world start))))
      = [''60019117005'', ''60019117006'']"
  by code_simp

subsection \<open>Configuration errors, stage by stage\<close>

text \<open>
  C2, as the code has it. Each required setting is tested where its stage starts, so a
  configuration error is raised before the requests of that stage and of the later ones,
  not before every request. Missing credentials: the run ends with the \<^verbatim>\<open>ValueError\<close>
  of the refresher, with no event but printing and the files as they were. Missing
  bucket or key: the run ends before the temporary file, the download and any upload;
  the token request has been sent when the credentials are set, and the error is the
  \<^verbatim>\<open>ValueError\<close> of line 184 when the token exchange returned, the error of the token
  exchange otherwise. No recipient left after trimming: the run ends with an exception
  and no upload is sent; when the token exchange, the temporary file and the download
  succeeded, the exception is the \<^verbatim>\<open>ValueError\<close> of \<^verbatim>\<open>get_user_ids\<close>, raised after
  the token request and the download, with the downloaded file in place.
\<close>

theorem configuration_errors_by_stage:
  "(\<not> env_truthy (ZOHO_REFRESH_TOKEN (load_config (environ w)))
      \<or> \<not> env_truthy (ZOHO_CLIENT_ID (load_config (environ w)))
      \<or> \<not> env_truthy (ZOHO_CLIENT_SECRET (load_config (environ w)))
    \<longrightarrow> fst (main w s0) =
          Inl (ValueError ''Missing Zoho OAuth credentials in environment variables'')
        \<and> filter (\<lambda>e. \<not> is_print e) (trace (snd (main w s0))) =
            filter (\<lambda>e. \<not> is_print e) (trace s0)
        \<and> fs (snd (main w s0)) = fs s0)
   \<and> (\<not> env_truthy (AWS_S3_BUCKET (load_config (environ w)))
      \<or> \<not> env_truthy (AWS_S3_FILE_KEY (load_config (environ w)))
    \<longrightarrow> fst (main w s0) =
          (case fst (get_zoho_access_token w (load_config (environ w)) s0) of
             Inl e \<Rightarrow> Inl e
           | Inr tok \<Rightarrow> Inl (ValueError ''AWS_S3_BUCKET and AWS_S3_FILE_KEY must be set''))
        \<and> filter (\<lambda>e. \<not> is_print e) (trace (snd (main w s0))) =
            filter (\<lambda>e. \<not> is_print e) (trace s0)
              @ (if env_truthy (ZOHO_REFRESH_TOKEN (load_config (environ w)))
                    \<and> env_truthy (ZOHO_CLIENT_ID (load_config (environ w)))
                    \<and> env_truthy (ZOHO_CLIENT_SECRET (load_config (environ w)))
                 then [TokenPost (token_request_of (load_config (environ w)))] else [])
        \<and> fs (snd (main w s0)) = fs s0)
   \<and> (filter (\<lambda>x. x \<noteq> [])
        (map strip (split CHR '','' (ZOHO_CLIQ_USER_IDS (load_config (environ w))))) = []
    \<longrightarrow> (\<exists>e. fst (main w s0) = Inl e)
        \<and> filter is_upload (trace (snd (main w s0))) = filter is_upload (trace s0)
        \<and> (fst (get_zoho_access_token w (load_config (environ w)) s0) = Inr tok
            \<and> AWS_S3_BUCKET (load_config (environ w)) = Some bucket \<and> bucket \<noteq> []
            \<and> AWS_S3_FILE_KEY (load_config (environ w)) = Some key \<and> key \<noteq> []
            \<and> tmp_failure w (snd (splitext key)) = None
            \<and> boto3_client_failure w (AWS_REGION (load_config (environ w))) = None
            \<and> s3_service w (AWS_REGION (load_config (environ w))) bucket key = S3Ok content
          \<longrightarrow> fst (main w s0) =
                Inl (ValueError (if ZOHO_CLIQ_USER_IDS (load_config (environ w)) = []
                   then ''No user IDs configured. Set ZOHO_CLIQ_USER_IDS environment variable''
                   else ''ZOHO_CLIQ_USER_IDS is empty''))
              \<and> filter (\<lambda>e. \<not> is_print e) (trace (snd (main w s0))) =
                  filter (\<lambda>e. \<not> is_print e) (trace s0)
                    @ [TokenPost (token_request_of (load_config (environ w))),
                       TempFileCreated (named_temporary_file w (snd (splitext key))),
                       S3Download (AWS_REGION (load_config (environ w))) bucket key
                         (named_temporary_file w (snd (splitext key)))]
              \<and> fs (snd (main w s0)) (named_temporary_file w (snd (splitext key)))
                  = Some content))"
  (is "?credentials \<and> ?object \<and> ?recipients")
proof -
  let ?c = "load_config (environ w)"
  have 1: ?credentials
  proof
    assume h: "\<not> env_truthy (ZOHO_REFRESH_TOKEN ?c) \<or> \<not> env_truthy (ZOHO_CLIENT_ID ?c)
      \<or> \<not> env_truthy (ZOHO_CLIENT_SECRET ?c)"
    note tm = token_missing_credentials [OF h, of w "at_token_call s0"]
    show "fst (main w s0) =
          Inl (ValueError ''Missing Zoho OAuth credentials in environment variables'')
        \<and> filter (\<lambda>e. \<not> is_print e) (trace (snd (main w s0))) =
            filter (\<lambda>e. \<not> is_print e) (trace s0)
        \<and> fs (snd (main w s0)) = fs s0"
    proof (cases rule: main_cases [of w s0])
      case (token_failed e s1)
      from token_failed(1) tm
      have e: "e = ValueError ''Missing Zoho OAuth credentials in environment variables''"
        and s1: "s1 = at_token_call s0"
        by simp_all
      show ?thesis using token_failed(2) by (simp add: e s1 at_token_call_effects)
    qed (use tm in simp_all)
  qed
  have 2: ?object using main_without_object [of w s0] by (rule impI)
  have 3: ?recipients
  proof
    assume h: "filter (\<lambda>x. x \<noteq> [])
        (map strip (split CHR '','' (ZOHO_CLIQ_USER_IDS ?c))) = []"
    note a = main_without_recipients [OF h, of s0]
    have b: "fst (get_zoho_access_token w ?c s0) = Inr tok
            \<and> AWS_S3_BUCKET ?c = Some bucket \<and> bucket \<noteq> []
            \<and> AWS_S3_FILE_KEY ?c = Some key \<and> key \<noteq> []
            \<and> tmp_failure w (snd (splitext key)) = None
            \<and> boto3_client_failure w (AWS_REGION ?c) = None
            \<and> s3_service w (AWS_REGION ?c) bucket key = S3Ok content
          \<longrightarrow> fst (main w s0) =
                Inl (ValueError (if ZOHO_CLIQ_USER_IDS ?c = []
                   then ''No user IDs configured. Set ZOHO_CLIQ_USER_IDS environment variable''
                   else ''ZOHO_CLIQ_USER_IDS is empty''))
              \<and> filter (\<lambda>e. \<not> is_print e) (trace (snd (main w s0))) =
                  filter (\<lambda>e. \<not> is_print e) (trace s0)
                    @ [TokenPost (token_request_of ?c),
                       TempFileCreated (named_temporary_file w (snd (splitext key))),
                       S3Download (AWS_REGION ?c) bucket key
                         (named_temporary_file w (snd (splitext key)))]
              \<and> fs (snd (main w s0)) (named_temporary_file w (snd (splitext key)))
                  = Some content"
    proof
      assume p: "fst (get_zoho_access_token w ?c s0) = Inr tok
            \<and> AWS_S3_BUCKET ?c = Some bucket \<and> bucket \<noteq> []
            \<and> AWS_S3_FILE_KEY ?c = Some key \<and> key \<noteq> []
            \<and> tmp_failure w (snd (splitext key)) = None
            \<and> boto3_client_failure w (AWS_REGION ?c) = None
            \<and> s3_service w (AWS_REGION ?c) bucket key = S3Ok content"
      then have tk: "fst (get_zoho_access_token w ?c s0) = Inr tok"
        and bk: "AWS_S3_BUCKET ?c = Some bucket" "bucket \<noteq> []"
        and ky: "AWS_S3_FILE_KEY ?c = Some key" "key \<noteq> []"
        and tmp: "tmp_failure w (snd (splitext key)) = None"
        and cl: "boto3_client_failure w (AWS_REGION ?c) = None"
        and ok: "s3_service w (AWS_REGION ?c) bucket key = S3Ok content"
        by simp_all
      show "fst (main w s0) =
                Inl (ValueError (if ZOHO_CLIQ_USER_IDS ?c = []
                   then ''No user IDs configured. Set ZOHO_CLIQ_USER_IDS environment variable''
                   else ''ZOHO_CLIQ_USER_IDS is empty''))
              \<and> filter (\<lambda>e. \<not> is_print e) (trace (snd (main w s0))) =
                  filter (\<lambda>e. \<not> is_print e) (trace s0)
                    @ [TokenPost (token_request_of ?c),
                       TempFileCreated (named_temporary_file w (snd (splitext key))),
                       S3Download (AWS_REGION ?c) bucket key
                         (named_temporary_file w (snd (splitext key)))]
              \<and> fs (snd (main w s0)) (named_temporary_file w (snd (splitext key)))
                  = Some content"
        by (rule main_recipients_error [OF tk bk ky tmp cl ok h])
    qed
    show "(\<exists>e. fst (main w s0) = Inl e)
        \<and> filter is_upload (trace (snd (main w s0))) = filter is_upload (trace s0)
        \<and> (fst (get_zoho_access_token w ?c s0) = Inr tok
            \<and> AWS_S3_BUCKET ?c = Some bucket \<and> bucket \<noteq> []
            \<and> AWS_S3_FILE_KEY ?c = Some key \<and> key \<noteq> []
            \<and> tmp_failure w (snd (splitext key)) = None
            \<and> boto3_client_failure w (AWS_REGION ?c) = None
            \<and> s3_service w (AWS_REGION ?c) bucket key = S3Ok content
          \<longrightarrow> fst (main w s0) =
                Inl (ValueError (if ZOHO_CLIQ_USER_IDS ?c = []
                   then ''No user IDs configured. Set ZOHO_CLIQ_USER_IDS environment variable''
                   else ''ZOHO_CLIQ_USER_IDS is empty''))
              \<and> filter (\<lambda>e. \<not> is_print e) (trace (snd (main w s0))) =
                  filter (\<lambda>e. \<not> is_print e) (trace s0)
                    @ [TokenPost (token_request_of ?c),
                       TempFileCreated (named_temporary_file w (snd (splitext key))),
                       S3Download (AWS_REGION ?c) bucket key
                         (named_temporary_file w (snd (splitext key)))]
              \<and> fs (snd (main w s0)) (named_temporary_file w (snd (splitext key)))
                  = Some content)"
      by (rule conjI [OF a [THEN conjunct1] conjI [OF a [THEN conjunct2] b]])
  qed
  show ?thesis by (rule conjI [OF 1 conjI [OF 2 3]])
qed

theorem configuration_errors_by_stage_witness:
  "fst (main (demo_world\<lparr>environ := demo_environ(''ZOHO_CLIENT_SECRET'' := None)\<rparr>) start) =
     Inl (ValueError ''Missing Zoho OAuth credentials in environment variables'')
   \<and> filter (\<lambda>e. \<not> is_print e)
       (trace (snd (main (demo_world\<lparr>environ := demo_environ(''ZOHO_CLIENT_SECRET'' := None)\<rparr>)
          start))) = []
   \<and> fst (main no_bucket_world start) =
       Inl (ValueError ''AWS_S3_BUCKET and AWS_S3_FILE_KEY must be set'')
   \<and> filter (\<lambda>e. \<not> is_print e) (trace (snd (main no_bucket_world start))) =
       [TokenPost (token_request_of (load_config (environ no_bucket_world)))]
   \<and> fst (main (no_bucket_world\<lparr>oauth_server := \<lambda>q. Reply
         \<lparr>status_code = 401, body_text = ''Unauthorized'', json_body = None\<rparr>\<rparr>) start)
       = Inl (HTTPError 401)
   \<and> fst (main blank_recipients_world start) = Inl (ValueError ''ZOHO_CLIQ_USER_IDS is empty'')
   \<and> filter is_upload (trace (snd (main blank_recipients_world start))) = []
   \<and> filter (\<lambda>e. \<not> is_print e) (trace (snd (main blank_recipients_world start))) =
       [TokenPost (token_request_of (load_config (environ blank_recipients_world))),
        TempFileCreated ''/tmp/tmpab12cd34.pdf'',
        S3Download ''ap-south-1'' ''metal-prices'' ''reports/prices.pdf''
          ''/tmp/tmpab12cd34.pdf'']
   \<and> fs (snd (main blank_recipients_world start)) ''/tmp/tmpab12cd34.pdf''
       = Some ''%PDF-1.7 prices''"
proof -
  have st: "filter (\<lambda>e. \<not> is_print e) (trace start) = []" "filter is_upload (trace start) = []"
    by (simp_all add: start_def)
  let ?w1 = "demo_world\<lparr>environ := demo_environ(''ZOHO_CLIENT_SECRET'' := None)\<rparr>"
  have h1: "\<not> env_truthy (ZOHO_REFRESH_TOKEN (load_config (environ ?w1)))
      \<or> \<not> env_truthy (ZOHO_CLIENT_ID (load_config (environ ?w1)))
      \<or> \<not> env_truthy (ZOHO_CLIENT_SECRET (load_config (environ ?w1)))"
    by (simp add: load_config_def)
  note t1 = configuration_errors_by_stage [THEN conjunct1, THEN mp, OF h1, of start]
  have a1: "fst (main ?w1 start) =
      Inl (ValueError ''Missing Zoho OAuth credentials in environment variables'')"
    by (rule t1 [THEN conjunct1])
  have a2: "filter (\<lambda>e. \<not> is_print e) (trace (snd (main ?w1 start))) = []"
    using t1 [THEN conjunct2, THEN conjunct1] by (simp only: st)
  let ?w2 = no_bucket_world
  have h2: "\<not> env_truthy (AWS_S3_BUCKET (load_config (environ ?w2)))
      \<or> \<not> env_truthy (AWS_S3_FILE_KEY (load_config (environ ?w2)))"
    by (simp add: no_bucket_world_def load_config_def)
  note t2 = configuration_errors_by_stage
    [THEN conjunct2, THEN conjunct1, THEN mp, OF h2, of start]
  have tok2: "fst (get_zoho_access_token ?w2 (load_config (environ ?w2)) start)
      = Inr (JStr ''tok-1'')"
    by code_simp
  have creds2: "env_truthy (ZOHO_REFRESH_TOKEN (load_config (environ ?w2)))
      \<and> env_truthy (ZOHO_CLIENT_ID (load_config (environ ?w2)))
      \<and> env_truthy (ZOHO_CLIENT_SECRET (load_config (environ ?w2)))"
    by code_simp
  have b1: "fst (main ?w2 start) =
      Inl (ValueError ''AWS_S3_BUCKET and AWS_S3_FILE_KEY must be set'')"
    using t2 [THEN conjunct1] by (simp add: tok2)
  have b2: "filter (\<lambda>e. \<not> is_print e) (trace (snd (main ?w2 start))) =
      [TokenPost (token_request_of (load_config (environ ?w2)))]"
    using t2 [THEN conjunct2, THEN conjunct1] creds2 by (simp add: st)
  let ?w2' = "no_bucket_world\<lparr>oauth_server := \<lambda>q. Reply
         \<lparr>status_code = 401, body_text = ''Unauthorized'', json_body = None\<rparr>\<rparr>"
  have h2': "\<not> env_truthy (AWS_S3_BUCKET (load_config (environ ?w2')))
      \<or> \<not> env_truthy (AWS_S3_FILE_KEY (load_config (environ ?w2')))"
    by (simp add: no_bucket_world_def load_config_def)
  have tok2': "fst (get_zoho_access_token ?w2' (load_config (environ ?w2')) start)
      = Inl (HTTPError 401)"
    by code_simp
  have b3: "fst (main ?w2' start) = Inl (HTTPError 401)"
    using configuration_errors_by_stage
      [THEN conjunct2, THEN conjunct1, THEN mp, OF h2', of start, THEN conjunct1]
    by (simp only: tok2' sum.case)
  let ?w3 = blank_recipients_world
  have h3: "filter (\<lambda>x. x \<noteq> [])
      (map strip (split CHR '','' (ZOHO_CLIQ_USER_IDS (load_config (environ ?w3))))) = []"
    by code_simp
  note t3 = configuration_errors_by_stage
    [THEN conjunct2, THEN conjunct2, THEN mp, OF h3, of start]
  have c1: "filter is_upload (trace (snd (main ?w3 start))) = []"
    using t3 [THEN conjunct2, THEN conjunct1] by (simp only: st)
  have p3: "fst (get_zoho_access_token ?w3 (load_config (environ ?w3)) start)
          = Inr (JStr ''tok-1'')
        \<and> AWS_S3_BUCKET (load_config (environ ?w3)) = Some ''metal-prices''
        \<and> ''metal-prices'' \<noteq> []
        \<and> AWS_S3_FILE_KEY (load_config (environ ?w3)) = Some ''reports/prices.pdf''
        \<and> ''reports/prices.pdf'' \<noteq> []
        \<and> tmp_failure ?w3 (snd (splitext ''reports/prices.pdf'')) = None
        \<and> boto3_client_failure ?w3 (AWS_REGION (load_config (environ ?w3))) = None
        \<and> s3_service ?w3 (AWS_REGION (load_config (environ ?w3)))
             ''metal-prices'' ''reports/prices.pdf'' = S3Ok ''%PDF-1.7 prices''"
    by code_simp
  have path: "named_temporary_file ?w3 (snd (splitext ''reports/prices.pdf''))
      = ''/tmp/tmpab12cd34.pdf''"
    by code_simp
  have region: "AWS_REGION (load_config (environ ?w3)) = ''ap-south-1''"
    by code_simp
  have ids3: "ZOHO_CLIQ_USER_IDS (load_config (environ ?w3)) \<noteq> []"
    by code_simp
  note t3' = t3 [THEN conjunct2, THEN conjunct2, THEN mp, OF p3]
  have c2: "fst (main ?w3 start) = Inl (ValueError ''ZOHO_CLIQ_USER_IDS is empty'')"
    using t3' [THEN conjunct1] ids3 by simp
  have c3: "filter (\<lambda>e. \<not> is_print e) (trace (snd (main ?w3 start))) =
       [TokenPost (token_request_of (load_config (environ ?w3))),
        TempFileCreated ''/tmp/tmpab12cd34.pdf'',
        S3Download ''ap-south-1'' ''metal-prices'' ''reports/prices.pdf''
          ''/tmp/tmpab12cd34.pdf'']"
    using t3' [THEN conjunct2, THEN conjunct1] by (simp only: path region st append_Nil)
  have c4: "fs (snd (main ?w3 start)) ''/tmp/tmpab12cd34.pdf'' = Some ''%PDF-1.7 prices''"
    using t3' [THEN conjunct2, THEN conjunct2] by (simp only: path)
  show ?thesis by (intro conjI a1 a2 b1 b2 b3 c2 c1 c3 c4)
qed

text \<open>
  The claim as written fails: with the bucket unset the token request has already been
  sent when the error is raised, and with a recipient list of blanks so has the
  download.
\<close>

theorem configuration_error_after_requests_counterexample:
  "AWS_S3_BUCKET (load_config (environ no_bucket_world)) = None
   \<and> fst (main no_bucket_world start) =
       Inl (ValueError ''AWS_S3_BUCKET and AWS_S3_FILE_KEY must be set'')
   \<and> filter is_network (trace (snd (main no_bucket_world start))) =
       [TokenPost (token_request_of (load_config (environ no_bucket_world)))]
   \<and> ZOHO_CLIQ_USER_IDS (load_config (environ blank_recipients_world)) = '' , ''
   \<and> fst (main blank_recipients_world start) = Inl (ValueError ''ZOHO_CLIQ_USER_IDS is empty'')
   \<and> filter is_network (trace (snd (main blank_recipients_world start))) =
       [TokenPost (token_request_of (load_config (environ blank_recipients_world))),
        S3Download ''ap-south-1'' ''metal-prices'' ''reports/prices.pdf''
          ''/tmp/tmpab12cd34.pdf'']"
  by code_simp

subsection \<open>The temporary file\<close>

text \<open>
  C5, as the code has it. The runs of \<open>main\<close> whose upload loop reaches its end are those
  that return their list and those that raise \<^verbatim>\<open>TypeError\<close> in the summary; every run
  whose token exchange, temporary file and download succeed, that has a recipient, and
  whose uploads are all answered (with a JSON body when the status is 200) is one of
  them. In such a run the whole object is at the temporary path before the first upload
  request (every upload sends exactly that content), and \<^verbatim>\<open>os.unlink\<close> is called once,
  after the last upload request, whether the uploads were answered with 200 or not. Then
  the file is gone, unless the deletion fails: in that case the warning is printed, the
  file stays, and the outcome of the run is the same as when the deletion succeeds.
\<close>

theorem scratch_file_written_then_removed:
  "(fst (get_zoho_access_token w (load_config (environ w)) s0) = Inr tok0
      \<and> AWS_S3_BUCKET (load_config (environ w)) = Some bucket0 \<and> bucket0 \<noteq> []
      \<and> AWS_S3_FILE_KEY (load_config (environ w)) = Some key0 \<and> key0 \<noteq> []
      \<and> tmp_failure w (snd (splitext key0)) = None
      \<and> boto3_client_failure w (AWS_REGION (load_config (environ w))) = None
      \<and> s3_service w (AWS_REGION (load_config (environ w))) bucket0 key0 = S3Ok content0
      \<and> filter (\<lambda>x. x \<noteq> [])
          (map strip (split CHR '','' (ZOHO_CLIQ_USER_IDS (load_config (environ w))))) = ids
      \<and> ids \<noteq> []
      \<and> (\<forall>i < length ids. \<exists>r.
           cliq_server w (uploads_sent s0 + i)
             (upload_request_of tok0 (named_temporary_file w (snd (splitext key0))) content0
                (ids ! i) (ZOHO_BOT_NAME (load_config (environ w))) [''Metal Price Update''])
             = Reply r
           \<and> (status_code r = 200 \<longrightarrow> json_body r \<noteq> None))
    \<longrightarrow> (\<exists>results. fst (main w s0) = Inr results) \<or> fst (main w s0) = Inl TypeError)
   \<and> ((\<exists>results. fst (main w s0) = Inr results) \<or> fst (main w s0) = Inl TypeError
    \<longrightarrow> (\<exists>tok bucket key content.
          fst (get_zoho_access_token w (load_config (environ w)) s0) = Inr tok
        \<and> AWS_S3_BUCKET (load_config (environ w)) = Some bucket
        \<and> AWS_S3_FILE_KEY (load_config (environ w)) = Some key
        \<and> s3_service w (AWS_REGION (load_config (environ w))) bucket key = S3Ok content
        \<and> filter (\<lambda>e. \<not> is_print e) (trace (snd (main w s0))) =
            filter (\<lambda>e. \<not> is_print e) (trace s0)
              @ [TokenPost (token_request_of (load_config (environ w))),
                 TempFileCreated (named_temporary_file w (snd (splitext key))),
                 S3Download (AWS_REGION (load_config (environ w))) bucket key
                   (named_temporary_file w (snd (splitext key)))]
              @ map (\<lambda>u. UploadPost
                       (upload_request_of tok (named_temporary_file w (snd (splitext key)))
                          content u (ZOHO_BOT_NAME (load_config (environ w)))
                          [''Metal Price Update'']))
                  (filter (\<lambda>x. x \<noteq> [])
                    (map strip (split CHR '',''
                       (ZOHO_CLIQ_USER_IDS (load_config (environ w))))))
              @ [Unlink (named_temporary_file w (snd (splitext key)))]
        \<and> (unlink_failure w (named_temporary_file w (snd (splitext key))) = None
             \<longrightarrow> fs (snd (main w s0)) (named_temporary_file w (snd (splitext key))) = None
               \<and> Print MsgCleanedUp \<in> set (trace (snd (main w s0))))
        \<and> (\<forall>m. unlink_failure w (named_temporary_file w (snd (splitext key))) = Some m
             \<longrightarrow> fs (snd (main w s0)) (named_temporary_file w (snd (splitext key)))
                   = Some content
               \<and> Print (MsgCleanupWarning m) \<in> set (trace (snd (main w s0)))
               \<and> fst (main (w\<lparr>unlink_failure := \<lambda>q. None\<rparr>) s0) = fst (main w s0))))"
  (is "?reached \<and> ?ended")
proof -
  let ?c = "load_config (environ w)"
  let ?np = "\<lambda>e. \<not> is_print e"
  have 1: ?reached
  proof
    assume h: "fst (get_zoho_access_token w ?c s0) = Inr tok0
      \<and> AWS_S3_BUCKET ?c = Some bucket0 \<and> bucket0 \<noteq> []
      \<and> AWS_S3_FILE_KEY ?c = Some key0 \<and> key0 \<noteq> []
      \<and> tmp_failure w (snd (splitext key0)) = None
      \<and> boto3_client_failure w (AWS_REGION ?c) = None
      \<and> s3_service w (AWS_REGION ?c) bucket0 key0 = S3Ok content0
      \<and> filter (\<lambda>x. x \<noteq> []) (map strip (split CHR '','' (ZOHO_CLIQ_USER_IDS ?c))) = ids
      \<and> ids \<noteq> []
      \<and> (\<forall>i < length ids. \<exists>r.
           cliq_server w (uploads_sent s0 + i)
             (upload_request_of tok0 (named_temporary_file w (snd (splitext key0))) content0
                (ids ! i) (ZOHO_BOT_NAME ?c) [''Metal Price Update''])
             = Reply r
           \<and> (status_code r = 200 \<longrightarrow> json_body r \<noteq> None))"
    note h1 = h [THEN conjunct1]
    note h2 = h [THEN conjunct2, THEN conjunct1]
    note h3 = h [THEN conjunct2, THEN conjunct2, THEN conjunct1]
    note h4 = h [THEN conjunct2, THEN conjunct2, THEN conjunct2, THEN conjunct1]
    note r4 = h [THEN conjunct2, THEN conjunct2, THEN conjunct2, THEN conjunct2]
    note h5 = r4 [THEN conjunct1]
    note h6 = r4 [THEN conjunct2, THEN conjunct1]
    note h7 = r4 [THEN conjunct2, THEN conjunct2, THEN conjunct1]
    note h8 = r4 [THEN conjunct2, THEN conjunct2, THEN conjunct2, THEN conjunct1]
    note r8 = r4 [THEN conjunct2, THEN conjunct2, THEN conjunct2, THEN conjunct2]
    note h9 = r8 [THEN conjunct1]
    note h10 = r8 [THEN conjunct2, THEN conjunct1]
    note h11 = r8 [THEN conjunct2, THEN conjunct2]
    from main_completes [OF h1 h2 h3 h4 h5 h6 h7 h8 h9 h10 h11]
    obtain results s5 where
      A: "main w s0 = report results
            (at_summary w (named_temporary_file w (snd (splitext key0))) s5)"
      by (elim exE conjE)
    show "(\<exists>results. fst (main w s0) = Inr results) \<or> fst (main w s0) = Inl TypeError"
    proof (cases "count_successful results")
      case (Inl e)
      then have "e = TypeError" by (rule count_successful_error)
      then have "fst (main w s0) = Inl TypeError" using A Inl by (simp add: fst_report)
      then show ?thesis by (rule disjI2)
    next
      case (Inr n)
      then have "fst (main w s0) = Inr results" using A by (simp add: fst_report)
      then have "\<exists>results. fst (main w s0) = Inr results" by (rule exI)
      then show ?thesis by (rule disjI1)
    qed
  qed
  have 2: ?ended
  proof
    assume h: "(\<exists>results. fst (main w s0) = Inr results) \<or> fst (main w s0) = Inl TypeError"
    from main_loop_ended [OF h] obtain tok bucket key content results s5 where
      tk: "fst (get_zoho_access_token w ?c s0) = Inr tok"
      and bk: "AWS_S3_BUCKET ?c = Some bucket"
      and ky: "AWS_S3_FILE_KEY ?c = Some key"
      and ok: "s3_service w (AWS_REGION ?c) bucket key = S3Ok content"
      and A: "main w s0 = report results
            (at_summary w (named_temporary_file w (snd (splitext key))) s5)"
      and f5: "fs s5 = (fs s0)(named_temporary_file w (snd (splitext key)) \<mapsto> content)"
      and t5: "filter ?np (trace s5) =
         filter ?np (trace s0)
           @ [TokenPost (token_request_of ?c),
              TempFileCreated (named_temporary_file w (snd (splitext key))),
              S3Download (AWS_REGION ?c) bucket key (named_temporary_file w (snd (splitext key)))]
           @ map (\<lambda>u. UploadPost
                    (upload_request_of tok (named_temporary_file w (snd (splitext key)))
                       content u (ZOHO_BOT_NAME ?c) [''Metal Price Update'']))
               (filter (\<lambda>x. x \<noteq> []) (map strip (split CHR '','' (ZOHO_CLIQ_USER_IDS ?c))))"
      by (elim exE conjE)
    define p where "p = named_temporary_file w (snd (splitext key))"
    note A = A [folded p_def] and f5 = f5 [folded p_def] and t5 = t5 [folded p_def]
    note se = summary_effects [of results w p s5, folded A]
    have T: "filter ?np (trace (snd (main w s0))) =
         filter ?np (trace s0)
           @ [TokenPost (token_request_of ?c), TempFileCreated p,
              S3Download (AWS_REGION ?c) bucket key p]
           @ map (\<lambda>u. UploadPost
                    (upload_request_of tok p content u (ZOHO_BOT_NAME ?c)
                       [''Metal Price Update'']))
               (filter (\<lambda>x. x \<noteq> []) (map strip (split CHR '','' (ZOHO_CLIQ_USER_IDS ?c))))
           @ [Unlink p]"
      using se [THEN conjunct1] t5 by simp
    have f5p: "fs s5 p \<noteq> None" using f5 by simp
    have R: "unlink_failure w p = None
         \<longrightarrow> fs (snd (main w s0)) p = None \<and> Print MsgCleanedUp \<in> set (trace (snd (main w s0)))"
      using se [THEN conjunct2, THEN conjunct1] f5p by simp
    have W: "\<forall>m. unlink_failure w p = Some m
         \<longrightarrow> fs (snd (main w s0)) p = Some content
           \<and> Print (MsgCleanupWarning m) \<in> set (trace (snd (main w s0)))
           \<and> fst (main (w\<lparr>unlink_failure := \<lambda>q. None\<rparr>) s0) = fst (main w s0)"
    proof (intro allI impI)
      fix m assume m: "unlink_failure w p = Some m"
      from se [THEN conjunct2, THEN conjunct2, rule_format, OF m] f5
      have "fs (snd (main w s0)) p = Some content"
        and "Print (MsgCleanupWarning m) \<in> set (trace (snd (main w s0)))"
        by simp_all
      then show "fs (snd (main w s0)) p = Some content
           \<and> Print (MsgCleanupWarning m) \<in> set (trace (snd (main w s0)))
           \<and> fst (main (w\<lparr>unlink_failure := \<lambda>q. None\<rparr>) s0) = fst (main w s0)"
        using main_unlink_independent [of "\<lambda>q. None" w s0] by simp
    qed
    show "\<exists>tok bucket key content.
          fst (get_zoho_access_token w ?c s0) = Inr tok
        \<and> AWS_S3_BUCKET ?c = Some bucket
        \<and> AWS_S3_FILE_KEY ?c = Some key
        \<and> s3_service w (AWS_REGION ?c) bucket key = S3Ok content
        \<and> filter ?np (trace (snd (main w s0))) =
            filter ?np (trace s0)
              @ [TokenPost (token_request_of ?c),
                 TempFileCreated (named_temporary_file w (snd (splitext key))),
                 S3Download (AWS_REGION ?c) bucket key
                   (named_temporary_file w (snd (splitext key)))]
              @ map (\<lambda>u. UploadPost
                       (upload_request_of tok (named_temporary_file w (snd (splitext key)))
                          content u (ZOHO_BOT_NAME ?c) [''Metal Price Update'']))
                  (filter (\<lambda>x. x \<noteq> [])
                    (map strip (split CHR '','' (ZOHO_CLIQ_USER_IDS ?c))))
              @ [Unlink (named_temporary_file w (snd (splitext key)))]
        \<and> (unlink_failure w (named_temporary_file w (snd (splitext key))) = None
             \<longrightarrow> fs (snd (main w s0)) (named_temporary_file w (snd (splitext key))) = None
               \<and> Print MsgCleanedUp \<in> set (trace (snd (main w s0))))
        \<and> (\<forall>m. unlink_failure w (named_temporary_file w (snd (splitext key))) = Some m
             \<longrightarrow> fs (snd (main w s0)) (named_temporary_file w (snd (splitext key)))
                   = Some content
               \<and> Print (MsgCleanupWarning m) \<in> set (trace (snd (main w s0)))
               \<and> fst (main (w\<lparr>unlink_failure := \<lambda>q. None\<rparr>) s0) = fst (main w s0))"
      by (rule exI [of _ tok], rule exI [of _ bucket], rule exI [of _ key],
          rule exI [of _ content])
         (intro conjI tk bk ky ok T [unfolded p_def] R [unfolded p_def] W [unfolded p_def])
  qed
  show ?thesis by (rule conjI [OF 1 2])
qed


theorem scratch_file_written_then_removed_witness:
  "filter (\<lambda>e. \<not> is_print e) (trace (snd (main demo_world start))) =
     [TokenPost (token_request_of (load_config (environ demo_world))),
      TempFileCreated ''/tmp/tmpab12cd34.pdf'',
      S3Download ''ap-south-1'' ''metal-prices'' ''reports/prices.pdf'' ''/tmp/tmpab12cd34.pdf'']
     @ map (\<lambda>u. UploadPost
              (upload_request_of (JStr ''tok-1'') ''/tmp/tmpab12cd34.pdf'' ''%PDF-1.7 prices'' u
                 ''Metal Price Tracker'' [''Metal Price Update'']))
         [''60019117005'', ''60019117006'', ''60019117007'']
     @ [Unlink ''/tmp/tmpab12cd34.pdf'']
   \<and> fs (snd (main demo_world start)) ''/tmp/tmpab12cd34.pdf'' = None
   \<and> Print MsgCleanedUp \<in> set (trace (snd (main demo_world start)))
   \<and> fs (snd (main unlink_fails_world start)) ''/tmp/tmpab12cd34.pdf'' = Some ''%PDF-1.7 prices''
   \<and> Print (MsgCleanupWarning ''Permission denied'')
        \<in> set (trace (snd (main unlink_fails_world start)))
   \<and> fst (main (unlink_fails_world\<lparr>unlink_failure := \<lambda>q. None\<rparr>) start)
       = fst (main unlink_fails_world start)
   \<and> ((\<exists>results. fst (main null_body_world start) = Inr results)
        \<or> fst (main null_body_world start) = Inl TypeError)
   \<and> fs (snd (main null_body_world start)) ''/tmp/tmpab12cd34.pdf'' = None
   \<and> Print MsgCleanedUp \<in> set (trace (snd (main null_body_world start)))
   \<and> fst (main null_body_world start) = Inl TypeError"
proof -
  let ?p = "''/tmp/tmpab12cd34.pdf''"
  let ?k = "''reports/prices.pdf''"
  let ?ids = "[''60019117005'', ''60019117006'', ''60019117007'']"
  have st: "filter (\<lambda>e. \<not> is_print e) (trace start) = []" by (simp add: start_def)
  have "\<exists>results. fst (main demo_world start) = Inr results"
    using demo_run_results by (rule exI)
  then have H1: "(\<exists>results. fst (main demo_world start) = Inr results)
      \<or> fst (main demo_world start) = Inl TypeError"
    by (rule disjI1)
  from scratch_file_written_then_removed [THEN conjunct2, THEN mp, OF H1]
  obtain tok bucket key content where
    tk1: "fst (get_zoho_access_token demo_world (load_config (environ demo_world)) start)
        = Inr tok"
    and bk1: "AWS_S3_BUCKET (load_config (environ demo_world)) = Some bucket"
    and ky1: "AWS_S3_FILE_KEY (load_config (environ demo_world)) = Some key"
    and ok1: "s3_service demo_world (AWS_REGION (load_config (environ demo_world))) bucket key
        = S3Ok content"
    and tr1: "filter (\<lambda>e. \<not> is_print e) (trace (snd (main demo_world start))) =
            filter (\<lambda>e. \<not> is_print e) (trace start)
              @ [TokenPost (token_request_of (load_config (environ demo_world))),
                 TempFileCreated (named_temporary_file demo_world (snd (splitext key))),
                 S3Download (AWS_REGION (load_config (environ demo_world))) bucket key
                   (named_temporary_file demo_world (snd (splitext key)))]
              @ map (\<lambda>u. UploadPost
                       (upload_request_of tok
                          (named_temporary_file demo_world (snd (splitext key)))
                          content u (ZOHO_BOT_NAME (load_config (environ demo_world)))
                          [''Metal Price Update'']))
                  (filter (\<lambda>x. x \<noteq> [])
                    (map strip (split CHR '',''
                       (ZOHO_CLIQ_USER_IDS (load_config (environ demo_world))))))
              @ [Unlink (named_temporary_file demo_world (snd (splitext key)))]"
    and rm1: "unlink_failure demo_world (named_temporary_file demo_world (snd (splitext key)))
           = None
         \<longrightarrow> fs (snd (main demo_world start))
               (named_temporary_file demo_world (snd (splitext key))) = None
           \<and> Print MsgCleanedUp \<in> set (trace (snd (main demo_world start)))"
    by (elim exE conjE)
  have tokv: "fst (get_zoho_access_token demo_world (load_config (environ demo_world)) start)
      = Inr (JStr ''tok-1'')"
    by code_simp
  have region: "AWS_REGION (load_config (environ demo_world)) = ''ap-south-1''"
    by code_simp
  have idsv: "filter (\<lambda>x. x \<noteq> [])
      (map strip (split CHR '','' (ZOHO_CLIQ_USER_IDS (load_config (environ demo_world)))))
      = ?ids"
    by code_simp
  have tok: "tok = JStr ''tok-1''" using tk1 tokv by simp
  have bucket: "bucket = ''metal-prices''" using bk1 by (simp add: demo_settings)
  have key: "key = ?k" using ky1 by (simp add: demo_settings)
  have content: "content = ''%PDF-1.7 prices''" using ok1 by (simp add: demo_settings)
  have a1: "filter (\<lambda>e. \<not> is_print e) (trace (snd (main demo_world start))) =
     [TokenPost (token_request_of (load_config (environ demo_world))),
      TempFileCreated ?p, S3Download ''ap-south-1'' ''metal-prices'' ?k ?p]
     @ map (\<lambda>u. UploadPost
              (upload_request_of (JStr ''tok-1'') ?p ''%PDF-1.7 prices'' u
                 ''Metal Price Tracker'' [''Metal Price Update''])) ?ids
     @ [Unlink ?p]"
    using tr1
    by (simp only: tok bucket key content region idsv st append_Nil demo_settings)
  have a2: "fs (snd (main demo_world start)) ?p = None
      \<and> Print MsgCleanedUp \<in> set (trace (snd (main demo_world start)))"
    using rm1 by (simp add: key demo_settings)
  obtain r2 where "fst (main unlink_fails_world start) = Inr r2"
    using unlink_fails_run_results by simp
  then have "\<exists>results. fst (main unlink_fails_world start) = Inr results" by (rule exI)
  then have H2: "(\<exists>results. fst (main unlink_fails_world start) = Inr results)
      \<or> fst (main unlink_fails_world start) = Inl TypeError"
    by (rule disjI1)
  from scratch_file_written_then_removed [THEN conjunct2, THEN mp, OF H2]
  obtain key2 content2 where
    k2: "AWS_S3_FILE_KEY (load_config (environ unlink_fails_world)) = Some key2"
    and c2: "\<exists>bucket. s3_service unlink_fails_world
        (AWS_REGION (load_config (environ unlink_fails_world))) bucket key2 = S3Ok content2"
    and wn: "\<forall>m. unlink_failure unlink_fails_world
               (named_temporary_file unlink_fails_world (snd (splitext key2))) = Some m
         \<longrightarrow> fs (snd (main unlink_fails_world start))
               (named_temporary_file unlink_fails_world (snd (splitext key2))) = Some content2
           \<and> Print (MsgCleanupWarning m) \<in> set (trace (snd (main unlink_fails_world start)))
           \<and> fst (main (unlink_fails_world\<lparr>unlink_failure := \<lambda>q. None\<rparr>) start)
               = fst (main unlink_fails_world start)"
    by (elim exE conjE) (rule that, assumption, rule exI, assumption+)
  have key2: "key2 = ?k" using k2 by (simp add: demo_settings)
  have content2: "content2 = ''%PDF-1.7 prices''" using c2 by (simp add: demo_settings)
  have b: "fs (snd (main unlink_fails_world start)) ?p = Some ''%PDF-1.7 prices''
      \<and> Print (MsgCleanupWarning ''Permission denied'')
           \<in> set (trace (snd (main unlink_fails_world start)))
      \<and> fst (main (unlink_fails_world\<lparr>unlink_failure := \<lambda>q. None\<rparr>) start)
           = fst (main unlink_fails_world start)"
    using wn [rule_format, of "''Permission denied''"]
    by (simp add: key2 content2 demo_settings)
  let ?w3 = null_body_world
  let ?c3 = "load_config (environ ?w3)"
  have pre3: "fst (get_zoho_access_token ?w3 ?c3 start) = Inr (JStr ''tok-1'')
      \<and> AWS_S3_BUCKET ?c3 = Some ''metal-prices'' \<and> ''metal-prices'' \<noteq> []
      \<and> AWS_S3_FILE_KEY ?c3 = Some ?k \<and> ?k \<noteq> []
      \<and> tmp_failure ?w3 (snd (splitext ?k)) = None
      \<and> boto3_client_failure ?w3 (AWS_REGION ?c3) = None
      \<and> s3_service ?w3 (AWS_REGION ?c3) ''metal-prices'' ?k = S3Ok ''%PDF-1.7 prices''
      \<and> filter (\<lambda>x. x \<noteq> []) (map strip (split CHR '','' (ZOHO_CLIQ_USER_IDS ?c3))) = ?ids
      \<and> ?ids \<noteq> []"
    by code_simp
  have ans3: "\<forall>i < length ?ids. \<exists>r.
           cliq_server ?w3 (uploads_sent start + i)
             (upload_request_of (JStr ''tok-1'') (named_temporary_file ?w3 (snd (splitext ?k)))
                ''%PDF-1.7 prices'' (?ids ! i) (ZOHO_BOT_NAME ?c3) [''Metal Price Update''])
             = Reply r
           \<and> (status_code r = 200 \<longrightarrow> json_body r \<noteq> None)"
    by (simp add: All_less_Suc null_body_world_def)
  have hyp3: "fst (get_zoho_access_token ?w3 ?c3 start) = Inr (JStr ''tok-1'')
      \<and> AWS_S3_BUCKET ?c3 = Some ''metal-prices'' \<and> ''metal-prices'' \<noteq> []
      \<and> AWS_S3_FILE_KEY ?c3 = Some ?k \<and> ?k \<noteq> []
      \<and> tmp_failure ?w3 (snd (splitext ?k)) = None
      \<and> boto3_client_failure ?w3 (AWS_REGION ?c3) = None
      \<and> s3_service ?w3 (AWS_REGION ?c3) ''metal-prices'' ?k = S3Ok ''%PDF-1.7 prices''
      \<and> filter (\<lambda>x. x \<noteq> []) (map strip (split CHR '','' (ZOHO_CLIQ_USER_IDS ?c3))) = ?ids
      \<and> ?ids \<noteq> []
      \<and> (\<forall>i < length ?ids. \<exists>r.
           cliq_server ?w3 (uploads_sent start + i)
             (upload_request_of (JStr ''tok-1'') (named_temporary_file ?w3 (snd (splitext ?k)))
                ''%PDF-1.7 prices'' (?ids ! i) (ZOHO_BOT_NAME ?c3) [''Metal Price Update''])
             = Reply r
           \<and> (status_code r = 200 \<longrightarrow> json_body r \<noteq> None))"
    using pre3 ans3 by (elim conjE) (intro conjI, assumption+)
  have H3: "(\<exists>results. fst (main ?w3 start) = Inr results)
      \<or> fst (main ?w3 start) = Inl TypeError"
    by (rule scratch_file_written_then_removed [THEN conjunct1, THEN mp, OF hyp3])
  from scratch_file_written_then_removed [THEN conjunct2, THEN mp, OF H3]
  obtain key3 where
    k3: "AWS_S3_FILE_KEY ?c3 = Some key3"
    and rm3: "unlink_failure ?w3 (named_temporary_file ?w3 (snd (splitext key3))) = None
         \<longrightarrow> fs (snd (main ?w3 start)) (named_temporary_file ?w3 (snd (splitext key3))) = None
           \<and> Print MsgCleanedUp \<in> set (trace (snd (main ?w3 start)))"
    by (elim exE conjE)
  have key3: "key3 = ?k" using k3 by (simp add: demo_settings)
  have c: "fs (snd (main ?w3 start)) ?p = None
      \<and> Print MsgCleanedUp \<in> set (trace (snd (main ?w3 start)))"
    using rm3 by (simp add: key3 demo_settings)
  have ty: "fst (main ?w3 start) = Inl TypeError" by code_simp
  show ?thesis
    by (intro conjI a1 a2 [THEN conjunct1] a2 [THEN conjunct2] b [THEN conjunct1]
        b [THEN conjunct2, THEN conjunct1] b [THEN conjunct2, THEN conjunct2] H3
        c [THEN conjunct1] c [THEN conjunct2] ty)
qed

text \<open>
  The claim as written fails on the paths where the run ends with an exception after
  the download: an upload that ends in a network error, or a recipient list of blanks.
  The file is still there, \<^verbatim>\<open>os.unlink\<close> was never called, and deleting would not
  have failed.
\<close>

theorem scratch_file_left_behind_counterexample:
  "fst (main broken_network_world start) = Inl (RequestException ''Connection reset by peer'')
   \<and> fs (snd (main broken_network_world start)) ''/tmp/tmpab12cd34.pdf''
       = Some ''%PDF-1.7 prices''
   \<and> filter is_unlink (trace (snd (main broken_network_world start))) = []
   \<and> unlink_failure broken_network_world ''/tmp/tmpab12cd34.pdf'' = None
   \<and> fst (main blank_recipients_world start) = Inl (ValueError ''ZOHO_CLIQ_USER_IDS is empty'')
   \<and> fs (snd (main blank_recipients_world start)) ''/tmp/tmpab12cd34.pdf''
       = Some ''%PDF-1.7 prices''
   \<and> filter is_unlink (trace (snd (main blank_recipients_world start))) = []
   \<and> unlink_failure blank_recipients_world ''/tmp/tmpab12cd34.pdf'' = None"
  by code_simp


subsection \<open>The fields of an upload request\<close>

text \<open>
  C4, as the code has it. Every upload request of a run carries, in its multipart body,
  the base name of the local temporary file (\<^verbatim>\<open>tmp\<close>, the random part and the extension
  of the object key: not the base name of the source object), an identifier of the
  resolved recipient list, and the bot name exactly as configured.
\<close>

theorem upload_request_fields:
  assumes "UploadPost q \<in> set (trace (snd (main w s0)))"
    and "UploadPost q \<notin> set (trace s0)"
  shows "\<exists>key. AWS_S3_FILE_KEY (load_config (environ w)) = Some key
     \<and> file_name q = basename (named_temporary_file w (snd (splitext key)))
     \<and> (CHR ''/'' \<notin> set (tmp_random w)
          \<longrightarrow> file_name q = ''tmp'' @ tmp_random w @ snd (splitext key))
     \<and> user_id q \<in> set (filter (\<lambda>x. x \<noteq> [])
          (map strip (split CHR '','' (ZOHO_CLIQ_USER_IDS (load_config (environ w))))))
     \<and> bot_name q = ZOHO_BOT_NAME (load_config (environ w))"
proof -
  have "is_upload (UploadPost q)" by simp
  from main_upload_events [OF assms(1) this assms(2)] obtain tok key f u where
    ky: "AWS_S3_FILE_KEY (load_config (environ w)) = Some key"
    and u: "u \<in> set (filter (\<lambda>x. x \<noteq> [])
                 (map strip (split CHR '','' (ZOHO_CLIQ_USER_IDS (load_config (environ w))))))"
    and q: "UploadPost q = UploadPost (upload_request_of tok
              (named_temporary_file w (snd (splitext key))) f u
              (ZOHO_BOT_NAME (load_config (environ w))) [''Metal Price Update''])"
    by (elim exE conjE)
  have q': "q = upload_request_of tok (named_temporary_file w (snd (splitext key))) f u
              (ZOHO_BOT_NAME (load_config (environ w))) [''Metal Price Update'']"
    using q by simp
  have 1: "file_name q = basename (named_temporary_file w (snd (splitext key)))"
    by (simp add: q' upload_request_of_def)
  have 2: "CHR ''/'' \<notin> set (tmp_random w)
          \<longrightarrow> file_name q = ''tmp'' @ tmp_random w @ snd (splitext key)"
    using 1 temporary_file_basename [of w key] by simp
  have 3: "user_id q \<in> set (filter (\<lambda>x. x \<noteq> [])
          (map strip (split CHR '','' (ZOHO_CLIQ_USER_IDS (load_config (environ w))))))"
    using u by (simp add: q' upload_request_of_def)
  have 4: "bot_name q = ZOHO_BOT_NAME (load_config (environ w))"
    by (simp add: q' upload_request_of_def)
  show ?thesis by (rule exI [of _ key]) (intro conjI ky 1 2 3 4)
qed

theorem upload_request_fields_witness:
  "UploadPost (upload_request_of (JStr ''tok-1'') ''/tmp/tmpab12cd34.pdf'' ''%PDF-1.7 prices''
       ''60019117005'' ''Metal Price Tracker'' [''Metal Price Update''])
     \<in> set (trace (snd (main demo_world start)))
   \<and> file_name (upload_request_of (JStr ''tok-1'') ''/tmp/tmpab12cd34.pdf''
       ''%PDF-1.7 prices'' ''60019117005'' ''Metal Price Tracker'' [''Metal Price Update''])
     = ''tmp'' @ tmp_random demo_world @ ''.pdf''
   \<and> bot_name (upload_request_of (JStr ''tok-1'') ''/tmp/tmpab12cd34.pdf''
       ''%PDF-1.7 prices'' ''60019117005'' ''Metal Price Tracker'' [''Metal Price Update''])
     = ZOHO_BOT_NAME (load_config (environ demo_world))"
proof -
  let ?q = "upload_request_of (JStr ''tok-1'') ''/tmp/tmpab12cd34.pdf'' ''%PDF-1.7 prices''
       ''60019117005'' ''Metal Price Tracker'' [''Metal Price Update'']"
  have sent: "UploadPost ?q \<in> set (trace (snd (main demo_world start)))"
    by code_simp
  have fresh: "UploadPost ?q \<notin> set (trace start)" by (simp add: start_def)
  from upload_request_fields [OF sent fresh] obtain key where
    ky: "AWS_S3_FILE_KEY (load_config (environ demo_world)) = Some key"
    and nm: "CHR ''/'' \<notin> set (tmp_random demo_world)
          \<longrightarrow> file_name ?q = ''tmp'' @ tmp_random demo_world @ snd (splitext key)"
    and bn: "bot_name ?q = ZOHO_BOT_NAME (load_config (environ demo_world))"
    by (elim exE conjE)
  have key: "key = ''reports/prices.pdf''" using ky by (simp add: demo_settings)
  have ext: "snd (splitext ''reports/prices.pdf'') = ''.pdf''" by code_simp
  have ns: "CHR ''/'' \<notin> set (tmp_random demo_world)" by (simp add: demo_world_def)
  have "file_name ?q = ''tmp'' @ tmp_random demo_world @ snd (splitext key)"
    by (rule nm [THEN mp, OF ns])
  then have fn: "file_name ?q = ''tmp'' @ tmp_random demo_world @ ''.pdf''"
    by (simp only: key ext)
  show ?thesis by (intro conjI sent fn bn)
qed

text \<open>
  The claim as written fails: the object key is \<^verbatim>\<open>reports/prices.pdf\<close>, whose base name
  is \<^verbatim>\<open>prices.pdf\<close>, and the three upload requests of the run carry the file name
  \<^verbatim>\<open>tmpab12cd34.pdf\<close>.
\<close>

theorem upload_file_name_is_temporary_counterexample:
  "AWS_S3_FILE_KEY (load_config (environ demo_world)) = Some ''reports/prices.pdf''
   \<and> basename ''reports/prices.pdf'' = ''prices.pdf''
   \<and> map (\<lambda>e. case e of UploadPost q \<Rightarrow> file_name q | _ \<Rightarrow> [])
        (filter is_upload (trace (snd (main demo_world start))))
      = [''tmpab12cd34.pdf'', ''tmpab12cd34.pdf'', ''tmpab12cd34.pdf'']"
  by code_simp

end
